theory Spec2Isabelle
  imports Complex_Main "HOL-Library.AList"
begin

section \<open>Data model of the spawn engine (reference/spawn-engine.js)\<close>

text \<open>
  JavaScript numbers are modelled as real numbers (no rounding, no NaN, no infinities).
  JavaScript objects used as dictionaries are association lists in insertion order, read
  with \<open>map_of\<close> and written with \<open>AList.update\<close> (an existing key keeps its place, a new
  key goes to the end, as a property assignment does). A missing or undefined property is
  \<open>None\<close>. Identifiers, operators and type tags stay strings, as in the source.
\<close>

type_synonym ident = string

text \<open>Truthiness of an optional string property: undefined and the empty string are falsy.\<close>

definition truthy :: "string option \<Rightarrow> bool" where
  "truthy s = (case s of None \<Rightarrow> False | Some x \<Rightarrow> x \<noteq> [])"

text \<open>\<open>Object.assign(target, source)\<close>: every key of the source is written into the target;
  an object spread \<open>{...a, ...b}\<close> is the same on a copy of \<open>a\<close>.\<close>

definition objectAssign :: "(ident \<times> 'a) list \<Rightarrow> (ident \<times> 'a) list \<Rightarrow> (ident \<times> 'a) list" where
  "objectAssign target source = foldl (\<lambda>t kv. AList.update (fst kv) (snd kv) t) target source"

subsection \<open>Conditions (SpawnManager.evaluateCondition)\<close>

datatype condition =
    CondAll "condition list"
  | CondAny "condition list"
  | CondNot condition
  | CondLeaf string ident string real

text \<open>A condition of a trigger: a leaf \<open>{target, operator, value, connector}\<close>.\<close>

record leaf_cond =
  lc_target :: "ident option"
  lc_operator :: string
  lc_value :: real
  lc_connector :: "string option"

text \<open>An entry of \<open>trigger.conditions\<close>: a leaf, or \<open>{type: 'group', conditions, connector}\<close>.\<close>

datatype trig_cond =
    TLeaf leaf_cond
  | TGroup "leaf_cond list" "string option"

record trigger =
  tr_type :: string
  tr_static :: bool
  tr_conditions :: "trig_cond list"
  tr_logic :: "string option"
  tr_removeConditions :: "trig_cond list"
  tr_removeLogic :: "string option"
  tr_target :: "ident option"
  tr_operator :: string
  tr_value :: real

subsection \<open>Node configurations, one per node kind\<close>

record var_cfg =
  vc_initial :: "real option"
  vc_baseRate :: "real option"
  vc_min :: "real option"
  vc_max :: "real option"
  vc_changeMode :: "string option"
  vc_direction :: "string option"

record attr_cfg =
  at_defaultRange :: "(real \<times> real) option"
  at_min :: "real option"
  at_max :: "real option"
  at_precision :: "nat option"
  at_spawnOrder :: "real option"

record layer_cfg =
  ly_order :: "real option"
  ly_rollAt :: "string option"
  ly_traitIds :: "ident list"
  ly_mode :: "string option"
  ly_maxItems :: "nat option"
  ly_initialRolls :: "nat option"
  ly_pickCount :: "nat option"
  ly_diminishingReturns :: bool
  ly_weightFloor :: "real option"

text \<open>An entry of \<open>selection.weightModifiers\<close>: \<open>{condition, operation, value}\<close>.\<close>

record weight_mod =
  wm_condition :: "condition option"
  wm_operation :: string
  wm_value :: real

text \<open>The trigger and autoRemove of a threshold trait: \<open>{target, operator, value}\<close>.\<close>

record threshold =
  th_target :: "ident option"
  th_operator :: string
  th_value :: real

record trait_cfg =
  tc_layerId :: ident
  tc_baseWeight :: "real option"
  tc_mode :: "string option"
  tc_weightModifiers :: "weight_mod list"
  tc_trigger :: "threshold option"
  tc_autoRemove :: "threshold option"
  tc_replaces :: "ident list"
  tc_incompatibleWith :: "ident list"
  tc_eligibility :: "condition list"

record mod_cfg =
  mc_durationType :: "string option"
  mc_duration :: "real option"
  mc_stacking :: "string option"
  mc_maxStacks :: "nat option"
  mc_trigger :: "trigger option"
  mc_exclusiveWith :: "ident list"

text \<open>
  An entry of \<open>compound.requires\<close>: a node id as a string, or an object with any of the
  properties \<open>id, operator, value, item, trait, modifier, condition\<close>.
\<close>

record req_obj =
  rq_id :: "ident option"
  rq_operator :: "string option"
  rq_value :: "real option"
  rq_item :: "ident option"
  rq_trait :: "ident option"
  rq_modifier :: "ident option"
  rq_condition :: "condition option"

datatype requirement = ReqString ident | ReqObj req_obj

record comp_cfg =
  cc_requires :: "requirement list"
  cc_requirementLogic :: "string option"

text \<open>
  A derived formula is JavaScript source compiled with \<open>new Function\<close>; it is modelled by
  the function it denotes, from the evaluation context to its result, \<open>None\<close> when the
  evaluation throws.
\<close>

record der_cfg =
  dc_formula :: "(ident \<Rightarrow> real option) \<Rightarrow> real option"
  dc_min :: "real option"
  dc_max :: "real option"

record act_cfg =
  ac_baseWeight :: "real option"
  ac_cooldown :: "real option"
  ac_costs :: "(ident \<times> real) list"
  ac_requirements :: "ident list"
  ac_blockedBy :: "ident list"
  ac_eligibility :: "condition list option"

text \<open>The \<open>type\<close> tag of a node together with the configuration read for that type.\<close>

datatype node_body =
    Attribute attr_cfg
  | Variable var_cfg
  | Context "real option"
  | Layer layer_cfg
  | Trait trait_cfg
  | Item trait_cfg
  | Modifier mod_cfg
  | Compound comp_cfg
  | Derived der_cfg
  | Action act_cfg

record node =
  nid :: ident
  body :: node_body

text \<open>A normalized relationship (validateAndNormalize keeps exactly these properties).\<close>

record relationship =
  rel_sourceId :: ident
  rel_targetId :: ident
  rel_type :: string
  rel_operation :: string
  rel_value :: real
  rel_scaling :: string
  rel_perPointSource :: "ident option"
  rel_invert :: bool
  rel_conditions :: "condition list"

record config =
  cfg_id :: string
  cfg_nodes :: "node list"
  cfg_relationships :: "relationship list"

subsection \<open>Entities\<close>

record var_state =
  vs_value :: real
  vs_baseRate :: real
  vs_currentRate :: real
  vs_min :: real
  vs_max :: real
  vs_changeMode :: string
  vs_direction :: string

record layer_state =
  ls_active :: "ident list"
  ls_lastRoll :: "real option"

record mod_state =
  ms_appliedAt :: real
  ms_stacks :: nat
  ms_isStatic :: bool
  ms_expiresAt :: "real option"
  ms_ticksRemaining :: "real option"

record entity =
  e_id :: ident
  e_configId :: string
  e_createdAt :: real
  e_presetId :: "ident option"
  e_attributes :: "(ident \<times> real) list"
  e_variables :: "(ident \<times> var_state) list"
  e_contexts :: "(ident \<times> real option) list"
  e_layers :: "(ident \<times> layer_state) list"
  e_modifiers :: "ident list"
  e_modifierStates :: "(ident \<times> mod_state) list option"
  e_compounds :: "ident list"
  e_derived :: "(ident \<times> real) list"
  e_actions :: "(ident \<times> real) list"
  e_poolId :: "ident option"
  e_log :: "string list"
  e_lastTick :: real

section \<open>SpawnManager\<close>

subsection \<open>Indexes (buildIndexes) and node queries\<close>

text \<open>\<open>nodeIndex\<close> is filled in node order with \<open>Map.set\<close>: the last node of an id wins.\<close>

definition getNode :: "config \<Rightarrow> ident \<Rightarrow> node option" where
  "getNode cfg i = find (\<lambda>n. nid n = i) (rev (cfg_nodes cfg))"

definition isTrait :: "node \<Rightarrow> bool" where
  "isTrait n = (case body n of Trait _ \<Rightarrow> True | Item _ \<Rightarrow> True | _ \<Rightarrow> False)"

definition traitCfg :: "node \<Rightarrow> trait_cfg option" where
  "traitCfg n = (case body n of Trait c \<Rightarrow> Some c | Item c \<Rightarrow> Some c | _ \<Rightarrow> None)"

definition getVariables :: "config \<Rightarrow> (ident \<times> var_cfg) list" where
  "getVariables cfg =
     List.map_filter (\<lambda>n. case body n of Variable c \<Rightarrow> Some (nid n, c) | _ \<Rightarrow> None) (cfg_nodes cfg)"

definition getAttributes :: "config \<Rightarrow> (ident \<times> attr_cfg) list" where
  "getAttributes cfg =
     List.map_filter (\<lambda>n. case body n of Attribute c \<Rightarrow> Some (nid n, c) | _ \<Rightarrow> None) (cfg_nodes cfg)"

definition getContexts :: "config \<Rightarrow> (ident \<times> real option) list" where
  "getContexts cfg =
     List.map_filter (\<lambda>n. case body n of Context c \<Rightarrow> Some (nid n, c) | _ \<Rightarrow> None) (cfg_nodes cfg)"

definition getLayerNodes :: "config \<Rightarrow> (ident \<times> layer_cfg) list" where
  "getLayerNodes cfg =
     List.map_filter (\<lambda>n. case body n of Layer c \<Rightarrow> Some (nid n, c) | _ \<Rightarrow> None) (cfg_nodes cfg)"

definition getModifiers :: "config \<Rightarrow> (ident \<times> mod_cfg) list" where
  "getModifiers cfg =
     List.map_filter (\<lambda>n. case body n of Modifier c \<Rightarrow> Some (nid n, c) | _ \<Rightarrow> None) (cfg_nodes cfg)"

definition getCompounds :: "config \<Rightarrow> (ident \<times> comp_cfg) list" where
  "getCompounds cfg =
     List.map_filter (\<lambda>n. case body n of Compound c \<Rightarrow> Some (nid n, c) | _ \<Rightarrow> None) (cfg_nodes cfg)"

definition getDerived :: "config \<Rightarrow> (ident \<times> der_cfg) list" where
  "getDerived cfg =
     List.map_filter (\<lambda>n. case body n of Derived c \<Rightarrow> Some (nid n, c) | _ \<Rightarrow> None) (cfg_nodes cfg)"

definition getActions :: "config \<Rightarrow> (ident \<times> act_cfg) list" where
  "getActions cfg =
     List.map_filter (\<lambda>n. case body n of Action c \<Rightarrow> Some (nid n, c) | _ \<Rightarrow> None) (cfg_nodes cfg)"

definition getRelationshipsTo :: "config \<Rightarrow> ident \<Rightarrow> relationship list" where
  "getRelationshipsTo cfg i = filter (\<lambda>r. rel_targetId r = i) (cfg_relationships cfg)"

subsection \<open>Node state helpers\<close>

definition layerActive :: "entity \<Rightarrow> ident \<Rightarrow> ident list" where
  "layerActive e l = (case map_of (e_layers e) l of None \<Rightarrow> [] | Some s \<Rightarrow> ls_active s)"

definition isNodeActive :: "config \<Rightarrow> entity \<Rightarrow> ident \<Rightarrow> bool" where
  "isNodeActive cfg e i =
     (case getNode cfg i of
        None \<Rightarrow> False
      | Some n \<Rightarrow>
          (case body n of
             Trait c \<Rightarrow> i \<in> set (layerActive e (tc_layerId c))
           | Item c \<Rightarrow> i \<in> set (layerActive e (tc_layerId c))
           | Modifier _ \<Rightarrow> i \<in> set (e_modifiers e)
           | Compound _ \<Rightarrow> i \<in> set (e_compounds e)
           | Attribute _ \<Rightarrow> True
           | Variable _ \<Rightarrow> True
           | Context _ \<Rightarrow> True
           | _ \<Rightarrow> False))"

text \<open>
  The class body defines \<open>getNodeValue\<close> and \<open>compareValues\<close> twice; the later definition
  of a method replaces the earlier one, so the versions of lines 1340 and 1360 are the ones
  every caller reaches.
\<close>

definition getNodeValue :: "config \<Rightarrow> entity \<Rightarrow> ident \<Rightarrow> real" where
  "getNodeValue cfg e i =
     (case getNode cfg i of
        None \<Rightarrow> 0
      | Some n \<Rightarrow>
          (case body n of
             Attribute _ \<Rightarrow> (case map_of (e_attributes e) i of None \<Rightarrow> 0 | Some v \<Rightarrow> v)
           | Variable _ \<Rightarrow> (case map_of (e_variables e) i of None \<Rightarrow> 0 | Some s \<Rightarrow> vs_value s)
           | Context _ \<Rightarrow> (case map_of (e_contexts e) i of Some (Some v) \<Rightarrow> v | _ \<Rightarrow> 0)
           | _ \<Rightarrow> 0))"

text \<open>
  \<open>compareValues(actual, operator, expected)\<close> with a numeric \<open>expected\<close>; \<open>actual\<close> is
  \<open>None\<close> when the property read is undefined. The operators \<open>in\<close> and \<open>includes\<close> need an
  array on one side and are false on numbers.
\<close>

definition compareValues :: "real option \<Rightarrow> string \<Rightarrow> real \<Rightarrow> bool" where
  "compareValues actual operator expected =
     (if operator = ''<'' \<or> operator = ''lt'' then (case actual of None \<Rightarrow> False | Some a \<Rightarrow> a < expected)
      else if operator = ''<='' \<or> operator = ''lte'' then (case actual of None \<Rightarrow> False | Some a \<Rightarrow> a \<le> expected)
      else if operator = ''>'' \<or> operator = ''gt'' then (case actual of None \<Rightarrow> False | Some a \<Rightarrow> a > expected)
      else if operator = ''>='' \<or> operator = ''gte'' then (case actual of None \<Rightarrow> False | Some a \<Rightarrow> a \<ge> expected)
      else if operator = ''=='' \<or> operator = ''eq'' then (case actual of None \<Rightarrow> False | Some a \<Rightarrow> a = expected)
      else if operator = ''==='' then (case actual of None \<Rightarrow> False | Some a \<Rightarrow> a = expected)
      else if operator = ''!='' \<or> operator = ''ne'' then (case actual of None \<Rightarrow> True | Some a \<Rightarrow> a \<noteq> expected)
      else if operator = ''!=='' then (case actual of None \<Rightarrow> True | Some a \<Rightarrow> a \<noteq> expected)
      else False)"

subsection \<open>Condition evaluation\<close>

fun evaluateCondition :: "config \<Rightarrow> entity \<Rightarrow> condition \<Rightarrow> bool" where
  "evaluateCondition cfg e (CondAll cs) = list_all (evaluateCondition cfg e) cs"
| "evaluateCondition cfg e (CondAny cs) = list_ex (evaluateCondition cfg e) cs"
| "evaluateCondition cfg e (CondNot c) = (\<not> evaluateCondition cfg e c)"
| "evaluateCondition cfg e (CondLeaf ty target operator v) =
     (if ty = ''attribute'' then compareValues (map_of (e_attributes e) target) operator v
      else if ty = ''variable'' then
        compareValues (map_option vs_value (map_of (e_variables e) target)) operator v
      else if ty = ''context'' then
        compareValues (case map_of (e_contexts e) target of Some (Some x) \<Rightarrow> Some x | _ \<Rightarrow> None) operator v
      else if ty = ''trait'' \<or> ty = ''item'' then isNodeActive cfg e target
      else if ty = ''modifier'' then target \<in> set (e_modifiers e)
      else if ty = ''compound'' then target \<in> set (e_compounds e)
      else False)"

definition evaluateConditions :: "config \<Rightarrow> entity \<Rightarrow> condition list \<Rightarrow> bool" where
  "evaluateConditions cfg e conditions = list_all (evaluateCondition cfg e) conditions"

subsection \<open>Compounds\<close>

definition checkRequirement :: "config \<Rightarrow> entity \<Rightarrow> requirement \<Rightarrow> bool" where
  "checkRequirement cfg e req =
     (case req of
        ReqString i \<Rightarrow> isNodeActive cfg e i
      | ReqObj r \<Rightarrow>
          (if truthy (rq_id r) \<and> truthy (rq_operator r) \<and> rq_value r \<noteq> None then
             compareValues (Some (getNodeValue cfg e (the (rq_id r)))) (the (rq_operator r)) (the (rq_value r))
           else if truthy (rq_item r) then isNodeActive cfg e (the (rq_item r))
           else if truthy (rq_trait r) then isNodeActive cfg e (the (rq_trait r))
           else if truthy (rq_modifier r) then the (rq_modifier r) \<in> set (e_modifiers e)
           else if rq_condition r \<noteq> None then evaluateCondition cfg e (the (rq_condition r))
           else if truthy (rq_id r) then isNodeActive cfg e (the (rq_id r))
           else False))"

definition checkCompoundRequirements :: "config \<Rightarrow> entity \<Rightarrow> comp_cfg \<Rightarrow> bool" where
  "checkCompoundRequirements cfg e c =
     (if cc_requires c = [] then False
      else if (case cc_requirementLogic c of None \<Rightarrow> True | Some l \<Rightarrow> l = [] \<or> l = ''all'')
        then list_all (checkRequirement cfg e) (cc_requires c)
        else list_ex (checkRequirement cfg e) (cc_requires c))"

text \<open>One iteration of the loop of checkCompounds; \<open>remove1\<close> is indexOf followed by splice.\<close>

definition checkCompound :: "config \<Rightarrow> entity \<Rightarrow> ident \<times> comp_cfg \<Rightarrow> entity" where
  "checkCompound cfg e k =
     (let isActive = fst k \<in> set (e_compounds e);
          requirementsMet = checkCompoundRequirements cfg e (snd k)
      in if requirementsMet \<and> \<not> isActive then e\<lparr>e_compounds := e_compounds e @ [fst k]\<rparr>
         else if \<not> requirementsMet \<and> isActive then e\<lparr>e_compounds := remove1 (fst k) (e_compounds e)\<rparr>
         else e)"

definition checkCompounds :: "config \<Rightarrow> entity \<Rightarrow> entity" where
  "checkCompounds cfg e = foldl (checkCompound cfg) e (getCompounds cfg)"

subsection \<open>Relationship values, rates and derived values\<close>

definition nodeMax :: "config \<Rightarrow> ident \<Rightarrow> real option" where
  "nodeMax cfg i =
     (case getNode cfg i of
        None \<Rightarrow> None
      | Some n \<Rightarrow>
          (case body n of
             Attribute c \<Rightarrow> at_max c
           | Variable c \<Rightarrow> vc_max c
           | Derived c \<Rightarrow> dc_max c
           | _ \<Rightarrow> None))"

definition calculateRelationshipValue :: "config \<Rightarrow> entity \<Rightarrow> relationship \<Rightarrow> real" where
  "calculateRelationshipValue cfg e rel =
     (if rel_scaling rel = ''perPoint'' \<and> truthy (rel_perPointSource rel) then
        (let src = the (rel_perPointSource rel);
             sourceValue = getNodeValue cfg e src;
             sourceValue' = (if rel_invert rel
                             then (case nodeMax cfg src of None \<Rightarrow> 10 | Some m \<Rightarrow> m) - sourceValue
                             else sourceValue)
         in rel_value rel * sourceValue')
      else rel_value rel)"

text \<open>The body of the loop over the rate modifiers of one variable.\<close>

definition applyRate :: "config \<Rightarrow> entity \<Rightarrow> real \<Rightarrow> relationship \<Rightarrow> real" where
  "applyRate cfg e rate rel =
     (if \<not> isNodeActive cfg e (rel_sourceId rel) then rate
      else if \<not> evaluateConditions cfg e (rel_conditions rel) then rate
      else if rel_operation rel = ''add'' then rate + calculateRelationshipValue cfg e rel
      else if rel_operation rel = ''multiply'' then rate * calculateRelationshipValue cfg e rel
      else rate)"

definition recalculateRate :: "config \<Rightarrow> entity \<Rightarrow> ident \<times> var_cfg \<Rightarrow> entity" where
  "recalculateRate cfg e v =
     (case map_of (e_variables e) (fst v) of
        None \<Rightarrow> e
      | Some varState \<Rightarrow>
          (let rateRels = filter (\<lambda>r. rel_type r = ''rate_modifier'') (getRelationshipsTo cfg (fst v));
               rate = foldl (applyRate cfg e) (vs_baseRate varState) rateRels
           in e\<lparr>e_variables := AList.update (fst v) (varState\<lparr>vs_currentRate := rate\<rparr>) (e_variables e)\<rparr>))"

definition recalculateRates :: "config \<Rightarrow> entity \<Rightarrow> entity" where
  "recalculateRates cfg e = foldl (recalculateRate cfg) e (getVariables cfg)"

text \<open>
  The evaluation context \<open>{...attributes, ...variable values, ...contexts}\<close>: a later
  spread replaces an earlier key.
\<close>

definition formulaContext :: "entity \<Rightarrow> ident \<Rightarrow> real option" where
  "formulaContext e k =
     (case map_of (e_contexts e) k of
        Some v \<Rightarrow> v
      | None \<Rightarrow>
          (case map_of (e_variables e) k of
             Some s \<Rightarrow> Some (vs_value s)
           | None \<Rightarrow> map_of (e_attributes e) k))"

definition clampOpt :: "real option \<Rightarrow> real option \<Rightarrow> real \<Rightarrow> real" where
  "clampOpt lo hi v =
     (let upper = (case hi of None \<Rightarrow> v | Some h \<Rightarrow> min h v)
      in case lo of None \<Rightarrow> upper | Some l \<Rightarrow> max l upper)"

definition calculateDerivedOne :: "entity \<Rightarrow> ident \<times> der_cfg \<Rightarrow> entity" where
  "calculateDerivedOne e d =
     (case dc_formula (snd d) (formulaContext e) of
        Some v \<Rightarrow> e\<lparr>e_derived := AList.update (fst d) (clampOpt (dc_min (snd d)) (dc_max (snd d)) v) (e_derived e)\<rparr>
      | None \<Rightarrow> e\<lparr>e_derived := AList.update (fst d) 0 (e_derived e)\<rparr>)"

definition calculateDerived :: "config \<Rightarrow> entity \<Rightarrow> entity" where
  "calculateDerived cfg e = foldl calculateDerivedOne e (getDerived cfg)"

subsection \<open>Weight and eligibility\<close>

text \<open>The layer selection settings read by calculateWeight through \<open>trait.config.layerId\<close>.\<close>

definition layerOf :: "config \<Rightarrow> ident \<Rightarrow> layer_cfg option" where
  "layerOf cfg l =
     (if l = [] then None
      else case getNode cfg l of
             None \<Rightarrow> None
           | Some n \<Rightarrow> (case body n of Layer c \<Rightarrow> Some c | _ \<Rightarrow> None))"

text \<open>
  The square root has no executable code equation; dropping the default one lets the
  simplifier evaluate every definition that does not reach it.
\<close>

declare root_def [code del]

text \<open>
  A weight is a JavaScript number that may be NaN: \<open>Math.sqrt\<close> of a negative base weight
  is NaN, and NaN stays NaN under \<open>+\<close>, \<open>*\<close> and \<open>Math.max\<close>. A weight is a
  \<open>real option\<close>, \<open>None\<close> standing for NaN.
\<close>

definition diminish :: "real \<Rightarrow> real \<Rightarrow> real option" where
  "diminish baseWeight x =
     (if baseWeight < 0 then None else Some (sgn x * sqrt \<bar>x\<bar> * sqrt baseWeight))"

definition nanAdd :: "real option \<Rightarrow> real option \<Rightarrow> real option" where
  "nanAdd a b = (case (a, b) of (Some x, Some y) \<Rightarrow> Some (x + y) | _ \<Rightarrow> None)"

definition applyWeightModifier ::
  "config \<Rightarrow> entity \<Rightarrow> bool \<Rightarrow> real \<Rightarrow> real option \<Rightarrow> weight_mod \<Rightarrow> real option" where
  "applyWeightModifier cfg e useDR baseWeight weight m =
     (if (case wm_condition m of None \<Rightarrow> True | Some c \<Rightarrow> evaluateCondition cfg e c) then
        (if wm_operation m = ''add'' then
           nanAdd weight (if useDR \<and> wm_value m \<noteq> 0 then diminish baseWeight (wm_value m)
                          else Some (wm_value m))
         else if wm_operation m = ''multiply'' then map_option (\<lambda>w. w * wm_value m) weight
         else weight)
      else weight)"

definition applyInfluence ::
  "config \<Rightarrow> entity \<Rightarrow> bool \<Rightarrow> real \<Rightarrow> real option \<Rightarrow> relationship \<Rightarrow> real option" where
  "applyInfluence cfg e useDR baseWeight weight rel =
     (if \<not> isNodeActive cfg e (rel_sourceId rel) then weight
      else if \<not> evaluateConditions cfg e (rel_conditions rel) then weight
      else
        (let v = calculateRelationshipValue cfg e rel
         in if rel_operation rel = ''add'' then
              nanAdd weight (if useDR \<and> v \<noteq> 0 then diminish baseWeight v else Some v)
            else if rel_operation rel = ''multiply'' then map_option (\<lambda>w. w * v) weight
            else weight))"

text \<open>\<open>selection.baseWeight ?? 20\<close>\<close>

definition baseWeightOf :: "trait_cfg \<Rightarrow> real" where
  "baseWeightOf c = (case tc_baseWeight c of None \<Rightarrow> 20 | Some w \<Rightarrow> w)"

definition influencesOf :: "config \<Rightarrow> ident \<Rightarrow> relationship list" where
  "influencesOf cfg i = filter (\<lambda>r. rel_type r = ''weight_influence'') (getRelationshipsTo cfg i)"

definition usesDR :: "config \<Rightarrow> trait_cfg \<Rightarrow> bool" where
  "usesDR cfg c = (case layerOf cfg (tc_layerId c) of None \<Rightarrow> False | Some l \<Rightarrow> ly_diminishingReturns l)"

definition weightFloorOf :: "config \<Rightarrow> trait_cfg \<Rightarrow> real" where
  "weightFloorOf cfg c =
     (case layerOf cfg (tc_layerId c) of
        None \<Rightarrow> 0
      | Some l \<Rightarrow> (case ly_weightFloor l of None \<Rightarrow> 0 | Some f \<Rightarrow> f))"

text \<open>
  The variable \<open>weight\<close> of calculateWeight after the loop over the weight modifiers and
  \<open>n\<close> iterations of the loop over the weight influences.
\<close>

definition weightAfter :: "config \<Rightarrow> entity \<Rightarrow> ident \<times> trait_cfg \<Rightarrow> nat \<Rightarrow> real option" where
  "weightAfter cfg e t n =
     (let baseWeight = baseWeightOf (snd t);
          useDR = usesDR cfg (snd t);
          w1 = foldl (applyWeightModifier cfg e useDR baseWeight) (Some baseWeight) (tc_weightModifiers (snd t))
      in foldl (applyInfluence cfg e useDR baseWeight) w1 (take n (influencesOf cfg (fst t))))"

definition calculateWeight :: "config \<Rightarrow> entity \<Rightarrow> ident \<times> trait_cfg \<Rightarrow> real option" where
  "calculateWeight cfg e t =
     map_option (max (weightFloorOf cfg (snd t)))
       (weightAfter cfg e t (length (influencesOf cfg (fst t))))"

definition checkEligibility :: "config \<Rightarrow> entity \<Rightarrow> trait_cfg \<Rightarrow> bool" where
  "checkEligibility cfg e t = evaluateConditions cfg e (tc_eligibility t)"

definition hasIncompatibility :: "config \<Rightarrow> entity \<Rightarrow> trait_cfg \<Rightarrow> bool" where
  "hasIncompatibility cfg e t = list_ex (isNodeActive cfg e) (tc_incompatibleWith t)"

subsection \<open>Trait activation\<close>

text \<open>Only the event names of the entity log are kept; the log is cut to 500 entries above 1000.\<close>

definition logEvent :: "entity \<Rightarrow> string \<Rightarrow> entity" where
  "logEvent e ev =
     (let l = e_log e @ [ev]
      in if length l > 1000 then e\<lparr>e_log := drop (length l - 500) l\<rparr> else e\<lparr>e_log := l\<rparr>)"

definition ensureLayer :: "entity \<Rightarrow> ident \<Rightarrow> entity" where
  "ensureLayer e l =
     (case map_of (e_layers e) l of
        None \<Rightarrow> e\<lparr>e_layers := AList.update l \<lparr>ls_active = [], ls_lastRoll = None\<rparr> (e_layers e)\<rparr>
      | Some _ \<Rightarrow> e)"

definition setLayerActive :: "entity \<Rightarrow> ident \<Rightarrow> ident list \<Rightarrow> entity" where
  "setLayerActive e l xs =
     (case map_of (e_layers e) l of
        None \<Rightarrow> e
      | Some s \<Rightarrow> e\<lparr>e_layers := AList.update l (s\<lparr>ls_active := xs\<rparr>) (e_layers e)\<rparr>)"

definition deactivateTrait :: "config \<Rightarrow> entity \<Rightarrow> ident \<Rightarrow> bool \<times> entity" where
  "deactivateTrait cfg e traitId =
     (case getNode cfg traitId of
        None \<Rightarrow> (False, e)
      | Some n \<Rightarrow>
          (case traitCfg n of
             None \<Rightarrow> (False, e)
           | Some c \<Rightarrow>
               (case map_of (e_layers e) (tc_layerId c) of
                  None \<Rightarrow> (False, e)
                | Some s \<Rightarrow>
                    if traitId \<notin> set (ls_active s) then (False, e)
                    else (True, setLayerActive e (tc_layerId c) (remove1 traitId (ls_active s))))))"

definition activateTrait :: "config \<Rightarrow> entity \<Rightarrow> ident \<Rightarrow> bool \<times> entity" where
  "activateTrait cfg e traitId =
     (case getNode cfg traitId of
        None \<Rightarrow> (False, e)
      | Some n \<Rightarrow>
          (case traitCfg n of
             None \<Rightarrow> (False, e)
           | Some c \<Rightarrow>
               (let e1 = ensureLayer e (tc_layerId c)
                in if traitId \<in> set (layerActive e1 (tc_layerId c)) then (False, e1)
                   else
                     (let e2 = foldl (\<lambda>x r. snd (deactivateTrait cfg x r)) e1 (tc_replaces c);
                          e3 = setLayerActive e2 (tc_layerId c) (layerActive e2 (tc_layerId c) @ [traitId])
                      in (True, logEvent e3 ''traitActivated'')))))"

definition forceActivateTrait :: "config \<Rightarrow> entity \<Rightarrow> ident \<Rightarrow> bool \<times> entity" where
  "forceActivateTrait cfg e traitId =
     (case getNode cfg traitId of
        None \<Rightarrow> (False, e)
      | Some n \<Rightarrow>
          (case traitCfg n of
             None \<Rightarrow> (False, e)
           | Some c \<Rightarrow>
               (let e1 = ensureLayer e (tc_layerId c)
                in if traitId \<in> set (layerActive e1 (tc_layerId c)) then (True, e1)
                   else (True, setLayerActive e1 (tc_layerId c) (layerActive e1 (tc_layerId c) @ [traitId])))))"

text \<open>A relationship takes effect when its source is active and its conditions pass.\<close>

definition passing :: "config \<Rightarrow> entity \<Rightarrow> relationship \<Rightarrow> bool" where
  "passing cfg e r = (isNodeActive cfg e (rel_sourceId r) \<and> evaluateConditions cfg e (rel_conditions r))"

subsection \<open>Layer selection\<close>

text \<open>
  \<open>Math.random()\<close> is a stream \<open>rnd\<close> of numbers in \<open>[0, 1)\<close> supplied by the host and a
  position \<open>k\<close> in it; a function that draws returns the new position.
\<close>

definition blankSelection :: trait_cfg where
  "blankSelection = \<lparr>tc_layerId = [], tc_baseWeight = None, tc_mode = None, tc_weightModifiers = [],
     tc_trigger = None, tc_autoRemove = None, tc_replaces = [], tc_incompatibleWith = [],
     tc_eligibility = []\<rparr>"

text \<open>
  What the selection code reads of a listed node: \<open>config.selection.mode\<close>,
  \<open>config.selection.baseWeight\<close>, \<open>config.selection.weightModifiers\<close>,
  \<open>config.eligibility\<close>, \<open>config.incompatibleWith\<close> and \<open>config.layerId\<close>. A trait
  or item node has them all; a layer node has \<open>selection.mode\<close>, an action node
  \<open>eligibility\<close>, and every other read gives undefined (no layer: the empty id).
\<close>

definition selectionView :: "node \<Rightarrow> trait_cfg" where
  "selectionView n =
     (case body n of
        Trait c \<Rightarrow> c
      | Item c \<Rightarrow> c
      | Layer l \<Rightarrow> blankSelection\<lparr>tc_mode := ly_mode l\<rparr>
      | Action a \<Rightarrow> blankSelection\<lparr>tc_eligibility := (case ac_eligibility a of None \<Rightarrow> [] | Some cs \<Rightarrow> cs)\<rparr>
      | _ \<Rightarrow> blankSelection)"

text \<open>
  getLayerTraits: \<open>ids.map(id => this.getNode(id)).filter(Boolean)\<close> keeps every id that
  names a node, of any type.
\<close>

definition getLayerTraits :: "config \<Rightarrow> ident \<Rightarrow> (ident \<times> trait_cfg) list" where
  "getLayerTraits cfg layerId =
     (case getNode cfg layerId of
        None \<Rightarrow> []
      | Some n \<Rightarrow>
          (case body n of
             Layer l \<Rightarrow>
               List.map_filter (\<lambda>i. map_option (\<lambda>t. (i, selectionView t)) (getNode cfg i)) (ly_traitIds l)
           | _ \<Rightarrow> []))"

record roll_result =
  rr_success :: bool
  rr_selected :: "ident list"
  rr_pool :: "(ident \<times> real) list"
  rr_error :: string

text \<open>The loop \<open>roll -= weight; if (roll <= 0) return ...\<close> over a pool.\<close>

fun pickWeighted :: "(ident \<times> real) list \<Rightarrow> real \<Rightarrow> ident option" where
  "pickWeighted [] roll = None"
| "pickWeighted (p # ps) roll = (if roll - snd p \<le> 0 then Some (fst p) else pickWeighted ps (roll - snd p))"

text \<open>The pool of selectWeighted; \<open>weight > 0\<close> is false of NaN.\<close>

definition weightedPool :: "config \<Rightarrow> entity \<Rightarrow> ident \<Rightarrow> (ident \<times> real) list" where
  "weightedPool cfg e layerId =
     List.map_filter
       (\<lambda>t. if fst t \<notin> set (layerActive e layerId)
                \<and> tc_mode (snd t) \<noteq> Some ''threshold''
                \<and> checkEligibility cfg e (snd t)
                \<and> \<not> hasIncompatibility cfg e (snd t)
             then (case calculateWeight cfg e t of
                     None \<Rightarrow> None
                   | Some w \<Rightarrow> if w > 0 then Some (fst t, w) else None)
             else None)
       (getLayerTraits cfg layerId)"

definition selectWeighted :: "config \<Rightarrow> (nat \<Rightarrow> real) \<Rightarrow> nat \<Rightarrow> entity \<Rightarrow> ident \<Rightarrow> roll_result \<times> nat" where
  "selectWeighted cfg rnd k e layerId =
     (let pool = weightedPool cfg e layerId
      in if pool = [] then
           (\<lparr>rr_success = False, rr_selected = [], rr_pool = [], rr_error = ''No eligible traits''\<rparr>, k)
         else
           (let totalWeight = sum_list (map snd pool);
                roll = rnd k * totalWeight
            in (\<lparr>rr_success = True,
                 rr_selected = [case pickWeighted pool roll of None \<Rightarrow> fst (hd pool) | Some i \<Rightarrow> i],
                 rr_pool = pool, rr_error = []\<rparr>, Suc k)))"

definition selectAllMatching :: "config \<Rightarrow> entity \<Rightarrow> ident \<Rightarrow> roll_result" where
  "selectAllMatching cfg e layerId =
     \<lparr>rr_success = True,
      rr_selected = map fst
        (filter (\<lambda>t. fst t \<notin> set (layerActive e layerId)
                    \<and> checkEligibility cfg e (snd t)
                    \<and> \<not> hasIncompatibility cfg e (snd t))
           (getLayerTraits cfg layerId)),
      rr_pool = [], rr_error = []\<rparr>"

text \<open>The index found by the inner loop of selectPickN, which splices the pick out.\<close>

fun pickIndex :: "(ident \<times> real) list \<Rightarrow> real \<Rightarrow> nat option" where
  "pickIndex [] roll = None"
| "pickIndex (p # ps) roll = (if roll - snd p \<le> 0 then Some 0 else map_option Suc (pickIndex ps (roll - snd p)))"

text \<open>The draws of selectPickN: \<open>n\<close> rounds over the remaining pool, one random number each.\<close>

fun pickNLoop :: "(nat \<Rightarrow> real) \<Rightarrow> nat \<Rightarrow> nat \<Rightarrow> (ident \<times> real) list \<Rightarrow> ident list \<Rightarrow> ident list \<times> nat" where
  "pickNLoop rnd k 0 remaining selected = (selected, k)"
| "pickNLoop rnd k (Suc n) remaining selected =
     (if remaining = [] then (selected, k)
      else case pickIndex remaining (rnd k * sum_list (map snd remaining)) of
             None \<Rightarrow> pickNLoop rnd (Suc k) n remaining selected
           | Some j \<Rightarrow> pickNLoop rnd (Suc k) n (take j remaining @ drop (Suc j) remaining)
                        (selected @ [fst (remaining ! j)]))"

definition selectPickN :: "config \<Rightarrow> (nat \<Rightarrow> real) \<Rightarrow> nat \<Rightarrow> entity \<Rightarrow> ident \<Rightarrow> nat \<Rightarrow> roll_result \<times> nat" where
  "selectPickN cfg rnd k e layerId n =
     (let r = selectWeighted cfg rnd k e layerId
      in if rr_pool (fst r) = [] then
           (\<lparr>rr_success = False, rr_selected = [], rr_pool = [], rr_error = ''No eligible traits''\<rparr>, snd r)
         else
           (let p = pickNLoop rnd (snd r) n (rr_pool (fst r)) []
            in (\<lparr>rr_success = True, rr_selected = fst p, rr_pool = [], rr_error = []\<rparr>, snd p)))"

definition selectFirstMatch :: "config \<Rightarrow> entity \<Rightarrow> ident \<Rightarrow> roll_result" where
  "selectFirstMatch cfg e layerId =
     (case find (\<lambda>t. fst t \<notin> set (layerActive e layerId)
                    \<and> checkEligibility cfg e (snd t)
                    \<and> \<not> hasIncompatibility cfg e (snd t))
             (getLayerTraits cfg layerId) of
        None \<Rightarrow> \<lparr>rr_success = False, rr_selected = [], rr_pool = [], rr_error = ''No matching traits''\<rparr>
      | Some t \<Rightarrow> \<lparr>rr_success = True, rr_selected = [fst t], rr_pool = [], rr_error = []\<rparr>)"

text \<open>
  rollLayer. Its last statement writes \<open>entity.layers[layerId].lastRoll\<close>; when the entity
  has no state for the layer this is a property write on undefined, a TypeError.
\<close>

definition rollLayer ::
  "config \<Rightarrow> real \<Rightarrow> (nat \<Rightarrow> real) \<Rightarrow> nat \<Rightarrow> entity \<Rightarrow> ident \<Rightarrow> string + (roll_result \<times> entity \<times> nat)" where
  "rollLayer cfg now rnd k e layerId =
     (case (case getNode cfg layerId of None \<Rightarrow> None
            | Some n \<Rightarrow> (case body n of Layer l \<Rightarrow> Some l | _ \<Rightarrow> None)) of
        None \<Rightarrow> Inr (\<lparr>rr_success = False, rr_selected = [], rr_pool = [], rr_error = ''Invalid layer''\<rparr>, e, k)
      | Some l \<Rightarrow>
          (let mode = (case ly_mode l of None \<Rightarrow> ''weighted'' | Some m \<Rightarrow> if m = [] then ''weighted'' else m);
               maxItems = (case ly_maxItems l of None \<Rightarrow> 10 | Some m \<Rightarrow> m)
           in if length (layerActive e layerId) \<ge> maxItems then
                Inr (\<lparr>rr_success = False, rr_selected = [], rr_pool = [], rr_error = ''Layer at capacity''\<rparr>, e, k)
              else
                (let r = (if mode = ''allMatching'' then (selectAllMatching cfg e layerId, k)
                          else if mode = ''pickN'' then
                            selectPickN cfg rnd k e layerId
                              (case ly_pickCount l of None \<Rightarrow> 1 | Some c \<Rightarrow> if c = 0 then 1 else c)
                          else if mode = ''firstMatch'' then (selectFirstMatch cfg e layerId, k)
                          else selectWeighted cfg rnd k e layerId)
                 in if rr_selected (fst r) = [] then Inr (fst r, e, snd r)
                    else
                      (let e1 = foldl (\<lambda>x t. snd (activateTrait cfg x t)) e (rr_selected (fst r))
                       in case map_of (e_layers e1) layerId of
                            None \<Rightarrow> Inl ''TypeError''
                          | Some s \<Rightarrow>
                              Inr (fst r,
                                   e1\<lparr>e_layers := AList.update layerId (s\<lparr>ls_lastRoll := Some now\<rparr>) (e_layers e1)\<rparr>,
                                   snd r)))))"

subsection \<open>Generation\<close>

text \<open>\<open>Math.round\<close> rounds half up.\<close>

definition mathRound :: "real \<Rightarrow> real" where
  "mathRound x = of_int \<lfloor>x + 1 / 2\<rfloor>"

definition rollRange :: "real \<Rightarrow> real \<Rightarrow> real \<Rightarrow> nat \<Rightarrow> real" where
  "rollRange r lo hi precision =
     (let v = lo + r * (hi - lo)
      in if precision = 0 then mathRound v else mathRound (v * 10 ^ precision) / 10 ^ precision)"

text \<open>The body of the loop of getModifiedAttributeRange over the value modifiers.\<close>

definition applyValueModifier :: "config \<Rightarrow> entity \<Rightarrow> real \<times> real \<Rightarrow> relationship \<Rightarrow> real \<times> real" where
  "applyValueModifier cfg e bounds rel =
     (if \<not> isNodeActive cfg e (rel_sourceId rel) then bounds
      else if \<not> evaluateConditions cfg e (rel_conditions rel) then bounds
      else
        (let v = calculateRelationshipValue cfg e rel;
             op = (if rel_operation rel = [] then ''add'' else rel_operation rel)
         in if op = ''add'' then (fst bounds + v, snd bounds + v)
            else if op = ''multiply'' then (fst bounds * v, snd bounds * v)
            else bounds))"

definition getModifiedAttributeRange :: "config \<Rightarrow> entity \<Rightarrow> ident \<times> attr_cfg \<Rightarrow> real \<times> real" where
  "getModifiedAttributeRange cfg e attr =
     (let lo = (case at_defaultRange (snd attr) of Some r \<Rightarrow> fst r
                | None \<Rightarrow> (case at_min (snd attr) of Some m \<Rightarrow> m | None \<Rightarrow> 1));
          hi = (case at_defaultRange (snd attr) of Some r \<Rightarrow> snd r
                | None \<Rightarrow> (case at_max (snd attr) of Some m \<Rightarrow> m | None \<Rightarrow> 10))
      in foldl (applyValueModifier cfg e) (lo, hi)
           (filter (\<lambda>r. rel_type r = ''value_modifier'') (getRelationshipsTo cfg (fst attr))))"

datatype spawn_item = SpawnAttribute ident attr_cfg | SpawnLayer ident layer_cfg

definition getSpawnOrder :: "config \<Rightarrow> (real \<times> spawn_item) list" where
  "getSpawnOrder cfg =
     sort_key fst
       (map (\<lambda>a. (case at_spawnOrder (snd a) of None \<Rightarrow> 0 | Some x \<Rightarrow> x, SpawnAttribute (fst a) (snd a)))
          (getAttributes cfg)
        @ map (\<lambda>l. (case ly_order (snd l) of None \<Rightarrow> 0 | Some x \<Rightarrow> x, SpawnLayer (fst l) (snd l)))
            (filter (\<lambda>l. ly_rollAt (snd l) = Some ''create'' \<or> ly_rollAt (snd l) = Some ''spawn'')
               (getLayerNodes cfg)))"

text \<open>getLayers: the layer nodes sorted by \<open>config.order || 0\<close>.\<close>

definition getLayers :: "config \<Rightarrow> (ident \<times> layer_cfg) list" where
  "getLayers cfg = sort_key (\<lambda>l. case ly_order (snd l) of None \<Rightarrow> 0 | Some x \<Rightarrow> x) (getLayerNodes cfg)"

text \<open>
  The overrides of generate: an id, attribute values and context values. Without an id the
  entity gets the id \<open>fresh\<close>, which stands for the id built from the clock and the random
  source.
\<close>

record gen_overrides =
  go_id :: "ident option"
  go_attributes :: "(ident \<times> real) list"
  go_contexts :: "(ident \<times> real option) list"

definition initialVariable :: "var_cfg \<Rightarrow> var_state" where
  "initialVariable c =
     \<lparr>vs_value = (case vc_initial c of None \<Rightarrow> 100 | Some v \<Rightarrow> v),
      vs_baseRate = (case vc_baseRate c of None \<Rightarrow> 0 | Some v \<Rightarrow> v),
      vs_currentRate = (case vc_baseRate c of None \<Rightarrow> 0 | Some v \<Rightarrow> v),
      vs_min = (case vc_min c of None \<Rightarrow> 0 | Some v \<Rightarrow> v),
      vs_max = (case vc_max c of None \<Rightarrow> 100 | Some v \<Rightarrow> v),
      vs_changeMode = (case vc_changeMode c of None \<Rightarrow> ''manual'' | Some m \<Rightarrow> if m = [] then ''manual'' else m),
      vs_direction = (case vc_direction c of None \<Rightarrow> ''none'' | Some m \<Rightarrow> if m = [] then ''none'' else m)\<rparr>"

text \<open>The entity of generate before the spawn order is processed.\<close>

definition newEntity :: "config \<Rightarrow> real \<Rightarrow> ident \<Rightarrow> gen_overrides \<Rightarrow> entity" where
  "newEntity cfg now fresh ov =
     \<lparr>e_id = (if truthy (go_id ov) then the (go_id ov) else fresh),
      e_configId = cfg_id cfg, e_createdAt = now, e_presetId = None,
      e_attributes = [],
      e_variables = foldl (\<lambda>vs v. AList.update (fst v) (initialVariable (snd v)) vs) [] (getVariables cfg),
      e_contexts = foldl (\<lambda>cs c. AList.update (fst c)
                            (case map_of (go_contexts ov) (fst c) of Some (Some x) \<Rightarrow> Some x | _ \<Rightarrow> snd c) cs)
                     [] (getContexts cfg),
      e_layers = foldl (\<lambda>ls l. AList.update (fst l) \<lparr>ls_active = [], ls_lastRoll = None\<rparr> ls) [] (getLayers cfg),
      e_modifiers = [], e_modifierStates = None, e_compounds = [], e_derived = [], e_actions = [],
      e_poolId = None, e_log = [], e_lastTick = now\<rparr>"

text \<open>\<open>initialRolls\<close> calls of rollLayer; a TypeError ends the loop.\<close>

fun rollTimes ::
  "config \<Rightarrow> real \<Rightarrow> (nat \<Rightarrow> real) \<Rightarrow> ident \<Rightarrow> nat \<Rightarrow> entity \<times> nat \<Rightarrow> string + (entity \<times> nat)" where
  "rollTimes cfg now rnd layerId 0 ek = Inr ek"
| "rollTimes cfg now rnd layerId (Suc n) ek =
     (case rollLayer cfg now rnd (snd ek) (fst ek) layerId of
        Inl err \<Rightarrow> Inl err
      | Inr r \<Rightarrow> rollTimes cfg now rnd layerId n (fst (snd r), snd (snd r)))"

definition spawnStep ::
  "config \<Rightarrow> real \<Rightarrow> (nat \<Rightarrow> real) \<Rightarrow> gen_overrides \<Rightarrow> string + (entity \<times> nat) \<Rightarrow> real \<times> spawn_item
   \<Rightarrow> string + (entity \<times> nat)" where
  "spawnStep cfg now rnd ov acc item =
     (case acc of
        Inl err \<Rightarrow> Inl err
      | Inr ek \<Rightarrow>
          (case snd item of
             SpawnAttribute i c \<Rightarrow>
               (case map_of (go_attributes ov) i of
                  Some v \<Rightarrow> Inr ((fst ek)\<lparr>e_attributes := AList.update i v (e_attributes (fst ek))\<rparr>, snd ek)
                | None \<Rightarrow>
                    (let bounds = getModifiedAttributeRange cfg (fst ek) (i, c);
                         v = rollRange (rnd (snd ek)) (fst bounds) (snd bounds)
                               (case at_precision c of None \<Rightarrow> 0 | Some p \<Rightarrow> p)
                     in Inr ((fst ek)\<lparr>e_attributes := AList.update i v (e_attributes (fst ek))\<rparr>, Suc (snd ek))))
           | SpawnLayer i l \<Rightarrow>
               rollTimes cfg now rnd i
                 (case ly_initialRolls l of None \<Rightarrow> 1 | Some n \<Rightarrow> if n = 0 then 1 else n) ek))"

text \<open>The overrides for attributes that the spawn order did not set.\<close>

definition remainingOverrides :: "gen_overrides \<Rightarrow> entity \<Rightarrow> entity" where
  "remainingOverrides ov e =
     foldl (\<lambda>x kv. case map_of (e_attributes x) (fst kv) of
                      None \<Rightarrow> x\<lparr>e_attributes := AList.update (fst kv) (snd kv) (e_attributes x)\<rparr>
                    | Some _ \<Rightarrow> x)
       e (go_attributes ov)"

definition initActions :: "config \<Rightarrow> entity \<Rightarrow> entity" where
  "initActions cfg e =
     foldl (\<lambda>x a. x\<lparr>e_actions := AList.update (fst a) 0 (e_actions x)\<rparr>) e (getActions cfg)"

text \<open>Everything generate does before it recomputes compounds, derived values and rates.\<close>

definition generateBody ::
  "config \<Rightarrow> real \<Rightarrow> ident \<Rightarrow> (nat \<Rightarrow> real) \<Rightarrow> nat \<Rightarrow> gen_overrides \<Rightarrow> string + (entity \<times> nat)" where
  "generateBody cfg now fresh rnd k ov =
     (case foldl (spawnStep cfg now rnd ov) (Inr (newEntity cfg now fresh ov, k)) (getSpawnOrder cfg) of
        Inl err \<Rightarrow> Inl err
      | Inr ek \<Rightarrow> Inr (remainingOverrides ov (fst ek), snd ek))"

definition generate ::
  "config \<Rightarrow> real \<Rightarrow> ident \<Rightarrow> (nat \<Rightarrow> real) \<Rightarrow> nat \<Rightarrow> gen_overrides \<Rightarrow> string + (entity \<times> nat)" where
  "generate cfg now fresh rnd k ov =
     (case generateBody cfg now fresh rnd k ov of
        Inl err \<Rightarrow> Inl err
      | Inr ek \<Rightarrow>
          (let e1 = checkCompounds cfg (fst ek);
               e2 = calculateDerived cfg e1;
               e3 = recalculateRates cfg e2;
               e4 = initActions cfg e3
           in Inr (logEvent e4 ''generated'', snd ek)))"

subsection \<open>Actions\<close>

definition isActionAvailable :: "config \<Rightarrow> entity \<Rightarrow> ident \<Rightarrow> bool" where
  "isActionAvailable cfg e actionId =
     (case (case getNode cfg actionId of None \<Rightarrow> None
            | Some n \<Rightarrow> (case body n of Action a \<Rightarrow> Some a | _ \<Rightarrow> None)) of
        None \<Rightarrow> False
      | Some a \<Rightarrow>
          \<not> (case map_of (e_actions e) actionId of None \<Rightarrow> False | Some c \<Rightarrow> c > 0)
          \<and> list_all (\<lambda>vc. case map_of (e_variables e) (fst vc) of
                              None \<Rightarrow> False
                            | Some s \<Rightarrow> \<not> vs_value s < snd vc) (ac_costs a)
          \<and> list_all (isNodeActive cfg e) (ac_requirements a)
          \<and> \<not> list_ex (isNodeActive cfg e) (ac_blockedBy a)
          \<and> (case ac_eligibility a of None \<Rightarrow> True | Some cs \<Rightarrow> evaluateConditions cfg e cs))"

text \<open>The cost deduction of executeAction for one variable: the new value is clamped below only.\<close>

definition deductCost :: "entity \<Rightarrow> ident \<times> real \<Rightarrow> entity" where
  "deductCost e vc =
     (case map_of (e_variables e) (fst vc) of
        None \<Rightarrow> e
      | Some s \<Rightarrow>
          e\<lparr>e_variables := AList.update (fst vc) (s\<lparr>vs_value := max (vs_min s) (vs_value s - snd vc)\<rparr>)
                               (e_variables e)\<rparr>)"

definition executeAction :: "config \<Rightarrow> entity \<Rightarrow> ident \<Rightarrow> bool \<times> entity" where
  "executeAction cfg e actionId =
     (if \<not> isActionAvailable cfg e actionId then (False, e)
      else case (case getNode cfg actionId of None \<Rightarrow> None
                 | Some n \<Rightarrow> (case body n of Action a \<Rightarrow> Some a | _ \<Rightarrow> None)) of
             None \<Rightarrow> (False, e)
           | Some a \<Rightarrow>
               (let e1 = foldl deductCost e (ac_costs a);
                    e2 = e1\<lparr>e_actions := AList.update actionId
                                (case ac_cooldown a of None \<Rightarrow> 0 | Some c \<Rightarrow> c) (e_actions e1)\<rparr>
                in (True, logEvent e2 ''actionExecuted'')))"

text \<open>getActionCooldown: remaining cooldown, total cooldown, ready.\<close>

definition getActionCooldown :: "config \<Rightarrow> entity \<Rightarrow> ident \<Rightarrow> real \<times> real \<times> bool" where
  "getActionCooldown cfg e actionId =
     (let total = (case getNode cfg actionId of None \<Rightarrow> 0
                   | Some n \<Rightarrow> (case body n of
                                  Action a \<Rightarrow> (case ac_cooldown a of None \<Rightarrow> 0 | Some c \<Rightarrow> c)
                                | _ \<Rightarrow> 0));
          remaining = (case map_of (e_actions e) actionId of None \<Rightarrow> 0 | Some c \<Rightarrow> c)
      in (remaining, total, remaining \<le> 0))"

subsection \<open>Presets and spawn\<close>

text \<open>
  An attribute specification of a preset: a number, \<open>{min, max}\<close>, \<open>{base, variance}\<close>,
  \<open>{value}\<close>, or anything else. A trait specification: one id, a list of ids, or an
  object \<open>{mode, pool, chance, count}\<close> whose pool items are ids with an optional weight.
  A \<open>taxonomyFilter\<close> is not modelled.
\<close>

datatype attr_spec = AFixed real | ARange real real | ABase real "real option" | AValue real | AOther

datatype trait_spec =
    TForce ident
  | TForceAll "ident list"
  | TMode "string option" "(ident \<times> real option) list" "real option" "nat option"

text \<open>An action weight of a preset: a number, or \<open>{weight, condition}\<close>.\<close>

datatype preset_action = PANumber real | PAObject "real option" "condition option"

record preset =
  pr_attributes :: "(ident \<times> attr_spec) list"
  pr_contexts :: "(ident \<times> real option) list"
  pr_forceTraits :: "ident list"
  pr_traits :: "(ident \<times> trait_spec) list"
  pr_actions :: "(ident \<times> preset_action) list"

record spawn_overrides =
  so_id :: "ident option"
  so_attributes :: "(ident \<times> attr_spec) list"
  so_contexts :: "(ident \<times> real option) list"
  so_forceTraits :: "ident list"
  so_traits :: "(ident \<times> trait_spec) list"

definition resolvePresetAttributeValue :: "(nat \<Rightarrow> real) \<Rightarrow> nat \<Rightarrow> attr_spec \<Rightarrow> nat \<Rightarrow> real \<times> nat" where
  "resolvePresetAttributeValue rnd k spec precision =
     (case spec of
        AFixed v \<Rightarrow> (v, k)
      | ARange lo hi \<Rightarrow> (rollRange (rnd k) lo hi precision, Suc k)
      | ABase b v \<Rightarrow>
          (let variance = (case v of None \<Rightarrow> 0 | Some x \<Rightarrow> x)
           in (rollRange (rnd k) (b - variance) (b + variance) precision, Suc k))
      | AValue v \<Rightarrow> (v, k)
      | AOther \<Rightarrow> (0, k))"

definition attrPrecision :: "config \<Rightarrow> ident \<Rightarrow> nat" where
  "attrPrecision cfg i =
     (case getNode cfg i of
        None \<Rightarrow> 0
      | Some n \<Rightarrow> (case body n of
                     Attribute c \<Rightarrow> (case at_precision c of None \<Rightarrow> 0 | Some p \<Rightarrow> p)
                   | _ \<Rightarrow> 0))"

definition resolvePresetAttributes ::
  "config \<Rightarrow> (nat \<Rightarrow> real) \<Rightarrow> nat \<Rightarrow> (ident \<times> attr_spec) list \<Rightarrow> (ident \<times> real) list \<times> nat" where
  "resolvePresetAttributes cfg rnd k attributes =
     foldl (\<lambda>acc kv.
              (let r = resolvePresetAttributeValue rnd (snd acc) (snd kv) (attrPrecision cfg (fst kv))
               in (AList.update (fst kv) (fst r) (fst acc), snd r)))
       ([], k) attributes"

definition poolWeights :: "(ident \<times> real option) list \<Rightarrow> (ident \<times> real) list" where
  "poolWeights p = map (\<lambda>i. (fst i, case snd i of None \<Rightarrow> 1 | Some w \<Rightarrow> w)) p"

definition selectWeightedFromPool :: "(nat \<Rightarrow> real) \<Rightarrow> nat \<Rightarrow> (ident \<times> real option) list \<Rightarrow> ident option \<times> nat" where
  "selectWeightedFromPool rnd k p =
     (if p = [] then (None, k)
      else (case pickWeighted (poolWeights p) (rnd k * sum_list (map snd (poolWeights p))) of
              None \<Rightarrow> Some (fst (hd p))
            | Some i \<Rightarrow> Some i, Suc k))"

definition selectNFromPool :: "(nat \<Rightarrow> real) \<Rightarrow> nat \<Rightarrow> (ident \<times> real option) list \<Rightarrow> nat \<Rightarrow> ident list \<times> nat" where
  "selectNFromPool rnd k p n = (if p = [] then ([], k) else pickNLoop rnd k n (poolWeights p) [])"

text \<open>The index \<open>Math.floor(Math.random() * pool.length)\<close>.\<close>

definition randomIndex :: "real \<Rightarrow> nat \<Rightarrow> nat" where
  "randomIndex r n = nat \<lfloor>r * real n\<rfloor>"

definition resolveTraitSpec :: "(nat \<Rightarrow> real) \<Rightarrow> ident list \<times> nat \<Rightarrow> ident \<times> trait_spec \<Rightarrow> ident list \<times> nat" where
  "resolveTraitSpec rnd acc ls =
     (case snd ls of
        TForce i \<Rightarrow> (fst acc @ [i], snd acc)
      | TForceAll is \<Rightarrow> (fst acc @ is, snd acc)
      | TMode m p chance count \<Rightarrow>
          (let mode = (case m of None \<Rightarrow> ''weighted'' | Some x \<Rightarrow> if x = [] then ''weighted'' else x)
           in if p = [] then acc
              else if mode = ''chance'' then
                (if rnd (snd acc) < (case chance of None \<Rightarrow> 1 / 2 | Some c \<Rightarrow> c)
                 then (if randomIndex (rnd (Suc (snd acc))) (length p) < length p
                       then fst acc @ [fst (p ! randomIndex (rnd (Suc (snd acc))) (length p))]
                       else fst acc, Suc (Suc (snd acc)))
                 else (fst acc, Suc (snd acc)))
              else if mode = ''pickN'' then
                (let r = selectNFromPool rnd (snd acc) p (case count of None \<Rightarrow> 1 | Some c \<Rightarrow> c)
                 in (fst acc @ fst r, snd r))
              else if mode = ''all'' then (fst acc @ map fst p, snd acc)
              else
                (let r = selectWeightedFromPool rnd (snd acc) p
                 in (case fst r of None \<Rightarrow> fst acc | Some i \<Rightarrow> if i = [] then fst acc else fst acc @ [i], snd r))))"

definition resolvePresetTraits :: "(nat \<Rightarrow> real) \<Rightarrow> nat \<Rightarrow> (ident \<times> trait_spec) list \<Rightarrow> ident list \<times> nat" where
  "resolvePresetTraits rnd k traits = foldl (resolveTraitSpec rnd) ([], k) traits"

definition forceAll :: "config \<Rightarrow> entity \<Rightarrow> ident list \<Rightarrow> entity" where
  "forceAll cfg e traitIds = foldl (\<lambda>x t. snd (forceActivateTrait cfg x t)) e traitIds"

text \<open>
  What spawn resolves before it calls generate: the traits to force (those of the preset's
  \<open>forceTraits\<close>, the preset's resolved \<open>traits\<close>, the overrides' \<open>forceTraits\<close> and the
  overrides' resolved \<open>traits\<close>, in this order), the overrides handed to generate, and the
  position in the random stream.
\<close>

definition spawnPlan ::
  "config \<Rightarrow> (nat \<Rightarrow> real) \<Rightarrow> nat \<Rightarrow> preset \<Rightarrow> spawn_overrides \<Rightarrow> ident list \<times> gen_overrides \<times> nat" where
  "spawnPlan cfg rnd k p ov =
     (let a1 = resolvePresetAttributes cfg rnd k (pr_attributes p);
          a2 = resolvePresetAttributes cfg rnd (snd a1) (so_attributes ov);
          t1 = resolvePresetTraits rnd (snd a2) (pr_traits p);
          t2 = resolvePresetTraits rnd (snd t1) (so_traits ov)
      in (pr_forceTraits p @ fst t1 @ so_forceTraits ov @ fst t2,
          \<lparr>go_id = so_id ov,
           go_attributes = objectAssign (fst a1) (fst a2),
           go_contexts = objectAssign (pr_contexts p) (so_contexts ov)\<rparr>,
          snd t2))"

text \<open>
  spawn: the preset registry of the linked EntityManager is the parameter \<open>presets\<close>. The
  result is \<open>None\<close> when the preset is unknown.
\<close>

definition spawn ::
  "config \<Rightarrow> (ident \<times> preset) list \<Rightarrow> real \<Rightarrow> ident \<Rightarrow> (nat \<Rightarrow> real) \<Rightarrow> nat \<Rightarrow> ident \<Rightarrow> spawn_overrides
   \<Rightarrow> string + (entity option \<times> nat)" where
  "spawn cfg presets now fresh rnd k presetId ov =
     (case map_of presets presetId of
        None \<Rightarrow> Inr (None, k)
      | Some p \<Rightarrow>
          (let plan = spawnPlan cfg rnd k p ov
           in case generate cfg now fresh rnd (snd (snd plan)) (fst (snd plan)) of
                Inl err \<Rightarrow> Inl err
              | Inr ek \<Rightarrow>
                  Inr (Some (logEvent ((forceAll cfg (fst ek) (fst plan))\<lparr>e_presetId := Some presetId\<rparr>) ''spawned''),
                       snd ek)))"

section \<open>EntityManager\<close>

text \<open>
  The manager is linked to a SpawnManager with a loaded configuration, as the SpawnEngine
  constructor links it; the configuration is the parameter \<open>cfg\<close>. The maps \<open>stored\<close> and
  \<open>active\<close> hold references to the same entity objects: the model keeps one object store
  \<open>em_objs\<close>, keyed by entity id, and the key lists of the two maps in insertion order.
  \<open>Date.now()\<close> is the parameter \<open>now\<close>. Listeners are not modelled: \<open>emit\<close> records the
  event. \<open>em_calls\<close> is a spy on the SpawnManager: the cascade calls the manager makes.
\<close>

record snapshot =
  sn_timestamp :: real
  sn_attributes :: "(ident \<times> real) list"
  sn_variables :: "(ident \<times> var_state) list"
  sn_contexts :: "(ident \<times> real option) list"
  sn_layers :: "(ident \<times> layer_state) list"
  sn_modifiers :: "ident list"
  sn_compounds :: "ident list"
  sn_derived :: "(ident \<times> real) list"

record pool_stats =
  ps_size :: int
  ps_available :: int
  ps_inUse :: int
  ps_totalAcquired :: int
  ps_totalReleased :: int
  ps_totalCreated :: int

text \<open>A condition of the assignment rules of a pool: \<open>{source, match, operator, value, weight}\<close>.\<close>

record pool_cond =
  pc_source :: string
  pc_match :: string
  pc_operator :: "string option"
  pc_value :: "real option"
  pc_weight :: "real option"

record pool_rules =
  pl_conditions :: "pool_cond list option"
  pl_priority :: "real option"

text \<open>A pool owns the entities it holds; pre-warming and the shrink timer are not modelled.\<close>

record pool =
  po_maxSize :: nat
  po_stats :: pool_stats
  po_entities :: "entity list"
  po_rules :: "pool_rules option"

record em =
  em_objs :: "(ident \<times> entity) list"
  em_presets :: "(ident \<times> preset) list"
  em_pools :: "(ident \<times> pool) list"
  em_stored :: "ident list"
  em_active :: "ident list"
  em_history :: "(ident \<times> snapshot list) list"
  em_groups :: "(ident \<times> ident list) list"
  em_maxHistory :: nat
  em_maxEntities :: "nat option"
  em_batchingCascade :: bool
  em_cascadeDirty :: bool
  em_cascadeEntity :: "ident option"
  em_events :: "(string \<times> ident \<times> ident) list"
  em_calls :: "(string \<times> ident) list"

definition emit :: "em \<Rightarrow> string \<Rightarrow> ident \<Rightarrow> ident \<Rightarrow> em" where
  "emit st ev a b = st\<lparr>em_events := em_events st @ [(ev, a, b)]\<rparr>"

definition objOf :: "em \<Rightarrow> ident \<Rightarrow> entity option" where
  "objOf st i = map_of (em_objs st) i"

definition retrieve :: "em \<Rightarrow> ident \<Rightarrow> entity option" where
  "retrieve st i = (if i \<in> set (em_stored st) \<or> i \<in> set (em_active st) then objOf st i else None)"

definition setEntity :: "em \<Rightarrow> ident \<Rightarrow> entity \<Rightarrow> em" where
  "setEntity st i e = st\<lparr>em_objs := AList.update i e (em_objs st)\<rparr>"

text \<open>A call of a SpawnManager method on the entity \<open>i\<close>, recorded by the spy.\<close>

definition smCall :: "string \<Rightarrow> (entity \<Rightarrow> entity) \<Rightarrow> em \<Rightarrow> ident \<Rightarrow> em" where
  "smCall name f st i =
     (case objOf st i of
        None \<Rightarrow> st
      | Some e \<Rightarrow> (setEntity st i (f e))\<lparr>em_calls := em_calls st @ [(name, i)]\<rparr>)"

definition cascadeTriple :: "config \<Rightarrow> em \<Rightarrow> ident \<Rightarrow> em" where
  "cascadeTriple cfg st i =
     smCall ''calculateDerived'' (calculateDerived cfg)
       (smCall ''checkCompounds'' (checkCompounds cfg)
         (smCall ''recalculateRates'' (recalculateRates cfg) st i) i) i"

definition runCascade :: "config \<Rightarrow> em \<Rightarrow> ident \<Rightarrow> em" where
  "runCascade cfg st i =
     (if em_batchingCascade st then st\<lparr>em_cascadeDirty := True, em_cascadeEntity := Some i\<rparr>
      else cascadeTriple cfg st i)"

subsection \<open>Modifiers\<close>

text \<open>
  The \<open>config\<close> argument of applyModifier: \<open>{...modifier.config, isStatic}\<close> from the
  threshold pass, \<open>modifier.config\<close> from the facade, \<open>{}\<close> by default.
\<close>

record apply_cfg =
  ap_isStatic :: bool
  ap_mod :: "mod_cfg option"

definition apStatic :: "apply_cfg \<Rightarrow> bool" where
  "apStatic c =
     (ap_isStatic c \<or>
      (case ap_mod c of None \<Rightarrow> False
       | Some m \<Rightarrow> (case mc_trigger m of None \<Rightarrow> False | Some t \<Rightarrow> tr_static t)))"

definition apDurationType :: "apply_cfg \<Rightarrow> string option" where
  "apDurationType c = (case ap_mod c of None \<Rightarrow> None | Some m \<Rightarrow> mc_durationType m)"

definition apDuration :: "apply_cfg \<Rightarrow> real option" where
  "apDuration c = (case ap_mod c of None \<Rightarrow> None | Some m \<Rightarrow> mc_duration m)"

definition apStacking :: "apply_cfg \<Rightarrow> string option" where
  "apStacking c = (case ap_mod c of None \<Rightarrow> None | Some m \<Rightarrow> mc_stacking m)"

definition apMaxStacks :: "apply_cfg \<Rightarrow> nat" where
  "apMaxStacks c =
     (case ap_mod c of None \<Rightarrow> 99
      | Some m \<Rightarrow> (case mc_maxStacks m of None \<Rightarrow> 99 | Some n \<Rightarrow> if n = 0 then 99 else n))"

text \<open>\<open>config.duration\<close> as a condition: undefined and 0 are falsy.\<close>

definition durationSet :: "apply_cfg \<Rightarrow> bool" where
  "durationSet c = (case apDuration c of None \<Rightarrow> False | Some d \<Rightarrow> d \<noteq> 0)"

definition applyModifierEntity :: "real \<Rightarrow> entity \<Rightarrow> ident \<Rightarrow> apply_cfg \<Rightarrow> entity" where
  "applyModifierEntity now e modifierId c =
     (let states = (case e_modifierStates e of None \<Rightarrow> [] | Some s \<Rightarrow> s);
          existing = modifierId \<in> set (e_modifiers e);
          isStatic = apStatic c
      in case (if existing then map_of states modifierId else None) of
           Some modState \<Rightarrow>
             (if apStacking c = Some ''refresh'' then
                (let m1 = modState\<lparr>ms_appliedAt := now\<rparr>;
                     m2 = (if \<not> isStatic \<and> durationSet c \<and> apDurationType c = Some ''timed''
                           then m1\<lparr>ms_expiresAt := Some (now + the (apDuration c) * 1000)\<rparr> else m1)
                 in e\<lparr>e_modifierStates := Some (AList.update modifierId m2 states)\<rparr>)
              else if apStacking c = Some ''stack'' then
                e\<lparr>e_modifierStates := Some (AList.update modifierId
                     (modState\<lparr>ms_stacks := min ((if ms_stacks modState = 0 then 1 else ms_stacks modState) + 1)
                                                (apMaxStacks c)\<rparr>) states)\<rparr>
              else e\<lparr>e_modifierStates := Some states\<rparr>)
         | None \<Rightarrow>
             e\<lparr>e_modifiers := e_modifiers e @ [modifierId],
               e_modifierStates := Some (AList.update modifierId
                 \<lparr>ms_appliedAt = now, ms_stacks = 1, ms_isStatic = isStatic,
                  ms_expiresAt = (if \<not> isStatic \<and> apDurationType c = Some ''timed'' \<and> durationSet c
                                  then Some (now + the (apDuration c) * 1000) else None),
                  ms_ticksRemaining = (if \<not> isStatic \<and> apDurationType c = Some ''ticks''
                                       then apDuration c else None)\<rparr> states)\<rparr>)"

definition applyModifier :: "config \<Rightarrow> real \<Rightarrow> em \<Rightarrow> ident \<Rightarrow> ident \<Rightarrow> apply_cfg \<Rightarrow> bool \<times> em" where
  "applyModifier cfg now st entityId modifierId c =
     (case retrieve st entityId of
        None \<Rightarrow> (False, st)
      | Some e \<Rightarrow>
          (let st1 = setEntity st entityId (applyModifierEntity now e modifierId c);
               st2 = runCascade cfg st1 entityId
           in (True, emit st2 ''modifierApplied'' entityId modifierId)))"

definition removeModifierEntity :: "entity \<Rightarrow> ident \<Rightarrow> entity" where
  "removeModifierEntity e modifierId =
     e\<lparr>e_modifiers := remove1 modifierId (e_modifiers e),
       e_modifierStates := map_option (AList.delete modifierId) (e_modifierStates e)\<rparr>"

definition removeModifier :: "config \<Rightarrow> em \<Rightarrow> ident \<Rightarrow> ident \<Rightarrow> bool \<times> em" where
  "removeModifier cfg st entityId modifierId =
     (case retrieve st entityId of
        None \<Rightarrow> (False, st)
      | Some e \<Rightarrow>
          if modifierId \<notin> set (e_modifiers e) then (False, st)
          else
            (let st1 = setEntity st entityId (removeModifierEntity e modifierId);
                 st2 = runCascade cfg st1 entityId
             in (True, emit st2 ''modifierRemoved'' entityId modifierId)))"

subsection \<open>Traits at run time\<close>

definition emActivateTrait :: "config \<Rightarrow> em \<Rightarrow> ident \<Rightarrow> ident \<Rightarrow> bool \<times> em" where
  "emActivateTrait cfg st entityId traitId =
     (case retrieve st entityId of
        None \<Rightarrow> (False, st)
      | Some e \<Rightarrow>
          (let r = activateTrait cfg e traitId;
               st1 = setEntity st entityId (snd r)
           in if fst r then (True, emit (runCascade cfg st1 entityId) ''traitActivated'' entityId traitId)
              else (False, st1)))"

definition emDeactivateTrait :: "config \<Rightarrow> em \<Rightarrow> ident \<Rightarrow> ident \<Rightarrow> bool \<times> em" where
  "emDeactivateTrait cfg st entityId traitId =
     (case retrieve st entityId of
        None \<Rightarrow> (False, st)
      | Some e \<Rightarrow>
          (let r = deactivateTrait cfg e traitId;
               st1 = setEntity st entityId (snd r)
           in if fst r then (True, emit (runCascade cfg st1 entityId) ''traitDeactivated'' entityId traitId)
              else (False, st1)))"

subsection \<open>Threshold evaluation\<close>

definition evaluateThreshold :: "real \<Rightarrow> string \<Rightarrow> real \<Rightarrow> bool" where
  "evaluateThreshold v operator threshold =
     (if operator = ''<'' then v < threshold
      else if operator = ''<='' then v \<le> threshold
      else if operator = ''>'' then v > threshold
      else if operator = ''>='' then v \<ge> threshold
      else if operator = ''='' \<or> operator = ''=='' then v = threshold
      else if operator = ''!='' then v \<noteq> threshold
      else False)"

definition evaluateSingleCondition :: "config \<Rightarrow> entity \<Rightarrow> leaf_cond \<Rightarrow> bool" where
  "evaluateSingleCondition cfg e cond =
     (if \<not> truthy (lc_target cond) then False
      else if lc_operator cond = ''active'' then isNodeActive cfg e (the (lc_target cond))
      else if lc_operator cond = ''inactive'' then \<not> isNodeActive cfg e (the (lc_target cond))
      else evaluateThreshold (getNodeValue cfg e (the (lc_target cond))) (lc_operator cond) (lc_value cond))"

text \<open>Folding the remaining conditions of a list into the result of the first one.\<close>

definition connect :: "string \<Rightarrow> bool \<Rightarrow> bool \<Rightarrow> bool" where
  "connect connector result condResult =
     (if connector = ''OR'' then result \<or> condResult else result \<and> condResult)"

definition connectorOr :: "string option \<Rightarrow> string \<Rightarrow> string" where
  "connectorOr c d = (case c of None \<Rightarrow> d | Some x \<Rightarrow> if x = [] then d else x)"

definition evaluateConditionOrGroup :: "config \<Rightarrow> entity \<Rightarrow> trig_cond \<Rightarrow> bool" where
  "evaluateConditionOrGroup cfg e cond =
     (case cond of
        TLeaf l \<Rightarrow> evaluateSingleCondition cfg e l
      | TGroup [] _ \<Rightarrow> False
      | TGroup (c # cs) _ \<Rightarrow>
          foldl (\<lambda>result inner.
                   connect (connectorOr (lc_connector inner) ''OR'') result (evaluateSingleCondition cfg e inner))
                (evaluateSingleCondition cfg e c) cs)"

definition condConnector :: "trig_cond \<Rightarrow> string option" where
  "condConnector c = (case c of TLeaf l \<Rightarrow> lc_connector l | TGroup _ k \<Rightarrow> k)"

definition evaluateConditionsWithConnectors :: "config \<Rightarrow> entity \<Rightarrow> trig_cond list \<Rightarrow> string option \<Rightarrow> bool" where
  "evaluateConditionsWithConnectors cfg e conditions fallbackLogic =
     (case conditions of
        [] \<Rightarrow> False
      | c # cs \<Rightarrow>
          foldl (\<lambda>result cond.
                   connect (connectorOr (condConnector cond) (if fallbackLogic = Some ''any'' then ''OR'' else ''AND''))
                     result (evaluateConditionOrGroup cfg e cond))
                (evaluateConditionOrGroup cfg e c) cs)"

definition evaluateModifierTrigger :: "config \<Rightarrow> entity \<Rightarrow> trigger \<Rightarrow> bool" where
  "evaluateModifierTrigger cfg e t =
     (if tr_conditions t \<noteq> [] then evaluateConditionsWithConnectors cfg e (tr_conditions t) (tr_logic t)
      else if truthy (tr_target t) then
        evaluateThreshold (getNodeValue cfg e (the (tr_target t))) (tr_operator t) (tr_value t)
      else False)"

definition evaluateRemoveConditions :: "config \<Rightarrow> entity \<Rightarrow> trigger \<Rightarrow> bool" where
  "evaluateRemoveConditions cfg e t =
     (if tr_removeConditions t \<noteq> [] then
        evaluateConditionsWithConnectors cfg e (tr_removeConditions t) (tr_removeLogic t)
      else if tr_static t \<and> tr_conditions t \<noteq> [] then
        \<not> evaluateConditionsWithConnectors cfg e (tr_conditions t) (tr_logic t)
      else False)"

subsection \<open>Threshold modifiers and exclusive groups (indexes of buildIndexes)\<close>

definition thresholdModifiers :: "config \<Rightarrow> (ident \<times> mod_cfg) list" where
  "thresholdModifiers cfg =
     filter (\<lambda>m. case mc_trigger (snd m) of None \<Rightarrow> False | Some t \<Rightarrow> tr_type t = ''threshold'')
       (getModifiers cfg)"

text \<open>
  A \<open>Map\<close> from modifier id to a \<open>Set\<close> of partner ids, both in insertion order:
  \<open>addPartner m k p\<close> is \<open>if (!m.has(k)) m.set(k, new Set()); m.get(k).add(p)\<close>.
\<close>

definition addPartner :: "(ident \<times> ident list) list \<Rightarrow> ident \<Rightarrow> ident \<Rightarrow> (ident \<times> ident list) list" where
  "addPartner m k p =
     (case map_of m k of
        None \<Rightarrow> m @ [(k, [p])]
      | Some ps \<Rightarrow> if p \<in> set ps then m else AList.update k (ps @ [p]) m)"

definition ensureKey :: "(ident \<times> ident list) list \<Rightarrow> ident \<Rightarrow> (ident \<times> ident list) list" where
  "ensureKey m k = (case map_of m k of None \<Rightarrow> m @ [(k, [])] | Some _ \<Rightarrow> m)"

definition exclusiveGroups :: "config \<Rightarrow> (ident \<times> ident list) list" where
  "exclusiveGroups cfg =
     foldl (\<lambda>m md.
              if mc_exclusiveWith (snd md) = [] then m
              else foldl (\<lambda>m' partnerId. addPartner (addPartner m' (fst md) partnerId) partnerId (fst md))
                     (ensureKey m (fst md)) (mc_exclusiveWith (snd md)))
       [] (thresholdModifiers cfg)"

definition partnersOf :: "(ident \<times> ident list) list \<Rightarrow> ident \<Rightarrow> ident list" where
  "partnersOf m k = (case map_of m k of None \<Rightarrow> [] | Some ps \<Rightarrow> ps)"

text \<open>Every id the map mentions; the closure below never leaves this list.\<close>

definition universe :: "(ident \<times> ident list) list \<Rightarrow> ident list" where
  "universe m = remdups (map fst m @ concat (map snd m))"

text \<open>The body of \<open>for (const p of currentPartners)\<close>: a new member joins group and queue.\<close>

definition visit :: "ident list \<times> ident list \<Rightarrow> ident \<Rightarrow> ident list \<times> ident list" where
  "visit gq p = (if p \<in> set (fst gq) then gq else (fst gq @ [p], snd gq @ [p]))"

definition unseen :: "(ident \<times> ident list) list \<Rightarrow> ident list \<Rightarrow> nat" where
  "unseen m g = length (filter (\<lambda>x. x \<notin> set g) (universe m))"

lemma partnersOf_universe: "p \<in> set (partnersOf m k) \<Longrightarrow> p \<in> set (universe m)"
proof -
  assume a: "p \<in> set (partnersOf m k)"
  then obtain ps where ps: "map_of m k = Some ps" "p \<in> set ps"
    by (cases "map_of m k") (auto simp: partnersOf_def)
  then have "(k, ps) \<in> set m" by (auto dest: map_of_SomeD)
  with ps show ?thesis by (force simp: universe_def)
qed

lemma unseen_add:
  assumes "p \<in> set (universe m)" "p \<notin> set g"
  shows "unseen m (g @ [p]) < unseen m g"
proof -
  have "p \<in> set (filter (\<lambda>x. x \<notin> set g) (universe m))"
    using assms by simp
  then have "length (filter (\<lambda>x. x \<noteq> p) (filter (\<lambda>x. x \<notin> set g) (universe m)))
        < length (filter (\<lambda>x. x \<notin> set g) (universe m))"
    by (rule length_filter_less) simp
  then show ?thesis by (simp add: unseen_def conj_commute)
qed

lemma visit_measure:
  assumes "set ps \<subseteq> set (universe m)"
  shows "2 * unseen m (fst (foldl visit gq ps)) + length (snd (foldl visit gq ps))
         \<le> 2 * unseen m (fst gq) + length (snd gq)"
  using assms
proof (induction ps arbitrary: gq)
  case Nil
  then show ?case by simp
next
  case (Cons p ps)
  have "2 * unseen m (fst (visit gq p)) + length (snd (visit gq p))
        \<le> 2 * unseen m (fst gq) + length (snd gq)"
  proof (cases "p \<in> set (fst gq)")
    case True
    then show ?thesis by (simp add: visit_def)
  next
    case False
    then have "unseen m (fst gq @ [p]) < unseen m (fst gq)"
      using Cons.prems by (intro unseen_add) auto
    then show ?thesis using False by (simp add: visit_def)
  qed
  moreover have "2 * unseen m (fst (foldl visit (visit gq p) ps)) + length (snd (foldl visit (visit gq p) ps))
        \<le> 2 * unseen m (fst (visit gq p)) + length (snd (visit gq p))"
    using Cons.prems by (intro Cons.IH) auto
  ultimately show ?case by simp
qed

text \<open>
  The transitive closure of a group: \<open>while (queue.length > 0) { current = queue.pop(); ... }\<close>.
\<close>

function collectGroup :: "(ident \<times> ident list) list \<Rightarrow> ident list \<Rightarrow> ident list \<Rightarrow> ident list" where
  "collectGroup m g queue =
     (if queue = [] then g
      else collectGroup m (fst (foldl visit (g, butlast queue) (partnersOf m (last queue))))
                          (snd (foldl visit (g, butlast queue) (partnersOf m (last queue)))))"
  by pat_completeness auto
termination
proof (relation "measure (\<lambda>(m, g, queue). 2 * unseen m g + length queue)", goal_cases)
  case 1
  then show ?case by simp
next
  case (2 m g queue)
  have "set (partnersOf m (last queue)) \<subseteq> set (universe m)"
    using partnersOf_universe by blast
  from visit_measure[OF this, of "(g, butlast queue)"]
  have "2 * unseen m (fst (foldl visit (g, butlast queue) (partnersOf m (last queue))))
        + length (snd (foldl visit (g, butlast queue) (partnersOf m (last queue))))
        \<le> 2 * unseen m g + length (butlast queue)"
    by simp
  moreover have "length (butlast queue) < length queue"
    using 2 by (cases queue rule: rev_cases) auto
  ultimately show ?case by (simp add: case_prod_beta)
qed

declare collectGroup.simps [simp del]

subsection \<open>Exclusive-group arbitration\<close>

definition singleCond :: "ident \<times> mod_cfg \<Rightarrow> leaf_cond option" where
  "singleCond md =
     (case mc_trigger (snd md) of
        None \<Rightarrow> None
      | Some t \<Rightarrow> (case tr_conditions t of [TLeaf l] \<Rightarrow> Some l | _ \<Rightarrow> None))"

text \<open>
  \<open>trigger.conditions.length === 1\<close>: a sole group entry counts too; its operator and value
  are undefined, so it fails both operator tests below.
\<close>

definition hasSingleCondition :: "ident \<times> mod_cfg \<Rightarrow> bool" where
  "hasSingleCondition md =
     (case mc_trigger (snd md) of None \<Rightarrow> False | Some t \<Rightarrow> length (tr_conditions t) = 1)"

definition condTarget :: "ident \<times> mod_cfg \<Rightarrow> ident option" where
  "condTarget md = (case singleCond md of None \<Rightarrow> None | Some l \<Rightarrow> lc_target l)"

definition condOperator :: "ident \<times> mod_cfg \<Rightarrow> string" where
  "condOperator md = (case singleCond md of None \<Rightarrow> [] | Some l \<Rightarrow> lc_operator l)"

definition condValue :: "ident \<times> mod_cfg \<Rightarrow> real" where
  "condValue md = (case singleCond md of None \<Rightarrow> 0 | Some l \<Rightarrow> lc_value l)"

definition getMostSpecificModifier :: "(ident \<times> mod_cfg) list \<Rightarrow> ident \<times> mod_cfg" where
  "getMostSpecificModifier candidates =
     (if list_all hasSingleCondition candidates
         \<and> length (remdups (map condTarget candidates)) = 1
         \<and> list_all (\<lambda>c. condOperator c = ''<='' \<or> condOperator c = ''<'') candidates
      then hd (sort_key condValue candidates)
      else if list_all hasSingleCondition candidates
         \<and> length (remdups (map condTarget candidates)) = 1
         \<and> list_all (\<lambda>c. condOperator c = ''>='' \<or> condOperator c = ''>'') candidates
      then hd (sort_key (\<lambda>c. - condValue c) candidates)
      else hd candidates)"

definition qualifies :: "config \<Rightarrow> entity \<Rightarrow> (ident \<times> mod_cfg) list \<Rightarrow> ident \<Rightarrow> (ident \<times> mod_cfg) option" where
  "qualifies cfg e modifiers i =
     (case find (\<lambda>m. fst m = i) modifiers of
        None \<Rightarrow> None
      | Some md \<Rightarrow>
          (case mc_trigger (snd md) of
             None \<Rightarrow> None
           | Some t \<Rightarrow> if evaluateModifierTrigger cfg e t then Some md else None))"

definition groupVerdict :: "config \<Rightarrow> entity \<Rightarrow> (ident \<times> mod_cfg) list \<Rightarrow> ident list \<Rightarrow> (ident \<times> bool) list" where
  "groupVerdict cfg e modifiers g =
     (let candidates = List.map_filter (qualifies cfg e modifiers) g
      in if candidates = [] then map (\<lambda>i. (i, False)) g
         else if length candidates = 1 then map (\<lambda>i. (i, i = fst (hd candidates))) g
         else map (\<lambda>i. (i, i = fst (getMostSpecificModifier candidates))) g)"

text \<open>
  The loop over the entries of the exclusive map. \<open>results\<close> is a \<open>Map\<close> written with
  \<open>set\<close>; it doubles as \<open>visited\<close>, since every member of a collected group gets a verdict.
\<close>

definition resolveExclusiveGroups ::
  "config \<Rightarrow> entity \<Rightarrow> (ident \<times> ident list) list \<Rightarrow> (ident \<times> mod_cfg) list \<Rightarrow> (ident \<times> bool) list" where
  "resolveExclusiveGroups cfg e exclusiveMap modifiers =
     foldl (\<lambda>results modId.
              if modId \<in> fst ` set results then results
              else foldl (\<lambda>r kv. AList.update (fst kv) (snd kv) r) results
                     (groupVerdict cfg e modifiers (collectGroup exclusiveMap [modId] [modId])))
       [] (map fst exclusiveMap)"

subsection \<open>checkModifierThresholds\<close>

text \<open>The body of the loop over the threshold modifiers.\<close>

definition thresholdStep ::
  "config \<Rightarrow> real \<Rightarrow> (ident \<times> bool) list \<Rightarrow> ident \<Rightarrow> em \<Rightarrow> ident \<times> mod_cfg \<Rightarrow> em" where
  "thresholdStep cfg now groupWinners entityId st md =
     (case (objOf st entityId, mc_trigger (snd md)) of
        (Some e, Some t) \<Rightarrow>
          (let isActive = fst md \<in> set (e_modifiers e);
               isStatic = tr_static t;
               shouldApply = evaluateModifierTrigger cfg e t;
               c = \<lparr>ap_isStatic = isStatic, ap_mod = Some (snd md)\<rparr>
           in case map_of groupWinners (fst md) of
                Some groupResult \<Rightarrow>
                  if groupResult \<and> \<not> isActive then snd (applyModifier cfg now st entityId (fst md) c)
                  else if \<not> groupResult \<and> isActive then snd (removeModifier cfg st entityId (fst md))
                  else st
              | None \<Rightarrow>
                  if \<not> isActive \<and> shouldApply then snd (applyModifier cfg now st entityId (fst md) c)
                  else if isActive \<and> isStatic then
                    (if evaluateRemoveConditions cfg e t then snd (removeModifier cfg st entityId (fst md))
                     else st)
                  else st)
      | _ \<Rightarrow> st)"

definition checkModifierThresholds :: "config \<Rightarrow> real \<Rightarrow> em \<Rightarrow> ident \<Rightarrow> em" where
  "checkModifierThresholds cfg now st entityId =
     (case objOf st entityId of
        None \<Rightarrow> st
      | Some e \<Rightarrow>
          (let modifiers = thresholdModifiers cfg;
               groupWinners = resolveExclusiveGroups cfg e (exclusiveGroups cfg) modifiers;
               st1 = st\<lparr>em_batchingCascade := True, em_cascadeDirty := False\<rparr>;
               st2 = foldl (thresholdStep cfg now groupWinners entityId) st1 modifiers;
               st3 = st2\<lparr>em_batchingCascade := False\<rparr>
           in if em_cascadeDirty st3
              then cascadeTriple cfg (st3\<lparr>em_cascadeDirty := False, em_cascadeEntity := None\<rparr>) entityId
              else st3))"

subsection \<open>Threshold traits\<close>

text \<open>
  \<open>_thresholdTraitsByVar.get(varId)\<close>: the threshold-mode traits whose trigger targets the
  variable, nodes of type trait before nodes of type item.
\<close>

definition thresholdTraitsByVar :: "config \<Rightarrow> ident \<Rightarrow> (ident \<times> trait_cfg) list" where
  "thresholdTraitsByVar cfg varId =
     filter (\<lambda>t. tc_mode (snd t) = Some ''threshold''
                 \<and> (case tc_trigger (snd t) of None \<Rightarrow> False
                     | Some g \<Rightarrow> truthy (th_target g) \<and> th_target g = Some varId))
       (List.map_filter (\<lambda>n. case body n of Trait c \<Rightarrow> Some (nid n, c) | _ \<Rightarrow> None) (cfg_nodes cfg)
        @ List.map_filter (\<lambda>n. case body n of Item c \<Rightarrow> Some (nid n, c) | _ \<Rightarrow> None) (cfg_nodes cfg))"

definition thresholdHolds :: "real \<Rightarrow> threshold option \<Rightarrow> bool" where
  "thresholdHolds v c = (case c of None \<Rightarrow> False | Some g \<Rightarrow> evaluateThreshold v (th_operator g) (th_value g))"

definition checkThresholdTrait :: "config \<Rightarrow> ident \<Rightarrow> ident \<Rightarrow> em \<Rightarrow> ident \<times> trait_cfg \<Rightarrow> em" where
  "checkThresholdTrait cfg entityId varId st t =
     (case objOf st entityId of
        None \<Rightarrow> st
      | Some e \<Rightarrow>
          (case map_of (e_variables e) varId of
             None \<Rightarrow> st
           | Some varState \<Rightarrow>
               (let isActive = fst t \<in> set (layerActive e (tc_layerId (snd t)));
                    st1 = (if \<not> isActive \<and> thresholdHolds (vs_value varState) (tc_trigger (snd t))
                           then snd (emActivateTrait cfg st entityId (fst t)) else st)
                in if isActive \<and> thresholdHolds (vs_value varState) (tc_autoRemove (snd t))
                   then snd (emDeactivateTrait cfg st1 entityId (fst t)) else st1)))"

definition checkThresholds :: "config \<Rightarrow> em \<Rightarrow> ident \<Rightarrow> ident \<Rightarrow> em" where
  "checkThresholds cfg st entityId varId =
     foldl (checkThresholdTrait cfg entityId varId) st (thresholdTraitsByVar cfg varId)"

subsection \<open>Variables\<close>

text \<open>
  \<open>Math.max(min, Math.min(max, v))\<close> on numbers. The values of the variables are reals:
  a call that passes NaN as the value, the delta or the elapsed time stores NaN in the code
  and is outside the model.
\<close>

definition clamp :: "real \<Rightarrow> real \<Rightarrow> real \<Rightarrow> real" where
  "clamp lo hi v = max lo (min hi v)"

text \<open>What setVariable and modifyVariable share once the new value is computed.\<close>

definition writeVariable :: "config \<Rightarrow> real \<Rightarrow> em \<Rightarrow> ident \<Rightarrow> ident \<Rightarrow> (real \<Rightarrow> real) \<Rightarrow> bool \<times> em" where
  "writeVariable cfg now st entityId varId f =
     (case retrieve st entityId of
        None \<Rightarrow> (False, st)
      | Some e \<Rightarrow>
          (case map_of (e_variables e) varId of
             None \<Rightarrow> (False, st)
           | Some varState \<Rightarrow>
               (let oldValue = vs_value varState;
                    newValue = clamp (vs_min varState) (vs_max varState) (f oldValue);
                    st1 = setEntity st entityId
                            (e\<lparr>e_variables := AList.update varId (varState\<lparr>vs_value := newValue\<rparr>) (e_variables e)\<rparr>)
                in if newValue \<noteq> oldValue then
                     (let st2 = checkThresholds cfg st1 entityId varId;
                          st3 = checkModifierThresholds cfg now st2 entityId;
                          st4 = smCall ''calculateDerived'' (calculateDerived cfg) st3 entityId
                      in (True, emit st4 ''variableChanged'' entityId varId))
                   else (True, st1))))"

definition modifyVariable :: "config \<Rightarrow> real \<Rightarrow> em \<Rightarrow> ident \<Rightarrow> ident \<Rightarrow> real \<Rightarrow> bool \<times> em" where
  "modifyVariable cfg now st entityId varId delta = writeVariable cfg now st entityId varId (\<lambda>v. v + delta)"

definition setVariable :: "config \<Rightarrow> real \<Rightarrow> em \<Rightarrow> ident \<Rightarrow> ident \<Rightarrow> real \<Rightarrow> bool \<times> em" where
  "setVariable cfg now st entityId varId v = writeVariable cfg now st entityId varId (\<lambda>_. v)"

subsection \<open>Tick\<close>

definition tickVariable :: "config \<Rightarrow> real \<Rightarrow> ident \<Rightarrow> em \<Rightarrow> ident \<Rightarrow> em" where
  "tickVariable cfg deltaSeconds entityId st varId =
     (case objOf st entityId of
        None \<Rightarrow> st
      | Some e \<Rightarrow>
          (case map_of (e_variables e) varId of
             None \<Rightarrow> st
           | Some varState \<Rightarrow>
               if vs_changeMode varState = ''timed'' \<and> vs_direction varState \<noteq> ''none'' then
                 (let oldValue = vs_value varState;
                      newValue = clamp (vs_min varState) (vs_max varState)
                                   (oldValue + vs_currentRate varState * deltaSeconds);
                      st1 = setEntity st entityId
                              (e\<lparr>e_variables := AList.update varId (varState\<lparr>vs_value := newValue\<rparr>) (e_variables e)\<rparr>)
                  in if newValue \<noteq> oldValue
                     then emit (checkThresholds cfg st1 entityId varId) ''variableChanged'' entityId varId
                     else st1)
               else st))"

text \<open>
  One step of the backwards loop over \<open>entity.modifiers\<close> that counts durations down and
  collects the expired modifiers.
\<close>

definition expireStep :: "real \<Rightarrow> entity \<times> ident list \<Rightarrow> ident \<Rightarrow> entity \<times> ident list" where
  "expireStep now ex modId =
     (let e = fst ex; states = (case e_modifierStates e of None \<Rightarrow> [] | Some s \<Rightarrow> s)
      in case map_of states modId of
           None \<Rightarrow> ex
         | Some modState \<Rightarrow>
             if ms_isStatic modState then ex
             else if (case ms_expiresAt modState of None \<Rightarrow> False | Some t \<Rightarrow> t \<noteq> 0 \<and> now \<ge> t)
               then (e, snd ex @ [modId])
             else
               (case ms_ticksRemaining modState of
                  None \<Rightarrow> ex
                | Some n \<Rightarrow>
                    (e\<lparr>e_modifierStates := Some (AList.update modId (modState\<lparr>ms_ticksRemaining := Some (n - 1)\<rparr>) states)\<rparr>,
                     if n - 1 \<le> 0 then snd ex @ [modId] else snd ex)))"

definition tick :: "config \<Rightarrow> real \<Rightarrow> em \<Rightarrow> ident \<Rightarrow> real option \<Rightarrow> bool \<times> em" where
  "tick cfg now st entityId deltaOpt =
     (case (if entityId \<in> set (em_active st) then objOf st entityId else None) of
        None \<Rightarrow> (False, st)
      | Some e \<Rightarrow>
          (let deltaSeconds = (case deltaOpt of None \<Rightarrow> (now - e_lastTick e) / 1000 | Some d \<Rightarrow> d);
               st1 = setEntity st entityId (e\<lparr>e_lastTick := now\<rparr>);
               st2 = foldl (tickVariable cfg deltaSeconds entityId) st1 (map fst (e_variables e));
               ex = (case objOf st2 entityId of
                       None \<Rightarrow> (e, [])
                     | Some e2 \<Rightarrow> foldl (expireStep now) (e2, []) (rev (e_modifiers e2)));
               st3 = setEntity st2 entityId (fst ex);
               st4 = foldl (\<lambda>s modId. snd (removeModifier cfg s entityId modId)) st3 (snd ex);
               st5 = checkModifierThresholds cfg now st4 entityId;
               st6 = (case objOf st5 entityId of
                        None \<Rightarrow> st5
                      | Some e5 \<Rightarrow> setEntity st5 entityId
                          (e5\<lparr>e_actions := map (\<lambda>a. (fst a, if snd a > 0 then max 0 (snd a - deltaSeconds) else snd a))
                                               (e_actions e5)\<rparr>));
               st7 = smCall ''calculateDerived'' (calculateDerived cfg) st6 entityId
           in (True, emit st7 ''tick'' entityId [])))"

subsection \<open>History\<close>

definition takeSnapshot :: "real \<Rightarrow> entity \<Rightarrow> snapshot" where
  "takeSnapshot now e =
     \<lparr>sn_timestamp = now, sn_attributes = e_attributes e, sn_variables = e_variables e,
      sn_contexts = e_contexts e, sn_layers = e_layers e, sn_modifiers = e_modifiers e,
      sn_compounds = e_compounds e, sn_derived = e_derived e\<rparr>"

definition snapshot :: "real \<Rightarrow> em \<Rightarrow> ident \<Rightarrow> snapshot option \<times> em" where
  "snapshot now st entityId =
     (case retrieve st entityId of
        None \<Rightarrow> (None, st)
      | Some e \<Rightarrow>
          (let snapshots = (case map_of (em_history st) entityId of None \<Rightarrow> [] | Some h \<Rightarrow> h) @ [takeSnapshot now e];
               kept = (if length snapshots > em_maxHistory st
                       then drop (length snapshots - em_maxHistory st) snapshots else snapshots);
               st1 = st\<lparr>em_history := AList.update entityId kept (em_history st)\<rparr>
           in (Some (takeSnapshot now e), emit st1 ''snapshotTaken'' entityId [])))"

definition restoreValues :: "(ident \<times> var_state) list \<Rightarrow> (ident \<times> var_state) list \<Rightarrow> (ident \<times> var_state) list" where
  "restoreValues vars saved =
     foldl (\<lambda>vs kv. case map_of vs (fst kv) of
                       None \<Rightarrow> vs
                     | Some varState \<Rightarrow> AList.update (fst kv) (varState\<lparr>vs_value := vs_value (snd kv)\<rparr>) vs)
       vars saved"

definition restoreSnapshot :: "entity \<Rightarrow> snapshot \<Rightarrow> entity" where
  "restoreSnapshot e s =
     e\<lparr>e_attributes := objectAssign (e_attributes e) (sn_attributes s),
       e_contexts := objectAssign (e_contexts e) (sn_contexts s),
       e_layers := sn_layers s,
       e_modifiers := sn_modifiers s,
       e_compounds := sn_compounds s,
       e_derived := sn_derived s,
       e_variables := restoreValues (e_variables e) (sn_variables s)\<rparr>"

definition rollback :: "em \<Rightarrow> ident \<Rightarrow> real \<Rightarrow> bool \<times> em" where
  "rollback st entityId timestamp =
     (case (retrieve st entityId, map_of (em_history st) entityId) of
        (Some e, Some snapshots) \<Rightarrow>
          (case find (\<lambda>s. sn_timestamp s \<le> timestamp) (rev snapshots) of
             None \<Rightarrow> (False, st)
           | Some s \<Rightarrow> (True, emit (setEntity st entityId (restoreSnapshot e s)) ''entityRolledBack'' entityId []))
      | _ \<Rightarrow> (False, st))"

subsection \<open>Storage\<close>

text \<open>
  Entity groups: the members of a group are a \<open>Set\<close>, kept as a list in insertion order.
  addToGroup creates a missing group first.
\<close>

definition addToGroup :: "em \<Rightarrow> ident \<Rightarrow> ident \<Rightarrow> em" where
  "addToGroup st groupId entityId =
     (let st1 = (case map_of (em_groups st) groupId of
                   None \<Rightarrow> emit (st\<lparr>em_groups := AList.update groupId [] (em_groups st)\<rparr>)
                             ''groupCreated'' groupId []
                 | Some _ \<Rightarrow> st);
          members = (case map_of (em_groups st1) groupId of None \<Rightarrow> [] | Some ms \<Rightarrow> ms);
          st2 = st1\<lparr>em_groups := AList.update groupId
                                 (if entityId \<in> set members then members else members @ [entityId])
                                 (em_groups st1)\<rparr>
      in emit st2 ''addedToGroup'' groupId entityId)"

text \<open>store without the \<open>groups\<close> option: the entity joins the group of its configuration.\<close>

definition store :: "em \<Rightarrow> entity \<Rightarrow> bool \<times> em" where
  "store st e =
     (if (case em_maxEntities st of None \<Rightarrow> False | Some n \<Rightarrow> length (em_stored st) \<ge> n)
      then (False, emit st ''storageLimitReached'' [] [])
      else
        (let st1 = st\<lparr>em_objs := AList.update (e_id e) e (em_objs st),
                       em_stored := (if e_id e \<in> set (em_stored st) then em_stored st else em_stored st @ [e_id e])\<rparr>;
             st2 = (if e_configId e \<noteq> [] then addToGroup st1 (''config:'' @ e_configId e) (e_id e) else st1)
         in (True, emit st2 ''entityStored'' (e_id e) [])))"

text \<open>\<open>activate(entity)\<close> with the entity object (the form acquire and the facade use).\<close>

definition activate :: "real \<Rightarrow> em \<Rightarrow> entity \<Rightarrow> em" where
  "activate now st e =
     (let st1 = (if e_id e \<in> set (em_stored st) then st else snd (store st e));
          st2 = st1\<lparr>em_objs := AList.update (e_id e) (e\<lparr>e_lastTick := now\<rparr>) (em_objs st1),
                     em_active := (if e_id e \<in> set (em_active st1) then em_active st1 else em_active st1 @ [e_id e])\<rparr>
      in emit st2 ''entityActivated'' (e_id e) [])"

definition deactivate :: "em \<Rightarrow> ident \<Rightarrow> bool \<times> em" where
  "deactivate st entityId =
     (if entityId \<in> set (em_active st)
      then (True, emit (st\<lparr>em_active := removeAll entityId (em_active st)\<rparr>) ''entityDeactivated'' entityId [])
      else (False, st))"

subsection \<open>Pools\<close>

definition zeroStats :: pool_stats where
  "zeroStats = \<lparr>ps_size = 0, ps_available = 0, ps_inUse = 0, ps_totalAcquired = 0,
     ps_totalReleased = 0, ps_totalCreated = 0\<rparr>"

text \<open>The state the constructor builds: no entities, and the default pool.\<close>

definition newEntityManager :: em where
  "newEntityManager =
     \<lparr>em_objs = [], em_presets = [],
      em_pools = [(''default'', \<lparr>po_maxSize = 100, po_stats = zeroStats, po_entities = [], po_rules = None\<rparr>)],
      em_stored = [], em_active = [], em_history = [], em_groups = [],
      em_maxHistory = 50, em_maxEntities = None, em_batchingCascade = False, em_cascadeDirty = False,
      em_cascadeEntity = None, em_events = [], em_calls = []\<rparr>"

definition registerPreset :: "em \<Rightarrow> ident \<Rightarrow> preset \<Rightarrow> em" where
  "registerPreset st i p = emit (st\<lparr>em_presets := AList.update i p (em_presets st)\<rparr>) ''presetRegistered'' i []"

text \<open>createPool with \<open>maxSize\<close> and \<open>rules\<close> options and no pre-warming.\<close>

definition createPool :: "em \<Rightarrow> ident \<Rightarrow> nat option \<Rightarrow> pool_rules option \<Rightarrow> em" where
  "createPool st poolId maxSize rules =
     (case map_of (em_pools st) poolId of
        Some _ \<Rightarrow> st
      | None \<Rightarrow>
          emit (st\<lparr>em_pools := AList.update poolId
                       \<lparr>po_maxSize = (case maxSize of None \<Rightarrow> 100 | Some m \<Rightarrow> m), po_stats = zeroStats,
                        po_entities = [], po_rules = rules\<rparr> (em_pools st)\<rparr>)
            ''poolCreated'' poolId [])"

definition getPoolStats :: "em \<Rightarrow> ident option \<Rightarrow> pool_stats" where
  "getPoolStats st poolId =
     (case map_of (em_pools st) (if truthy poolId then the poolId else ''default'') of
        None \<Rightarrow> zeroStats
      | Some p \<Rightarrow> (po_stats p)\<lparr>ps_size := int (length (po_entities p)),
                               ps_available := int (length (po_entities p))\<rparr>)"

text \<open>
  \<open>_matchPattern\<close> turns the pattern into a regular expression by replacing each \<open>*\<close>
  with \<open>.*\<close>. The model covers patterns whose other characters are not special in a
  regular expression and strings without line breaks: \<open>*\<close> matches any substring.
\<close>

fun globMatch :: "string \<Rightarrow> string \<Rightarrow> bool" where
  "globMatch [] [] = True"
| "globMatch (c # cs) [] = False"
| "globMatch str (p # ps) =
     (if p = CHR ''*'' then
        (globMatch str ps \<or> (case str of [] \<Rightarrow> False | c # cs \<Rightarrow> globMatch cs (p # ps)))
      else (case str of [] \<Rightarrow> False | c # cs \<Rightarrow> c = p \<and> globMatch cs ps))"

definition matchPattern :: "string \<Rightarrow> string \<Rightarrow> bool" where
  "matchPattern str pattern = (if CHR ''*'' \<notin> set pattern then str = pattern else globMatch str pattern)"

definition evaluateOperator :: "real \<Rightarrow> string \<Rightarrow> real option \<Rightarrow> bool" where
  "evaluateOperator v operator target =
     (case target of
        None \<Rightarrow> operator = ''ne''
      | Some t \<Rightarrow>
          if operator = ''eq'' then v = t
          else if operator = ''ne'' then v \<noteq> t
          else if operator = ''gt'' then v > t
          else if operator = ''gte'' then v \<ge> t
          else if operator = ''lt'' then v < t
          else if operator = ''lte'' then v \<le> t
          else False)"

definition evaluatePoolCondition :: "entity \<Rightarrow> pool_cond \<Rightarrow> bool" where
  "evaluatePoolCondition e c =
     (if pc_source c = ''preset'' then
        (truthy (e_presetId e) \<and> matchPattern (the (e_presetId e)) (pc_match c))
      else if pc_source c = ''trait'' then list_ex (\<lambda>l. pc_match c \<in> set (ls_active (snd l))) (e_layers e)
      else if pc_source c = ''attribute'' then
        (case map_of (e_attributes e) (pc_match c) of
           None \<Rightarrow> False
         | Some v \<Rightarrow> evaluateOperator v (if truthy (pc_operator c) then the (pc_operator c) else ''eq'') (pc_value c))
      else if pc_source c = ''variable'' then
        (case map_of (e_variables e) (pc_match c) of
           None \<Rightarrow> False
         | Some s \<Rightarrow> evaluateOperator (vs_value s) (if truthy (pc_operator c) then the (pc_operator c) else ''eq'')
                      (pc_value c))
      else if pc_source c = ''modifier'' then pc_match c \<in> set (e_modifiers e)
      else if pc_source c = ''compound'' then pc_match c \<in> set (e_compounds e)
      else False)"

definition evaluatePoolRules :: "entity \<Rightarrow> pool_rules \<Rightarrow> real" where
  "evaluatePoolRules e rules =
     (case pl_conditions rules of
        None \<Rightarrow> 0
      | Some cs \<Rightarrow>
          foldl (\<lambda>score c. if evaluatePoolCondition e c
                            then score + (case pc_weight c of None \<Rightarrow> 1 | Some w \<Rightarrow> if w = 0 then 1 else w)
                            else score) 0 cs)"

text \<open>A match of getPoolForEntity: pool id, score, priority.\<close>

definition poolMatches :: "em \<Rightarrow> entity \<Rightarrow> (ident \<times> real \<times> real) list" where
  "poolMatches st e =
     List.map_filter
       (\<lambda>ip. case po_rules (snd ip) of
               None \<Rightarrow> None
             | Some rules \<Rightarrow>
                 if fst ip = ''default'' \<or> pl_conditions rules = None then None
                 else if evaluatePoolRules e rules > 0
                   then Some (fst ip, evaluatePoolRules e rules,
                              case pl_priority rules of None \<Rightarrow> 0 | Some p \<Rightarrow> p)
                   else None)
       (em_pools st)"

text \<open>
  The matches are sorted by priority, then by score, both descending; the sort is stable,
  so sorting by score first and by priority second gives the same order.
\<close>

definition getPoolForEntity :: "em \<Rightarrow> entity \<Rightarrow> ident" where
  "getPoolForEntity st e =
     (if truthy (e_poolId e) \<and> map_of (em_pools st) (the (e_poolId e)) \<noteq> None then the (e_poolId e)
      else case sort_key (\<lambda>m. - snd (snd m)) (sort_key (\<lambda>m. - fst (snd m)) (poolMatches st e)) of
             [] \<Rightarrow> ''default''
           | m # _ \<Rightarrow> fst m)"

definition prepareEntityForPool :: "entity \<Rightarrow> entity" where
  "prepareEntityForPool e =
     e\<lparr>e_log := [], e_lastTick := 0, e_modifiers := [], e_compounds := [], e_modifierStates := Some [],
       e_layers := map (\<lambda>l. (fst l, \<lparr>ls_active = [], ls_lastRoll = None\<rparr>)) (e_layers e)\<rparr>"

definition updatePool :: "em \<Rightarrow> ident \<Rightarrow> (pool \<Rightarrow> pool) \<Rightarrow> em" where
  "updatePool st poolId f =
     (case map_of (em_pools st) poolId of
        None \<Rightarrow> st
      | Some p \<Rightarrow> st\<lparr>em_pools := AList.update poolId (f p) (em_pools st)\<rparr>)"

text \<open>
  release. The pool is the one named by \<open>targetPoolId || entity.poolId || 'default'\<close>, or the
  default pool when no pool has that name; the entity keeps the name either way.
\<close>

definition release :: "em \<Rightarrow> ident \<Rightarrow> ident option \<Rightarrow> bool \<times> em" where
  "release st entityId targetPoolId =
     (case (if entityId \<in> set (em_stored st) then objOf st entityId else None) of
        None \<Rightarrow> (False, st)
      | Some e \<Rightarrow>
          (let poolId = (if truthy targetPoolId then the targetPoolId
                         else if truthy (e_poolId e) then the (e_poolId e) else ''default'');
               actual = (if map_of (em_pools st) poolId \<noteq> None then poolId else ''default'');
               st1 = snd (deactivate st entityId);
               st2 = st1\<lparr>em_stored := removeAll entityId (em_stored st1),
                          em_active := removeAll entityId (em_active st1),
                          em_history := AList.delete entityId (em_history st1),
                          em_groups := map (\<lambda>g. (fst g, removeAll entityId (snd g))) (em_groups st1)\<rparr>;
               st3 = updatePool st2 actual
                       (\<lambda>p. p\<lparr>po_stats := (po_stats p)\<lparr>ps_inUse := max 0 (ps_inUse (po_stats p) - 1),
                                                          ps_totalReleased := ps_totalReleased (po_stats p) + 1\<rparr>\<rparr>)
           in case map_of (em_pools st3) actual of
                None \<Rightarrow> (False, st3)
              | Some p \<Rightarrow>
                  if length (po_entities p) < po_maxSize p then
                    (True,
                     emit (updatePool st3 actual
                             (\<lambda>p. p\<lparr>po_entities := po_entities p @ [(prepareEntityForPool e)\<lparr>e_poolId := Some poolId\<rparr>],
                                    po_stats := (po_stats p)\<lparr>ps_available := ps_available (po_stats p) + 1,
                                                              ps_size := int (length (po_entities p)) + 1\<rparr>\<rparr>))
                       ''entityReleased'' entityId poolId)
                  else (False, emit st3 ''entityReleased'' entityId poolId)))"

definition resetVariable :: "var_cfg \<Rightarrow> var_state" where
  "resetVariable c =
     (initialVariable c)\<lparr>vs_value := (case vc_initial c of Some v \<Rightarrow> v
                                       | None \<Rightarrow> (case vc_min c of Some m \<Rightarrow> m | None \<Rightarrow> 0))\<rparr>"

text \<open>
  The attribute loop of \<open>_resetEntityForReuse\<close>. An attribute with neither a specification
  nor a range to roll in gets NaN in the source; the model has no NaN and reports the case.
\<close>

definition resetAttribute ::
  "(nat \<Rightarrow> real) \<Rightarrow> preset option \<Rightarrow> spawn_overrides \<Rightarrow> string + (entity \<times> nat) \<Rightarrow> ident \<times> attr_cfg
   \<Rightarrow> string + (entity \<times> nat)" where
  "resetAttribute rnd p ov acc attr =
     (case acc of
        Inl err \<Rightarrow> Inl err
      | Inr ek \<Rightarrow>
          (let precision = (case at_precision (snd attr) of None \<Rightarrow> 0 | Some n \<Rightarrow> n);
               spec = (case (case p of None \<Rightarrow> None | Some q \<Rightarrow> map_of (pr_attributes q) (fst attr)) of
                         Some s \<Rightarrow> Some s
                       | None \<Rightarrow> map_of (so_attributes ov) (fst attr))
           in case spec of
                Some s \<Rightarrow>
                  (let r = resolvePresetAttributeValue rnd (snd ek) s precision
                   in Inr ((fst ek)\<lparr>e_attributes := AList.update (fst attr) (fst r) (e_attributes (fst ek))\<rparr>, snd r))
              | None \<Rightarrow>
                  (case (case at_defaultRange (snd attr) of
                           Some r \<Rightarrow> Some r
                         | None \<Rightarrow> (case (at_min (snd attr), at_max (snd attr)) of
                                      (Some lo, Some hi) \<Rightarrow> Some (lo, hi) | _ \<Rightarrow> None)) of
                     None \<Rightarrow> Inl ''NaN''
                   | Some r \<Rightarrow>
                       Inr ((fst ek)\<lparr>e_attributes := AList.update (fst attr)
                                         (rollRange (rnd (snd ek)) (fst r) (snd r) precision)
                                         (e_attributes (fst ek))\<rparr>, Suc (snd ek)))))"

definition rerollLayer ::
  "config \<Rightarrow> real \<Rightarrow> (nat \<Rightarrow> real) \<Rightarrow> string + (entity \<times> nat) \<Rightarrow> ident \<times> layer_cfg \<Rightarrow> string + (entity \<times> nat)" where
  "rerollLayer cfg now rnd acc l =
     (case acc of
        Inl err \<Rightarrow> Inl err
      | Inr ek \<Rightarrow>
          (let timing = (case ly_rollAt (snd l) of None \<Rightarrow> ''spawn'' | Some t \<Rightarrow> if t = [] then ''spawn'' else t)
           in if timing = ''spawn'' \<or> timing = ''create'' then rollTimes cfg now rnd (fst l) 1 ek
              else Inr ek))"

text \<open>
  \<open>_resetEntityForReuse\<close> for a preset id, up to its last statement, the cascade. The entity
  is owned by the caller; \<open>fresh\<close> is its new id.
\<close>

definition resetEntityForReuse ::
  "config \<Rightarrow> (ident \<times> preset) list \<Rightarrow> real \<Rightarrow> ident \<Rightarrow> (nat \<Rightarrow> real) \<Rightarrow> nat \<Rightarrow> entity \<Rightarrow> ident \<Rightarrow> spawn_overrides
   \<Rightarrow> string + (entity \<times> nat)" where
  "resetEntityForReuse cfg presets now fresh rnd k e presetId ov =
     (let p = map_of presets presetId;
          e1 = e\<lparr>e_id := fresh, e_createdAt := now,
                 e_presetId := (case p of None \<Rightarrow> None | Some _ \<Rightarrow> if presetId = [] then None else Some presetId)\<rparr>
      in case foldl (resetAttribute rnd p ov) (Inr (e1, k)) (getAttributes cfg) of
           Inl err \<Rightarrow> Inl err
         | Inr ek \<Rightarrow>
             (let e2 = (fst ek)\<lparr>e_variables := foldl (\<lambda>vs v. AList.update (fst v) (resetVariable (snd v)) vs)
                                                   (e_variables (fst ek)) (getVariables cfg),
                                 e_layers := map (\<lambda>l. (fst l, \<lparr>ls_active = [], ls_lastRoll = None\<rparr>)) (e_layers (fst ek)),
                                 e_modifiers := [], e_compounds := [], e_modifierStates := Some [],
                                 e_derived := [], e_log := [], e_lastTick := now\<rparr>
              in case foldl (rerollLayer cfg now rnd) (Inr (e2, snd ek)) (getLayers cfg) of
                   Inl err \<Rightarrow> Inl err
                 | Inr ek3 \<Rightarrow>
                     (let t1 = resolvePresetTraits rnd (snd ek3) (case p of None \<Rightarrow> [] | Some q \<Rightarrow> pr_traits q);
                          t2 = resolvePresetTraits rnd (snd t1) (so_traits ov);
                          forceTraits = (case p of None \<Rightarrow> [] | Some q \<Rightarrow> pr_forceTraits q) @ fst t1
                                        @ so_forceTraits ov @ fst t2
                      in Inr (forceAll cfg (fst ek3) forceTraits, snd t2))))"

text \<open>
  acquire with a preset id. The pool looked into is the target pool, or the default pool
  when no target is given or the target is unknown; the pool the entity is assigned to is
  determined afterwards from the rules, and the counters of the pool looked into are the
  ones incremented. The second component of the result tells whether the entity came from
  the pool.
\<close>

definition acquire ::
  "config \<Rightarrow> real \<Rightarrow> ident \<Rightarrow> (nat \<Rightarrow> real) \<Rightarrow> nat \<Rightarrow> em \<Rightarrow> ident \<Rightarrow> spawn_overrides \<Rightarrow> ident option
   \<Rightarrow> string + (entity option \<times> bool \<times> em \<times> nat)" where
  "acquire cfg now fresh rnd k st presetId ov targetPoolId =
     (let poolId0 = (if truthy targetPoolId then the targetPoolId else ''default'');
          poolId = (if map_of (em_pools st) poolId0 = None then ''default'' else poolId0)
      in case map_of (em_pools st) poolId of
           None \<Rightarrow> Inl ''TypeError''
         | Some actualPool \<Rightarrow>
             (case (if po_entities actualPool \<noteq> [] then
                      (case resetEntityForReuse cfg (em_presets st) now fresh rnd k (last (po_entities actualPool))
                              presetId ov of
                         Inl err \<Rightarrow> Inl err
                       | Inr ek \<Rightarrow>
                           (let st1 = updatePool st poolId
                                        (\<lambda>p. p\<lparr>po_entities := butlast (po_entities p),
                                               po_stats := (po_stats p)\<lparr>ps_available := ps_available (po_stats p) - 1\<rparr>\<rparr>)
                            in if em_batchingCascade st1
                               then Inr (Some (fst ek), True,
                                         st1\<lparr>em_cascadeDirty := True, em_cascadeEntity := Some fresh\<rparr>, snd ek)
                               else Inr (Some (calculateDerived cfg (checkCompounds cfg (recalculateRates cfg (fst ek)))),
                                         True,
                                         st1\<lparr>em_calls := em_calls st1 @ [(''recalculateRates'', fresh),
                                               (''checkCompounds'', fresh), (''calculateDerived'', fresh)]\<rparr>,
                                         snd ek)))
                    else
                      (case spawn cfg (em_presets st) now fresh rnd k presetId ov of
                         Inl err \<Rightarrow> Inl err
                       | Inr ek \<Rightarrow>
                           Inr (fst ek, False,
                                updatePool st poolId
                                  (\<lambda>p. p\<lparr>po_stats := (po_stats p)\<lparr>ps_totalCreated := ps_totalCreated (po_stats p) + 1\<rparr>\<rparr>),
                                snd ek))) of
                Inl err \<Rightarrow> Inl err
              | Inr (None, fromPool, st2, k2) \<Rightarrow> Inr (None, fromPool, st2, k2)
              | Inr (Some e, fromPool, st2, k2) \<Rightarrow>
                  (let finalPool = (if truthy targetPoolId then poolId else getPoolForEntity st2 e);
                       e1 = e\<lparr>e_poolId := Some finalPool\<rparr>;
                       st3 = snd (store st2 e1);
                       st4 = activate now st3 e1;
                       st5 = updatePool st4 poolId
                               (\<lambda>p. p\<lparr>po_stats := (po_stats p)\<lparr>ps_inUse := ps_inUse (po_stats p) + 1,
                                        ps_totalAcquired := ps_totalAcquired (po_stats p) + 1\<rparr>\<rparr>)
                   in Inr (Some (e1\<lparr>e_lastTick := now\<rparr>), fromPool,
                           emit st5 ''entityAcquired'' (e_id e1) finalPool, k2))))"

section \<open>SpawnEngine, the facade\<close>

text \<open>
  The facade holds a SpawnManager, an EntityManager linked to it, and its own map
  \<open>entities\<close>. A method that takes \<open>entityOrId\<close> receives an id (a string) or the entity
  object.
\<close>

datatype entity_ref = ById ident | ByObject entity

text \<open>Every method the class body of EntityManager defines (lines 1908 to 4231).\<close>

definition entityManagerMethods :: "string list" where
  "entityManagerMethods =
     [''constructor'', ''_initDefaultPool'', ''linkSpawnManager'', ''registerPreset'', ''registerPresets'',
      ''getPreset'', ''listPresets'', ''getPresetsByTaxonomy'', ''removePreset'', ''registerPresetGroup'',
      ''getPresetGroup'', ''listPresetGroups'', ''listPresetsByGroup'', ''removePresetGroup'',
      ''createGroup'', ''addToGroup'', ''removeFromGroup'', ''getGroup'', ''getGroupInfo'', ''listGroups'',
      ''deleteGroup'', ''store'', ''retrieve'', ''remove'', ''getAllStored'', ''activate'', ''deactivate'',
      ''getActive'', ''getAllActive'', ''isActive'', ''setSpawnContext'', ''getSpawnContext'',
      ''clearSpawnContext'', ''snapshot'', ''getHistory'', ''rollback'', ''tick'', ''tickAll'',
      ''startAutoTick'', ''stopAutoTick'', ''modifyVariable'', ''setVariable'', ''applyModifier'',
      ''removeModifier'', ''activateTrait'', ''deactivateTrait'', ''_runCascade'', ''checkThresholds'',
      ''evaluateThreshold'', ''getNodeValue'', ''evaluateModifierTrigger'',
      ''evaluateConditionsWithConnectors'', ''evaluateRemoveConditions'', ''evaluateConditionOrGroup'',
      ''evaluateSingleCondition'', ''isNodeActive'', ''checkModifierThresholds'', ''buildExclusiveGroups'',
      ''resolveExclusiveGroups'', ''getMostSpecificModifier'', ''query'', ''matchesWhere'',
      ''getNestedValue'', ''compareValues'', ''getState'', ''configurePool'', ''acquire'', ''release'',
      ''preWarmPool'', ''clearPool'', ''getPoolStats'', ''_resetEntityForReuse'', ''_prepareEntityForPool'',
      ''_scheduleShrinkCheck'', ''_checkPoolShrink'', ''_scheduleShrinkCheckForPool'', ''createPool'',
      ''getPool'', ''listPools'', ''removePool'', ''moveToPool'', ''getAllPoolStats'', ''setPoolRules'',
      ''getPoolForEntity'', ''_evaluatePoolRules'', ''_evaluatePoolCondition'', ''_matchPattern'',
      ''_evaluateOperator'', ''export'', ''import'', ''on'', ''off'', ''emit'']"

text \<open>
  The call \<open>this.entityManager.getEntity(id)\<close>. Calling a property the object does not have
  throws a TypeError. The declaration file declares \<open>getEntity(entityId): Entity | null\<close>
  next to \<open>retrieve\<close>; a class that defined it so would return what \<open>retrieve\<close> returns.
\<close>

definition callGetEntity :: "em \<Rightarrow> ident \<Rightarrow> string + entity option" where
  "callGetEntity st i =
     (if ''getEntity'' \<in> set entityManagerMethods then Inr (retrieve st i) else Inl ''TypeError'')"

text \<open>
  \<open>typeof entityOrId === 'string' ? this.entityManager.getEntity(entityOrId) : entityOrId\<close>
\<close>

definition resolveEntity :: "em \<Rightarrow> entity_ref \<Rightarrow> string + entity option" where
  "resolveEntity st r = (case r of ById i \<Rightarrow> callGetEntity st i | ByObject e \<Rightarrow> Inr (Some e))"

definition isAction :: "config \<Rightarrow> ident \<Rightarrow> bool" where
  "isAction cfg i = (case getNode cfg i of None \<Rightarrow> False | Some n \<Rightarrow> (case body n of Action _ \<Rightarrow> True | _ \<Rightarrow> False))"

definition isLayer :: "config \<Rightarrow> ident \<Rightarrow> bool" where
  "isLayer cfg i = (case getNode cfg i of None \<Rightarrow> False | Some n \<Rightarrow> (case body n of Layer _ \<Rightarrow> True | _ \<Rightarrow> False))"

text \<open>
  The facade methods. With a null entity the SpawnManager method returns only where it
  leaves before it reads a property of the entity; reading one is a TypeError.
\<close>

definition facadeIsActionAvailable :: "config \<Rightarrow> em \<Rightarrow> entity_ref \<Rightarrow> ident \<Rightarrow> string + bool" where
  "facadeIsActionAvailable cfg st r actionId =
     (case resolveEntity st r of
        Inl err \<Rightarrow> Inl err
      | Inr None \<Rightarrow> if isAction cfg actionId then Inl ''TypeError'' else Inr False
      | Inr (Some e) \<Rightarrow> Inr (isActionAvailable cfg e actionId))"

text \<open>getAvailableActions: the available actions with their weights.\<close>

definition presetActionWeight :: "config \<Rightarrow> em \<Rightarrow> entity \<Rightarrow> ident \<times> act_cfg \<Rightarrow> real" where
  "presetActionWeight cfg st e a =
     (let weight = (case ac_baseWeight (snd a) of None \<Rightarrow> 50 | Some w \<Rightarrow> w)
      in if truthy (e_presetId e) then
           (case map_of (em_presets st) (the (e_presetId e)) of
              None \<Rightarrow> weight
            | Some p \<Rightarrow>
                (case map_of (pr_actions p) (fst a) of
                   Some (PANumber w) \<Rightarrow> if w = 0 then weight else w
                 | Some (PAObject (Some w) None) \<Rightarrow> w
                 | Some (PAObject (Some w) (Some c)) \<Rightarrow> if evaluateCondition cfg e c then w else weight
                 | _ \<Rightarrow> weight))
         else weight)"

definition actionWeight :: "config \<Rightarrow> em \<Rightarrow> entity \<Rightarrow> ident \<times> act_cfg \<Rightarrow> real" where
  "actionWeight cfg st e a =
     foldl (\<lambda>w rel. if \<not> isNodeActive cfg e (rel_sourceId rel) then w
                     else if \<not> evaluateConditions cfg e (rel_conditions rel) then w
                     else if rel_operation rel = ''add'' then w + calculateRelationshipValue cfg e rel
                     else if rel_operation rel = ''multiply'' then w * calculateRelationshipValue cfg e rel
                     else w)
       (presetActionWeight cfg st e a)
       (influencesOf cfg (fst a))"

definition getAvailableActions :: "config \<Rightarrow> em \<Rightarrow> entity \<Rightarrow> (ident \<times> real) list" where
  "getAvailableActions cfg st e =
     filter (\<lambda>aw. snd aw > 0)
       (map (\<lambda>a. (fst a, actionWeight cfg st e a))
          (filter (\<lambda>a. isActionAvailable cfg e (fst a)) (getActions cfg)))"

definition facadeGetAvailableActions :: "config \<Rightarrow> em \<Rightarrow> entity_ref \<Rightarrow> string + (ident \<times> real) list" where
  "facadeGetAvailableActions cfg st r =
     (case resolveEntity st r of
        Inl err \<Rightarrow> Inl err
      | Inr None \<Rightarrow> if list_ex (\<lambda>a. isAction cfg (fst a)) (getActions cfg) then Inl ''TypeError'' else Inr []
      | Inr (Some e) \<Rightarrow> Inr (getAvailableActions cfg st e))"

definition selectAction :: "config \<Rightarrow> em \<Rightarrow> real \<Rightarrow> entity \<Rightarrow> (ident \<times> real) option" where
  "selectAction cfg st r e =
     (let available = getAvailableActions cfg st e
      in if available = [] then None
         else (case pickIndex available (r * sum_list (map snd available)) of
                 None \<Rightarrow> Some (hd available)
               | Some j \<Rightarrow> Some (available ! j)))"

definition facadeSelectAction :: "config \<Rightarrow> em \<Rightarrow> real \<Rightarrow> entity_ref \<Rightarrow> string + (ident \<times> real) option" where
  "facadeSelectAction cfg st rn r =
     (case resolveEntity st r of
        Inl err \<Rightarrow> Inl err
      | Inr None \<Rightarrow> if list_ex (\<lambda>a. isAction cfg (fst a)) (getActions cfg) then Inl ''TypeError'' else Inr None
      | Inr (Some e) \<Rightarrow> Inr (selectAction cfg st rn e))"

definition facadeExecuteAction :: "config \<Rightarrow> em \<Rightarrow> entity_ref \<Rightarrow> ident \<Rightarrow> string + (bool \<times> entity option)" where
  "facadeExecuteAction cfg st r actionId =
     (case resolveEntity st r of
        Inl err \<Rightarrow> Inl err
      | Inr None \<Rightarrow> if isAction cfg actionId then Inl ''TypeError'' else Inr (False, None)
      | Inr (Some e) \<Rightarrow> Inr (fst (executeAction cfg e actionId), Some (snd (executeAction cfg e actionId))))"

definition facadeGetActionCooldown :: "config \<Rightarrow> em \<Rightarrow> entity_ref \<Rightarrow> ident \<Rightarrow> string + (real \<times> real \<times> bool)" where
  "facadeGetActionCooldown cfg st r actionId =
     (case resolveEntity st r of
        Inl err \<Rightarrow> Inl err
      | Inr None \<Rightarrow> Inl ''TypeError''
      | Inr (Some e) \<Rightarrow> Inr (getActionCooldown cfg e actionId))"

definition facadeRollLayer ::
  "config \<Rightarrow> real \<Rightarrow> (nat \<Rightarrow> real) \<Rightarrow> nat \<Rightarrow> em \<Rightarrow> entity_ref \<Rightarrow> ident \<Rightarrow> string + (roll_result \<times> entity option \<times> nat)" where
  "facadeRollLayer cfg now rnd k st r layerId =
     (case resolveEntity st r of
        Inl err \<Rightarrow> Inl err
      | Inr None \<Rightarrow>
          if isLayer cfg layerId then Inl ''TypeError''
          else Inr (\<lparr>rr_success = False, rr_selected = [], rr_pool = [], rr_error = ''Invalid layer''\<rparr>, None, k)
      | Inr (Some e) \<Rightarrow>
          (case rollLayer cfg now rnd k e layerId of
             Inl err \<Rightarrow> Inl err
           | Inr x \<Rightarrow> Inr (fst x, Some (fst (snd x)), snd (snd x))))"

text \<open>rollOutcome: clear the layer, roll it \<open>rolls\<close> times, recompute compounds and derived values.\<close>

fun outcomeRolls ::
  "config \<Rightarrow> real \<Rightarrow> (nat \<Rightarrow> real) \<Rightarrow> ident \<Rightarrow> nat \<Rightarrow> entity \<times> nat \<times> ident list
   \<Rightarrow> string + (entity \<times> nat \<times> ident list)" where
  "outcomeRolls cfg now rnd layerId 0 acc = Inr acc"
| "outcomeRolls cfg now rnd layerId (Suc n) acc =
     (case rollLayer cfg now rnd (fst (snd acc)) (fst acc) layerId of
        Inl err \<Rightarrow> Inl err
      | Inr x \<Rightarrow>
          outcomeRolls cfg now rnd layerId n
            (fst (snd x), snd (snd x),
             if rr_success (fst x) then snd (snd acc) @ rr_selected (fst x) else snd (snd acc)))"

definition rollOutcome ::
  "config \<Rightarrow> real \<Rightarrow> (nat \<Rightarrow> real) \<Rightarrow> nat \<Rightarrow> entity \<Rightarrow> ident \<Rightarrow> nat \<Rightarrow> string + (roll_result \<times> entity \<times> nat)" where
  "rollOutcome cfg now rnd k e layerId rolls =
     (if \<not> isLayer cfg layerId then
        Inr (\<lparr>rr_success = False, rr_selected = [], rr_pool = [], rr_error = ''Invalid layer''\<rparr>, e, k)
      else
        (let e1 = ensureLayer e layerId;
             e2 = foldl (\<lambda>x t. snd (deactivateTrait cfg x t)) e1 (layerActive e1 layerId);
             e3 = setLayerActive e2 layerId []
         in case outcomeRolls cfg now rnd layerId rolls (e3, k, []) of
              Inl err \<Rightarrow> Inl err
            | Inr acc \<Rightarrow>
                Inr (\<lparr>rr_success = (snd (snd acc) \<noteq> []), rr_selected = snd (snd acc), rr_pool = [], rr_error = []\<rparr>,
                     calculateDerived cfg (checkCompounds cfg (fst acc)), fst (snd acc))))"

definition facadeRollOutcome ::
  "config \<Rightarrow> real \<Rightarrow> (nat \<Rightarrow> real) \<Rightarrow> nat \<Rightarrow> em \<Rightarrow> entity_ref \<Rightarrow> ident \<Rightarrow> nat
   \<Rightarrow> string + (roll_result \<times> entity option \<times> nat)" where
  "facadeRollOutcome cfg now rnd k st r layerId rolls =
     (case resolveEntity st r of
        Inl err \<Rightarrow> Inl err
      | Inr None \<Rightarrow>
          if isLayer cfg layerId then Inl ''TypeError''
          else Inr (\<lparr>rr_success = False, rr_selected = [], rr_pool = [], rr_error = ''Invalid layer''\<rparr>, None, k)
      | Inr (Some e) \<Rightarrow>
          (case rollOutcome cfg now rnd k e layerId rolls of
             Inl err \<Rightarrow> Inl err
           | Inr x \<Rightarrow> Inr (fst x, Some (fst (snd x)), snd (snd x))))"

section \<open>Reference definitions that follow the wording of the specification\<close>



section \<open>Scenario configurations\<close>

subsection \<open>Scenario S4: weighted selection with diminishing returns\<close>

definition s4_layer :: layer_cfg where
  "s4_layer = \<lparr>ly_order = None, ly_rollAt = None, ly_traitIds = [''t'', ''s1'', ''s2''],
     ly_mode = None, ly_maxItems = None, ly_initialRolls = None, ly_pickCount = None,
     ly_diminishingReturns = True, ly_weightFloor = None\<rparr>"

definition s4_trait :: "real option \<Rightarrow> trait_cfg" where
  "s4_trait w = \<lparr>tc_layerId = ''L'', tc_baseWeight = w, tc_mode = None, tc_weightModifiers = [],
     tc_trigger = None, tc_autoRemove = None, tc_replaces = [], tc_incompatibleWith = [],
     tc_eligibility = []\<rparr>"

definition s4_rel :: "ident \<Rightarrow> relationship" where
  "s4_rel s = \<lparr>rel_sourceId = s, rel_targetId = ''t'', rel_type = ''weight_influence'',
     rel_operation = ''add'', rel_value = 9, rel_scaling = ''flat'', rel_perPointSource = None,
     rel_invert = False, rel_conditions = []\<rparr>"

definition s4_cfg :: config where
  "s4_cfg = \<lparr>cfg_id = ''s4'',
     cfg_nodes = [\<lparr>nid = ''L'', body = Layer s4_layer\<rparr>,
                  \<lparr>nid = ''t'', body = Trait (s4_trait (Some 16))\<rparr>,
                  \<lparr>nid = ''s1'', body = Trait (s4_trait None)\<rparr>,
                  \<lparr>nid = ''s2'', body = Trait (s4_trait None)\<rparr>],
     cfg_relationships = [s4_rel ''s1'', s4_rel ''s2'']\<rparr>"

definition s4_entity :: entity where
  "s4_entity = \<lparr>e_id = ''e'', e_configId = ''s4'', e_createdAt = 0, e_presetId = None,
     e_attributes = [], e_variables = [], e_contexts = [],
     e_layers = [(''L'', \<lparr>ls_active = [''s1'', ''s2''], ls_lastRoll = None\<rparr>)],
     e_modifiers = [], e_modifierStates = None, e_compounds = [], e_derived = [], e_actions = [],
     e_poolId = None, e_log = [], e_lastTick = 0\<rparr>"

subsection \<open>A compound that drives a rate\<close>

text \<open>
  An attribute \<open>a\<close>, a variable \<open>v\<close> with base rate 0, a compound \<open>k\<close> that requires \<open>a\<close>
  (an attribute node counts as active), and a rate modifier from \<open>k\<close> to \<open>v\<close> adding 5.
\<close>

definition zeroRnd :: "nat \<Rightarrow> real" where
  "zeroRnd n = 0"



definition c5_body :: entity where
  "c5_body = \<lparr>e_id = ''e1'', e_configId = ''c5'', e_createdAt = 0, e_presetId = None,
     e_attributes = [(''a'', 3)],
     e_variables = [(''v'', \<lparr>vs_value = 50, vs_baseRate = 0, vs_currentRate = 0, vs_min = 0,
                            vs_max = 100, vs_changeMode = ''manual'', vs_direction = ''none''\<rparr>)],
     e_contexts = [], e_layers = [], e_modifiers = [], e_modifierStates = None, e_compounds = [],
     e_derived = [], e_actions = [], e_poolId = None, e_log = [], e_lastTick = 0\<rparr>"

subsection \<open>A forced trait that a compound requires\<close>






subsection \<open>Scenario S2: exclusive threshold modifiers on one variable\<close>

definition hpNode :: node where
  "hpNode = \<lparr>nid = ''hp'', body = Variable \<lparr>vc_initial = Some 100, vc_baseRate = Some 0, vc_min = Some 0,
     vc_max = Some 100, vc_changeMode = None, vc_direction = None\<rparr>\<rparr>"

definition thresholdOn :: "ident \<Rightarrow> string \<Rightarrow> real \<Rightarrow> trigger" where
  "thresholdOn v operator x =
     \<lparr>tr_type = ''threshold'', tr_static = False,
      tr_conditions = [TLeaf \<lparr>lc_target = Some v, lc_operator = operator, lc_value = x, lc_connector = None\<rparr>],
      tr_logic = Some ''all'', tr_removeConditions = [], tr_removeLogic = None,
      tr_target = Some v, tr_operator = operator, tr_value = x\<rparr>"

definition thresholdModifier :: "ident \<Rightarrow> trigger \<Rightarrow> ident list \<Rightarrow> node" where
  "thresholdModifier i t ex =
     \<lparr>nid = i, body = Modifier \<lparr>mc_durationType = None, mc_duration = None, mc_stacking = None,
        mc_maxStacks = None, mc_trigger = Some t, mc_exclusiveWith = ex\<rparr>\<rparr>"

definition s2_cfg :: config where
  "s2_cfg = \<lparr>cfg_id = ''s2'',
     cfg_nodes =
       [hpNode,
        thresholdModifier ''lightly_wounded'' (thresholdOn ''hp'' ''<='' 80) [''wounded'', ''critical''],
        thresholdModifier ''wounded'' (thresholdOn ''hp'' ''<='' 50) [''lightly_wounded'', ''critical''],
        thresholdModifier ''critical'' (thresholdOn ''hp'' ''<='' 20) [''lightly_wounded'', ''wounded'']],
     cfg_relationships = []\<rparr>"

definition noOverrides :: gen_overrides where
  "noOverrides = \<lparr>go_id = None, go_attributes = [], go_contexts = []\<rparr>"

text \<open>The manager after \<open>generate\<close> and \<open>store\<close> of one entity with id \<open>e1\<close>.\<close>

definition spawned :: "config \<Rightarrow> em" where
  "spawned cfg =
     (case generate cfg 0 ''e1'' zeroRnd 0 noOverrides of
        Inl _ \<Rightarrow> newEntityManager
      | Inr ek \<Rightarrow> snd (store newEntityManager (fst ek)))"

definition modifiersOf :: "em \<Rightarrow> ident \<Rightarrow> ident list" where
  "modifiersOf st i = (case objOf st i of None \<Rightarrow> [] | Some e \<Rightarrow> e_modifiers e)"

definition s2_at15 :: em where
  "s2_at15 = snd (setVariable s2_cfg 1 (spawned s2_cfg) ''e1'' ''hp'' 15)"

definition s2_at45 :: em where
  "s2_at45 = snd (setVariable s2_cfg 2 s2_at15 ''e1'' ''hp'' 45)"

definition s2_at90 :: em where
  "s2_at90 = snd (setVariable s2_cfg 3 s2_at45 ''e1'' ''hp'' 90)"

subsection \<open>Two exclusive modifiers with opposite operators\<close>

text \<open>
  \<open>low\<close> is declared first and lists no partner; \<open>high\<close> is declared second and lists
  \<open>low\<close> in \<open>exclusiveWith\<close>. At \<open>hp = 30\<close> both triggers pass.
\<close>

definition c3_cfg :: config where
  "c3_cfg = \<lparr>cfg_id = ''c3'',
     cfg_nodes =
       [hpNode,
        thresholdModifier ''low'' (thresholdOn ''hp'' ''<='' 50) [],
        thresholdModifier ''high'' (thresholdOn ''hp'' ''>='' 10) [''low'']],
     cfg_relationships = []\<rparr>"

definition c3_at30 :: em where
  "c3_at30 = snd (setVariable c3_cfg 1 (spawned c3_cfg) ''e1'' ''hp'' 30)"

subsection \<open>A modifier applied between snapshot and rollback\<close>

text \<open>
  A variable \<open>v\<close> with base rate 1 and a modifier \<open>m\<close> that adds 5 to its rate. The entity
  is snapshotted at time 10, the modifier is applied at time 20, and the entity is rolled
  back to time 15.
\<close>

definition plainModifier :: mod_cfg where
  "plainModifier = \<lparr>mc_durationType = None, mc_duration = None, mc_stacking = None,
     mc_maxStacks = None, mc_trigger = None, mc_exclusiveWith = []\<rparr>"

definition c6_cfg :: config where
  "c6_cfg = \<lparr>cfg_id = ''c6'',
     cfg_nodes =
       [\<lparr>nid = ''v'', body = Variable \<lparr>vc_initial = Some 50, vc_baseRate = Some 1, vc_min = Some 0,
                                       vc_max = Some 100, vc_changeMode = Some ''timed'',
                                       vc_direction = Some ''accumulate''\<rparr>\<rparr>,
        \<lparr>nid = ''m'', body = Modifier plainModifier\<rparr>],
     cfg_relationships =
       [\<lparr>rel_sourceId = ''m'', rel_targetId = ''v'', rel_type = ''rate_modifier'',
         rel_operation = ''add'', rel_value = 5, rel_scaling = ''flat'', rel_perPointSource = None,
         rel_invert = False, rel_conditions = []\<rparr>]\<rparr>"

definition c6_snapshotted :: em where
  "c6_snapshotted = snd (snapshot 10 (spawned c6_cfg) ''e1'')"

definition c6_modified :: em where
  "c6_modified =
     snd (applyModifier c6_cfg 20 c6_snapshotted ''e1'' ''m'' \<lparr>ap_isStatic = False, ap_mod = Some plainModifier\<rparr>)"

definition c6_rolledBack :: em where
  "c6_rolledBack = snd (rollback c6_modified ''e1'' 15)"

definition currentRateOf :: "em \<Rightarrow> ident \<Rightarrow> ident \<Rightarrow> real option" where
  "currentRateOf st i v =
     (case objOf st i of None \<Rightarrow> None | Some e \<Rightarrow> map_option vs_currentRate (map_of (e_variables e) v))"

subsection \<open>Scenario S5: pool round trip\<close>

definition emptyPreset :: preset where
  "emptyPreset = \<lparr>pr_attributes = [], pr_contexts = [], pr_forceTraits = [], pr_traits = [], pr_actions = []\<rparr>"

definition noSpawnOverrides :: spawn_overrides where
  "noSpawnOverrides = \<lparr>so_id = None, so_attributes = [], so_contexts = [], so_forceTraits = [], so_traits = []\<rparr>"

definition s5_cfg :: config where
  "s5_cfg = \<lparr>cfg_id = ''s5'', cfg_nodes = [hpNode], cfg_relationships = []\<rparr>"

definition s5_start :: em where
  "s5_start =
     createPool (registerPreset newEntityManager ''enemy_goblin'' emptyPreset) ''enemies'' (Some 4)
       (Some \<lparr>pl_conditions = Some [\<lparr>pc_source = ''preset'', pc_match = ''enemy_*'', pc_operator = None,
                                      pc_value = None, pc_weight = None\<rparr>],
              pl_priority = None\<rparr>)"

text \<open>The manager after an acquire of the preset with no target pool; the state is kept on an error.\<close>

definition acquireGoblin :: "real \<Rightarrow> ident \<Rightarrow> em \<Rightarrow> em" where
  "acquireGoblin now fresh st =
     (case acquire s5_cfg now fresh zeroRnd 0 st ''enemy_goblin'' noSpawnOverrides None of
        Inl _ \<Rightarrow> st
      | Inr r \<Rightarrow> fst (snd (snd r)))"

definition cameFromPool :: "real \<Rightarrow> ident \<Rightarrow> em \<Rightarrow> bool option" where
  "cameFromPool now fresh st =
     (case acquire s5_cfg now fresh zeroRnd 0 st ''enemy_goblin'' noSpawnOverrides None of
        Inl _ \<Rightarrow> None
      | Inr r \<Rightarrow> Some (fst (snd r)))"

definition s5_released :: em where
  "s5_released =
     snd (release (snd (release (acquireGoblin 2 ''g2'' (acquireGoblin 1 ''g1'' s5_start)) ''g1'' None)) ''g2'' None)"

definition pooledIds :: "em \<Rightarrow> ident \<Rightarrow> ident list" where
  "pooledIds st poolId = (case map_of (em_pools st) poolId of None \<Rightarrow> [] | Some p \<Rightarrow> map e_id (po_entities p))"

text \<open>
  The states the scenario goes through, written out. A goblin as acquire returns it, and as
  release leaves it in the pool.
\<close>

definition goblin :: "ident \<Rightarrow> real \<Rightarrow> entity" where
  "goblin i t =
     \<lparr>e_id = i, e_configId = ''s5'', e_createdAt = t, e_presetId = Some ''enemy_goblin'',
      e_attributes = [],
      e_variables = [(''hp'', \<lparr>vs_value = 100, vs_baseRate = 0, vs_currentRate = 0, vs_min = 0,
                              vs_max = 100, vs_changeMode = ''manual'', vs_direction = ''none''\<rparr>)],
      e_contexts = [], e_layers = [], e_modifiers = [], e_modifierStates = None, e_compounds = [],
      e_derived = [], e_actions = [], e_poolId = Some ''enemies'',
      e_log = [''generated'', ''spawned''], e_lastTick = t\<rparr>"

definition pooledGoblin :: "ident \<Rightarrow> real \<Rightarrow> entity" where
  "pooledGoblin i t = (goblin i t)\<lparr>e_log := [], e_lastTick := 0, e_modifierStates := Some []\<rparr>"

definition s5_state ::
  "(ident \<times> entity) list \<Rightarrow> pool_stats \<Rightarrow> pool_stats \<Rightarrow> entity list \<Rightarrow> ident list
   \<Rightarrow> (string \<times> ident \<times> ident) list \<Rightarrow> em" where
  "s5_state objs defaultStats enemyStats pooled ids events =
     s5_start\<lparr>em_objs := objs,
       em_pools := [(''default'', \<lparr>po_maxSize = 100, po_stats = defaultStats, po_entities = [], po_rules = None\<rparr>),
                    (''enemies'', \<lparr>po_maxSize = 4, po_stats = enemyStats, po_entities = pooled,
                       po_rules = Some \<lparr>pl_conditions = Some [\<lparr>pc_source = ''preset'', pc_match = ''enemy_*'',
                                           pc_operator = None, pc_value = None, pc_weight = None\<rparr>],
                                         pl_priority = None\<rparr>\<rparr>)],
       em_stored := ids, em_active := ids,
       em_groups := [(''config:s5'', ids)],
       em_events := em_events s5_start @ events\<rparr>"

definition s5_events1 :: "(string \<times> ident \<times> ident) list" where
  "s5_events1 =
     [(''groupCreated'', ''config:s5'', []), (''addedToGroup'', ''config:s5'', ''g1''),
      (''entityStored'', ''g1'', []), (''entityActivated'', ''g1'', []), (''entityAcquired'', ''g1'', ''enemies'')]"

definition s5_events2 :: "(string \<times> ident \<times> ident) list" where
  "s5_events2 = s5_events1 @
     [(''addedToGroup'', ''config:s5'', ''g2''),
      (''entityStored'', ''g2'', []), (''entityActivated'', ''g2'', []), (''entityAcquired'', ''g2'', ''enemies'')]"

definition s5_events3 :: "(string \<times> ident \<times> ident) list" where
  "s5_events3 = s5_events2 @ [(''entityDeactivated'', ''g1'', []), (''entityReleased'', ''g1'', ''enemies'')]"

definition s5_events4 :: "(string \<times> ident \<times> ident) list" where
  "s5_events4 = s5_events3 @ [(''entityDeactivated'', ''g2'', []), (''entityReleased'', ''g2'', ''enemies'')]"

definition s5_events5 :: "(string \<times> ident \<times> ident) list" where
  "s5_events5 = s5_events4 @
     [(''addedToGroup'', ''config:s5'', ''g3''),
      (''entityStored'', ''g3'', []), (''entityActivated'', ''g3'', []), (''entityAcquired'', ''g3'', ''enemies'')]"

definition s5_acquired1 :: em where
  "s5_acquired1 =
     s5_state [(''g1'', goblin ''g1'' 1)]
       (zeroStats\<lparr>ps_inUse := 1, ps_totalAcquired := 1, ps_totalCreated := 1\<rparr>) zeroStats [] [''g1'']
       s5_events1"

definition s5_acquired2 :: em where
  "s5_acquired2 =
     s5_state [(''g1'', goblin ''g1'' 1), (''g2'', goblin ''g2'' 2)]
       (zeroStats\<lparr>ps_inUse := 2, ps_totalAcquired := 2, ps_totalCreated := 2\<rparr>) zeroStats []
       [''g1'', ''g2''] s5_events2"

definition s5_released1 :: em where
  "s5_released1 =
     s5_state [(''g1'', goblin ''g1'' 1), (''g2'', goblin ''g2'' 2)]
       (zeroStats\<lparr>ps_inUse := 2, ps_totalAcquired := 2, ps_totalCreated := 2\<rparr>)
       (zeroStats\<lparr>ps_size := 1, ps_available := 1, ps_totalReleased := 1\<rparr>)
       [pooledGoblin ''g1'' 1] [''g2''] s5_events3"

definition s5_released2 :: em where
  "s5_released2 =
     s5_state [(''g1'', goblin ''g1'' 1), (''g2'', goblin ''g2'' 2)]
       (zeroStats\<lparr>ps_inUse := 2, ps_totalAcquired := 2, ps_totalCreated := 2\<rparr>)
       (zeroStats\<lparr>ps_size := 2, ps_available := 2, ps_totalReleased := 2\<rparr>)
       [pooledGoblin ''g1'' 1, pooledGoblin ''g2'' 2] [] s5_events4"

definition s5_acquired3 :: em where
  "s5_acquired3 =
     s5_state [(''g1'', goblin ''g1'' 1), (''g2'', goblin ''g2'' 2), (''g3'', goblin ''g3'' 3)]
       (zeroStats\<lparr>ps_inUse := 3, ps_totalAcquired := 3, ps_totalCreated := 3\<rparr>)
       (zeroStats\<lparr>ps_size := 2, ps_available := 2, ps_totalReleased := 2\<rparr>)
       [pooledGoblin ''g1'' 1, pooledGoblin ''g2'' 2] [''g3''] s5_events5"

subsection \<open>What a call adds to the spy and to the event log\<close>







subsection \<open>Scenario S3: two threshold modifiers on the rate of one variable\<close>





subsection \<open>Variables within their bounds\<close>

definition varInRange :: "ident \<times> var_state \<Rightarrow> bool" where
  "varInRange kv \<longleftrightarrow> vs_min (snd kv) \<le> vs_value (snd kv) \<and> vs_value (snd kv) \<le> vs_max (snd kv)"

definition inRange :: "entity \<Rightarrow> bool" where
  "inRange e = list_all varInRange (e_variables e)"

text \<open>Every entity object the manager holds has all its variables within their bounds.\<close>

definition allInRange :: "em \<Rightarrow> bool" where
  "allInRange st = list_all (\<lambda>ke. inRange (snd ke)) (em_objs st)"

text \<open>A variable \<open>energy\<close> with bounds 0 and 50 and no initial value.\<close>

definition c4_energy :: var_cfg where
  "c4_energy = \<lparr>vc_initial = None, vc_baseRate = None, vc_min = Some 0, vc_max = Some 50,
     vc_changeMode = None, vc_direction = None\<rparr>"

definition c4_cfg :: config where
  "c4_cfg = \<lparr>cfg_id = ''c4'', cfg_nodes = [\<lparr>nid = ''energy'', body = Variable c4_energy\<rparr>],
     cfg_relationships = []\<rparr>"

definition valueOf :: "em \<Rightarrow> ident \<Rightarrow> ident \<Rightarrow> real option" where
  "valueOf st i v =
     (case objOf st i of None \<Rightarrow> None | Some e \<Rightarrow> map_option vs_value (map_of (e_variables e) v))"

subsection \<open>Incompatible traits\<close>

text \<open>The trait and item nodes that a lookup by id finds, with their configuration.\<close>

definition traitNodes :: "config \<Rightarrow> (ident \<times> trait_cfg) list" where
  "traitNodes cfg =
     List.map_filter
       (\<lambda>i. case getNode cfg i of None \<Rightarrow> None | Some n \<Rightarrow> map_option (Pair i) (traitCfg n))
       (remdups (map nid (cfg_nodes cfg)))"

text \<open>No active trait has an active member of its \<open>incompatibleWith\<close>.\<close>

definition compatible :: "config \<Rightarrow> entity \<Rightarrow> bool" where
  "compatible cfg e =
     list_all (\<lambda>t. isNodeActive cfg e (fst t) \<longrightarrow> \<not> hasIncompatibility cfg e (snd t)) (traitNodes cfg)"

text \<open>
  The declarations are mutual and no trait lists itself: a trait that lists the trait \<open>u\<close>
  is listed by \<open>u\<close>.
\<close>

definition mutualIncompatibility :: "config \<Rightarrow> bool" where
  "mutualIncompatibility cfg =
     list_all (\<lambda>t. fst t \<notin> set (tc_incompatibleWith (snd t))
                  \<and> list_all (\<lambda>u. fst t \<in> set (tc_incompatibleWith (snd u))
                                   \<longrightarrow> fst u \<in> set (tc_incompatibleWith (snd t)))
                       (traitNodes cfg))
       (traitNodes cfg)"

definition layerMode :: "config \<Rightarrow> ident \<Rightarrow> string" where
  "layerMode cfg layerId =
     (case getNode cfg layerId of
        None \<Rightarrow> ''weighted''
      | Some n \<Rightarrow>
          (case body n of
             Layer l \<Rightarrow> (case ly_mode l of None \<Rightarrow> ''weighted'' | Some m \<Rightarrow> if m = [] then ''weighted'' else m)
           | _ \<Rightarrow> ''weighted''))"

text \<open>
  A layer \<open>mood\<close> with the traits \<open>calm\<close> and \<open>angry\<close>, each listing the other in
  \<open>incompatibleWith\<close>; the selection mode of the layer is the parameter. The layer is not
  rolled at generation.
\<close>

definition c7_trait :: "ident list \<Rightarrow> trait_cfg" where
  "c7_trait inc = \<lparr>tc_layerId = ''mood'', tc_baseWeight = None, tc_mode = None, tc_weightModifiers = [],
     tc_trigger = None, tc_autoRemove = None, tc_replaces = [], tc_incompatibleWith = inc,
     tc_eligibility = []\<rparr>"

definition c7_layer :: "string option \<Rightarrow> nat option \<Rightarrow> layer_cfg" where
  "c7_layer mode pickCount =
     \<lparr>ly_order = None, ly_rollAt = None, ly_traitIds = [''calm'', ''angry''],
      ly_mode = mode, ly_maxItems = None, ly_initialRolls = None, ly_pickCount = pickCount,
      ly_diminishingReturns = False, ly_weightFloor = None\<rparr>"

definition c7_nodes :: "layer_cfg \<Rightarrow> config" where
  "c7_nodes l = \<lparr>cfg_id = ''c7'',
     cfg_nodes =
       [\<lparr>nid = ''mood'', body = Layer l\<rparr>,
        \<lparr>nid = ''calm'', body = Trait (c7_trait [''angry''])\<rparr>,
        \<lparr>nid = ''angry'', body = Trait (c7_trait [''calm''])\<rparr>],
     cfg_relationships = []\<rparr>"

definition c7_cfg :: "string option \<Rightarrow> config" where
  "c7_cfg mode = c7_nodes (c7_layer mode None)"

text \<open>The same layer listing the variable \<open>hp\<close> before its two traits.\<close>

definition c7_listed :: config where
  "c7_listed = \<lparr>cfg_id = ''c7'',
     cfg_nodes =
       [\<lparr>nid = ''mood'', body = Layer ((c7_layer None None)\<lparr>ly_traitIds := [''hp'', ''calm'', ''angry'']\<rparr>)\<rparr>,
        hpNode,
        \<lparr>nid = ''calm'', body = Trait (c7_trait [''angry''])\<rparr>,
        \<lparr>nid = ''angry'', body = Trait (c7_trait [''calm''])\<rparr>],
     cfg_relationships = []\<rparr>"

text \<open>The entity generate builds for this configuration, and the entity after a roll picked \<open>calm\<close>.\<close>

definition c7_entity :: entity where
  "c7_entity = \<lparr>e_id = ''e1'', e_configId = ''c7'', e_createdAt = 0, e_presetId = None,
     e_attributes = [], e_variables = [], e_contexts = [],
     e_layers = [(''mood'', \<lparr>ls_active = [], ls_lastRoll = None\<rparr>)],
     e_modifiers = [], e_modifierStates = None, e_compounds = [], e_derived = [], e_actions = [],
     e_poolId = None, e_log = [''generated''], e_lastTick = 0\<rparr>"

definition c7_calm :: entity where
  "c7_calm = c7_entity\<lparr>e_layers := [(''mood'', \<lparr>ls_active = [''calm''], ls_lastRoll = Some 1\<rparr>)],
     e_log := [''generated'', ''traitActivated'']\<rparr>"

text \<open>
  What a selection of one node picks: nothing, or a listed node that passed the
  incompatibility check.
\<close>

definition singlePick :: "config \<Rightarrow> entity \<Rightarrow> ident \<Rightarrow> roll_result \<Rightarrow> bool" where
  "singlePick cfg e L r \<longleftrightarrow>
     rr_selected r = []
     \<or> (\<exists>t c. rr_selected r = [t] \<and> (t, c) \<in> set (getLayerTraits cfg L) \<and> \<not> hasIncompatibility cfg e c)"

subsection \<open>Compounds and their requirements\<close>



















section \<open>Verified properties\<close>

subsection \<open>Diminishing returns in calculateWeight\<close>

lemma applyInfluence_add_flat:
  assumes "isNodeActive cfg e (rel_sourceId r)" "evaluateConditions cfg e (rel_conditions r)"
    "rel_operation r = ''add''" "rel_scaling r = ''flat''" "0 \<le> b"
  shows "applyInfluence cfg e True b (Some w) r
       = Some (w + sgn (rel_value r) * sqrt \<bar>rel_value r\<bar> * sqrt b)"
  using assms
  by (simp add: applyInfluence_def calculateRelationshipValue_def diminish_def nanAdd_def Let_def)

lemma applyInfluence_skip:
  assumes "\<not> (isNodeActive cfg e (rel_sourceId r) \<and> evaluateConditions cfg e (rel_conditions r))"
  shows "applyInfluence cfg e u b w r = w"
  using assms by (auto simp add: applyInfluence_def)

text \<open>With a base weight that is not negative, no step of the two loops produces NaN.\<close>

lemma applyWeightModifier_number:
  assumes "0 \<le> b"
  shows "\<exists>w'. applyWeightModifier cfg e u b (Some w) m = Some w'"
  using assms by (simp add: applyWeightModifier_def diminish_def nanAdd_def)

lemma applyInfluence_number:
  assumes "0 \<le> b"
  shows "\<exists>w'. applyInfluence cfg e u b (Some w) r = Some w'"
  using assms by (simp add: applyInfluence_def diminish_def nanAdd_def Let_def)

lemma fold_number:
  assumes "\<And>w x. \<exists>w'. f (Some w) x = Some w'"
  shows "\<exists>w'. foldl f (Some w) xs = Some (w' :: real)"
proof (induction xs arbitrary: w)
  case Nil
  then show ?case by simp
next
  case (Cons x xs)
  obtain w1 where "f (Some w) x = Some w1"
    using assms by blast
  then show ?case
    using Cons.IH[of w1] by simp
qed

lemma weightAfter_number:
  assumes "0 \<le> baseWeightOf c"
  shows "\<exists>w. weightAfter cfg e (i, c) n = Some w"
proof -
  obtain w1 where "foldl (applyWeightModifier cfg e (usesDR cfg c) (baseWeightOf c))
      (Some (baseWeightOf c)) (tc_weightModifiers c) = Some w1"
    using fold_number[of "applyWeightModifier cfg e (usesDR cfg c) (baseWeightOf c)"]
      applyWeightModifier_number[OF assms] by blast
  then show ?thesis
    using fold_number[of "applyInfluence cfg e (usesDR cfg c) (baseWeightOf c)" w1]
      applyInfluence_number[OF assms]
    by (simp add: weightAfter_def Let_def)
qed

lemma weightAfter_Suc:
  assumes "n < length (influencesOf cfg i)"
  shows "weightAfter cfg e (i, c) (Suc n)
       = applyInfluence cfg e (usesDR cfg c) (baseWeightOf c) (weightAfter cfg e (i, c) n)
           (influencesOf cfg i ! n)"
  using assms by (simp add: weightAfter_def Let_def take_Suc_conv_app_nth)

lemma fold_influences:
  assumes "\<forall>r\<in>set rs. rel_operation r = ''add'' \<and> rel_scaling r = ''flat''" and "0 \<le> b"
  shows "foldl (applyInfluence cfg e True b) (Some w) rs
       = Some (w + (\<Sum>r\<leftarrow>filter (passing cfg e) rs. sgn (rel_value r) * sqrt \<bar>rel_value r\<bar> * sqrt b))"
  using assms(1)
proof (induction rs arbitrary: w)
  case Nil
  then show ?case by simp
next
  case (Cons r rs)
  show ?case
  proof (cases "passing cfg e r")
    case True
    then have "applyInfluence cfg e True b (Some w) r
        = Some (w + sgn (rel_value r) * sqrt \<bar>rel_value r\<bar> * sqrt b)"
      using Cons.prems assms(2) by (intro applyInfluence_add_flat) (auto simp: passing_def)
    then show ?thesis using Cons True by simp
  next
    case False
    then have "applyInfluence cfg e True b (Some w) r = Some w"
      by (intro applyInfluence_skip) (simp add: passing_def)
    then show ?thesis using Cons False by simp
  qed
qed

text \<open>
  With a negative base weight the square root is NaN, and so is the weight once an influence
  with a value other than 0 has been added.
\<close>

lemma negative_base_NaN:
  assumes "isNodeActive cfg e (rel_sourceId r)" "evaluateConditions cfg e (rel_conditions r)"
    "rel_operation r = ''add''" "rel_scaling r = ''flat''" "b < 0" "rel_value r \<noteq> 0"
  shows "applyInfluence cfg e True b w r = None"
  using assms
  by (simp add: applyInfluence_def calculateRelationshipValue_def diminish_def nanAdd_def Let_def
      split: option.splits)

text \<open>
  Claim C8. Let the layer of the trait have \<open>diminishingReturns = true\<close> and the base weight
  of the trait (\<open>selection.baseWeight ?? 20\<close>, taken before any modifier or influence) be
  not negative. Each weight_influence relationship with operation add and flat scaling whose
  source is active and whose conditions pass, whatever the other influences are, changes the
  weight by \<open>sign(\<Delta>) * sqrt |\<Delta>| * sqrt baseWeight\<close>, \<Delta> being its value: that is the
  difference of the weight after and before its iteration of the loop. When all influences
  are of this kind, the result is the weight after the trait's own weightModifiers plus the
  sum of these contributions, clamped below by the weight floor of the layer.
\<close>

theorem calculateWeight_diminishing:
  assumes "layerOf cfg (tc_layerId c) = Some l" and "ly_diminishingReturns l"
    and "0 \<le> baseWeightOf c"
  shows "(\<forall>n < length (influencesOf cfg i).
            rel_operation (influencesOf cfg i ! n) = ''add''
            \<and> rel_scaling (influencesOf cfg i ! n) = ''flat''
            \<and> passing cfg e (influencesOf cfg i ! n)
            \<longrightarrow> (\<exists>w. weightAfter cfg e (i, c) n = Some w
                     \<and> weightAfter cfg e (i, c) (Suc n)
                         = Some (w + sgn (rel_value (influencesOf cfg i ! n))
                                     * sqrt \<bar>rel_value (influencesOf cfg i ! n)\<bar>
                                     * sqrt (baseWeightOf c))))
     \<and> ((\<forall>r\<in>set (influencesOf cfg i). rel_operation r = ''add'' \<and> rel_scaling r = ''flat'')
          \<longrightarrow> (\<exists>w0. weightAfter cfg e (i, c) 0 = Some w0
                  \<and> calculateWeight cfg e (i, c)
                      = Some (max (case ly_weightFloor l of None \<Rightarrow> 0 | Some f \<Rightarrow> f)
                                (w0 + (\<Sum>r\<leftarrow>filter (passing cfg e) (influencesOf cfg i).
                                         sgn (rel_value r) * sqrt \<bar>rel_value r\<bar> * sqrt (baseWeightOf c))))))"
proof (intro conjI allI impI)
  fix n
  assume n: "n < length (influencesOf cfg i)"
    and r: "rel_operation (influencesOf cfg i ! n) = ''add''
            \<and> rel_scaling (influencesOf cfg i ! n) = ''flat''
            \<and> passing cfg e (influencesOf cfg i ! n)"
  obtain w where w: "weightAfter cfg e (i, c) n = Some w"
    using weightAfter_number[OF assms(3)] by blast
  have "usesDR cfg c"
    using assms(1,2) by (simp add: usesDR_def)
  then have "weightAfter cfg e (i, c) (Suc n)
      = Some (w + sgn (rel_value (influencesOf cfg i ! n)) * sqrt \<bar>rel_value (influencesOf cfg i ! n)\<bar>
                  * sqrt (baseWeightOf c))"
    using r assms(3) by (simp add: weightAfter_Suc[OF n] w applyInfluence_add_flat passing_def)
  with w show "\<exists>w. weightAfter cfg e (i, c) n = Some w
      \<and> weightAfter cfg e (i, c) (Suc n)
          = Some (w + sgn (rel_value (influencesOf cfg i ! n)) * sqrt \<bar>rel_value (influencesOf cfg i ! n)\<bar>
                      * sqrt (baseWeightOf c))"
    by blast
next
  assume all: "\<forall>r\<in>set (influencesOf cfg i). rel_operation r = ''add'' \<and> rel_scaling r = ''flat''"
  obtain w0 where w0: "weightAfter cfg e (i, c) 0 = Some w0"
    using weightAfter_number[OF assms(3)] by blast
  have dr: "usesDR cfg c"
    using assms(1,2) by (simp add: usesDR_def)
  have "weightAfter cfg e (i, c) (length (influencesOf cfg i))
      = foldl (applyInfluence cfg e True (baseWeightOf c)) (Some w0) (influencesOf cfg i)"
    using w0 dr by (simp add: weightAfter_def Let_def)
  then have "calculateWeight cfg e (i, c)
      = Some (max (case ly_weightFloor l of None \<Rightarrow> 0 | Some f \<Rightarrow> f)
                (w0 + (\<Sum>r\<leftarrow>filter (passing cfg e) (influencesOf cfg i).
                         sgn (rel_value r) * sqrt \<bar>rel_value r\<bar> * sqrt (baseWeightOf c))))"
    using assms(1) by (simp add: calculateWeight_def weightFloorOf_def fold_influences[OF all assms(3)])
  with w0 show "\<exists>w0. weightAfter cfg e (i, c) 0 = Some w0
      \<and> calculateWeight cfg e (i, c)
          = Some (max (case ly_weightFloor l of None \<Rightarrow> 0 | Some f \<Rightarrow> f)
                    (w0 + (\<Sum>r\<leftarrow>filter (passing cfg e) (influencesOf cfg i).
                             sgn (rel_value r) * sqrt \<bar>rel_value r\<bar> * sqrt (baseWeightOf c))))"
    by blast
qed

lemma sqrt_9: "sqrt 9 = 3"
  by (rule real_sqrt_unique) simp_all

lemma sqrt_16: "sqrt 16 = 4"
  by (rule real_sqrt_unique) simp_all

lemma s4_layerOf: "layerOf s4_cfg ''L'' = Some s4_layer"
  by (simp add: layerOf_def getNode_def s4_cfg_def)

lemma s4_influences: "influencesOf s4_cfg ''t'' = [s4_rel ''s1'', s4_rel ''s2'']"
  by (simp add: influencesOf_def getRelationshipsTo_def s4_cfg_def s4_rel_def)

lemma s4_passing:
  "passing s4_cfg s4_entity (s4_rel ''s1'')" "passing s4_cfg s4_entity (s4_rel ''s2'')"
  by (simp_all add: passing_def isNodeActive_def getNode_def s4_cfg_def s4_rel_def s4_trait_def
      s4_entity_def layerActive_def evaluateConditions_def)

lemma s4_start: "weightAfter s4_cfg s4_entity (''t'', s4_trait (Some 16)) 0 = Some 16"
  by (simp add: weightAfter_def Let_def s4_trait_def baseWeightOf_def)

text \<open>
  Scenario S4: base weight 16, two active sources each adding 9, diminishing returns on.
  The weight is 16 before the influences, 28 after the first, and the result is
  \<open>16 + 2 * (sqrt 9 * sqrt 16) = 40\<close>.
\<close>

theorem calculateWeight_diminishing_witness:
  "layerOf s4_cfg (tc_layerId (s4_trait (Some 16))) = Some s4_layer \<and> ly_diminishingReturns s4_layer
   \<and> 0 \<le> baseWeightOf (s4_trait (Some 16))
   \<and> list_all (\<lambda>r. rel_operation r = ''add'' \<and> rel_scaling r = ''flat'' \<and> passing s4_cfg s4_entity r)
        (influencesOf s4_cfg ''t'')
   \<and> weightAfter s4_cfg s4_entity (''t'', s4_trait (Some 16)) 0 = Some 16
   \<and> weightAfter s4_cfg s4_entity (''t'', s4_trait (Some 16)) 1 = Some 28
   \<and> calculateWeight s4_cfg s4_entity (''t'', s4_trait (Some 16)) = Some 40"
proof -
  have l: "layerOf s4_cfg (tc_layerId (s4_trait (Some 16))) = Some s4_layer"
    using s4_layerOf by (simp add: s4_trait_def)
  have d: "ly_diminishingReturns s4_layer"
    by (simp add: s4_layer_def)
  have b: "0 \<le> baseWeightOf (s4_trait (Some 16))"
    by (simp add: baseWeightOf_def s4_trait_def)
  have f: "list_all (\<lambda>r. rel_operation r = ''add'' \<and> rel_scaling r = ''flat'' \<and> passing s4_cfg s4_entity r)
      (influencesOf s4_cfg ''t'')"
    using s4_passing by (simp add: s4_influences s4_rel_def)
  note main = calculateWeight_diminishing[OF l d b, of "''t''" s4_entity]
  have n: "(0::nat) < length (influencesOf s4_cfg ''t'')"
    by (simp add: s4_influences)
  have r: "rel_operation (influencesOf s4_cfg ''t'' ! 0) = ''add''
      \<and> rel_scaling (influencesOf s4_cfg ''t'' ! 0) = ''flat''
      \<and> passing s4_cfg s4_entity (influencesOf s4_cfg ''t'' ! 0)"
    using s4_passing by (simp add: s4_influences s4_rel_def)
  from main[THEN conjunct1, rule_format, OF n r] obtain w where
    w: "weightAfter s4_cfg s4_entity (''t'', s4_trait (Some 16)) 0 = Some w"
      "weightAfter s4_cfg s4_entity (''t'', s4_trait (Some 16)) (Suc 0)
       = Some (w + sgn (rel_value (influencesOf s4_cfg ''t'' ! 0))
                   * sqrt \<bar>rel_value (influencesOf s4_cfg ''t'' ! 0)\<bar>
                   * sqrt (baseWeightOf (s4_trait (Some 16))))"
    by blast
  have "w = 16"
    using w(1) s4_start by simp
  then have one: "weightAfter s4_cfg s4_entity (''t'', s4_trait (Some 16)) 1 = Some 28"
    using w(2) by (simp add: s4_influences s4_rel_def baseWeightOf_def s4_trait_def sqrt_9 sqrt_16)
  have all: "\<forall>r\<in>set (influencesOf s4_cfg ''t''). rel_operation r = ''add'' \<and> rel_scaling r = ''flat''"
    by (simp add: s4_influences s4_rel_def)
  from main[THEN conjunct2, THEN mp, OF all] obtain w0 where
    w0: "weightAfter s4_cfg s4_entity (''t'', s4_trait (Some 16)) 0 = Some w0"
      "calculateWeight s4_cfg s4_entity (''t'', s4_trait (Some 16))
       = Some (max (case ly_weightFloor s4_layer of None \<Rightarrow> 0 | Some f \<Rightarrow> f)
                 (w0 + (\<Sum>r\<leftarrow>filter (passing s4_cfg s4_entity) (influencesOf s4_cfg ''t'').
                          sgn (rel_value r) * sqrt \<bar>rel_value r\<bar> * sqrt (baseWeightOf (s4_trait (Some 16))))))"
    by blast
  have "w0 = 16"
    using w0(1) s4_start by simp
  then have "calculateWeight s4_cfg s4_entity (''t'', s4_trait (Some 16)) = Some 40"
    using w0(2) s4_passing
    by (simp add: s4_influences s4_layer_def s4_rel_def baseWeightOf_def s4_trait_def sqrt_9 sqrt_16)
  with l d b f one s4_start show ?thesis by simp
qed
subsection \<open>What each step of the cascade changes\<close>

lemma foldl_inv:
  assumes "\<And>s x. P s \<Longrightarrow> P (f s x)" and "P s"
  shows "P (foldl f s xs)"
  using assms(2) by (induction xs arbitrary: s) (simp_all add: assms(1))

lemma checkCompound_frame: "checkCompound cfg e k = e\<lparr>e_compounds := e_compounds (checkCompound cfg e k)\<rparr>"
  by (simp add: checkCompound_def Let_def)

lemma foldl_frame_compounds:
  assumes "\<And>e x. f e x = e\<lparr>e_compounds := e_compounds (f e x)\<rparr>"
  shows "foldl f e xs = e\<lparr>e_compounds := e_compounds (foldl f e xs)\<rparr>"
proof (induction xs arbitrary: e)
  case Nil
  then show ?case by simp
next
  case (Cons x xs)
  have "foldl f (f e x) xs = (f e x)\<lparr>e_compounds := e_compounds (foldl f (f e x) xs)\<rparr>"
    by (rule Cons.IH)
  also have "\<dots> = e\<lparr>e_compounds := e_compounds (foldl f (f e x) xs)\<rparr>"
    by (subst assms) simp
  finally show ?case by simp
qed

lemma checkCompounds_frame: "checkCompounds cfg e = e\<lparr>e_compounds := e_compounds (checkCompounds cfg e)\<rparr>"
  unfolding checkCompounds_def by (rule foldl_frame_compounds) (rule checkCompound_frame)

lemma calculateDerivedOne_frame: "calculateDerivedOne e d = e\<lparr>e_derived := e_derived (calculateDerivedOne e d)\<rparr>"
  by (simp add: calculateDerivedOne_def split: option.splits)

lemma foldl_frame_derived:
  assumes "\<And>e x. f e x = e\<lparr>e_derived := e_derived (f e x)\<rparr>"
  shows "foldl f e xs = e\<lparr>e_derived := e_derived (foldl f e xs)\<rparr>"
proof (induction xs arbitrary: e)
  case Nil
  then show ?case by simp
next
  case (Cons x xs)
  have "foldl f (f e x) xs = (f e x)\<lparr>e_derived := e_derived (foldl f (f e x) xs)\<rparr>"
    by (rule Cons.IH)
  also have "\<dots> = e\<lparr>e_derived := e_derived (foldl f (f e x) xs)\<rparr>"
    by (subst assms) simp
  finally show ?case by simp
qed

lemma calculateDerived_frame: "calculateDerived cfg e = e\<lparr>e_derived := e_derived (calculateDerived cfg e)\<rparr>"
  unfolding calculateDerived_def by (rule foldl_frame_derived) (rule calculateDerivedOne_frame)

lemma recalculateRate_frame: "recalculateRate cfg e v = e\<lparr>e_variables := e_variables (recalculateRate cfg e v)\<rparr>"
  by (simp add: recalculateRate_def Let_def split: option.splits)

lemma foldl_frame_variables:
  assumes "\<And>e x. f e x = e\<lparr>e_variables := e_variables (f e x)\<rparr>"
  shows "foldl f e xs = e\<lparr>e_variables := e_variables (foldl f e xs)\<rparr>"
proof (induction xs arbitrary: e)
  case Nil
  then show ?case by simp
next
  case (Cons x xs)
  have "foldl f (f e x) xs = (f e x)\<lparr>e_variables := e_variables (foldl f (f e x) xs)\<rparr>"
    by (rule Cons.IH)
  also have "\<dots> = e\<lparr>e_variables := e_variables (foldl f (f e x) xs)\<rparr>"
    by (subst assms) simp
  finally show ?case by simp
qed

lemma recalculateRates_frame: "recalculateRates cfg e = e\<lparr>e_variables := e_variables (recalculateRates cfg e)\<rparr>"
  unfolding recalculateRates_def by (rule foldl_frame_variables) (rule recalculateRate_frame)


lemma cascade_fields:
  "e_compounds (calculateDerived cfg e) = e_compounds e"
  "e_compounds (recalculateRates cfg e) = e_compounds e"
  "e_derived (recalculateRates cfg e) = e_derived e"
  "e_derived (checkCompounds cfg e) = e_derived e"
  "e_variables (checkCompounds cfg e) = e_variables e"
  "e_variables (calculateDerived cfg e) = e_variables e"
  "e_attributes (checkCompounds cfg e) = e_attributes e"
  "e_attributes (calculateDerived cfg e) = e_attributes e"
  "e_attributes (recalculateRates cfg e) = e_attributes e"
  "e_layers (checkCompounds cfg e) = e_layers e"
  "e_layers (calculateDerived cfg e) = e_layers e"
  "e_layers (recalculateRates cfg e) = e_layers e"
  by (subst calculateDerived_frame recalculateRates_frame checkCompounds_frame, simp)+

subsection \<open>How generate finishes\<close>
















subsection \<open>Exclusive threshold modifiers\<close>

text \<open>
  Scenario S2: with hp at 15 only \<open>critical\<close> is active, raised to 45 only \<open>wounded\<close>,
  raised to 90 none.
\<close>

lemma s2_specificity:
  "modifiersOf s2_at15 ''e1'' = [''critical'']"
  "modifiersOf s2_at45 ''e1'' = [''wounded'']"
  "modifiersOf s2_at90 ''e1'' = []"
  by code_simp+

text \<open>
  Claim C3, the fallback. \<open>low\<close> (hp <= 50) is declared before \<open>high\<close> (hp >= 10), both
  triggers pass at hp = 30 and the operators are mixed, so the first candidate in
  declaration order is \<open>low\<close>. The candidates are collected in the order of the exclusive
  map, whose first key is \<open>high\<close>, and the arbiter activates \<open>high\<close>.
\<close>

theorem exclusive_fallback_order:
  "map fst (thresholdModifiers c3_cfg) = [''low'', ''high'']
   \<and> map fst (exclusiveGroups c3_cfg) = [''high'', ''low'']
   \<and> modifiersOf c3_at30 ''e1'' = [''high'']"
  by code_simp

subsection \<open>Rollback\<close>

text \<open>
  Claim C6, the rates. After the rollback the modifier list is the snapshotted one (empty),
  but the current rate of \<open>v\<close> is still the one computed with the modifier, 6; a cascade
  from the restored state gives 1.
\<close>

theorem rollback_keeps_stale_rate:
  "fst (rollback c6_modified ''e1'' 15)
   \<and> modifiersOf c6_rolledBack ''e1'' = []
   \<and> currentRateOf c6_rolledBack ''e1'' ''v'' = Some 6
   \<and> currentRateOf (cascadeTriple c6_cfg c6_rolledBack ''e1'') ''e1'' ''v'' = Some 1"
  by code_simp

subsection \<open>Entity ids at the facade\<close>

lemma getEntity_undefined: "''getEntity'' \<notin> set entityManagerMethods"
  by (simp add: entityManagerMethods_def)

lemma resolveEntity_id: "resolveEntity st (ById i) = Inl ''TypeError''"
  by (simp add: resolveEntity_def callGetEntity_def getEntity_undefined)

lemma resolveEntity_object: "resolveEntity st (ByObject e) = Inr (Some e)"
  by (simp add: resolveEntity_def)

text \<open>
  Claim C10. Called with an entity id, each of the facade methods isActionAvailable,
  getAvailableActions, selectAction, executeAction, getActionCooldown, rollLayer and
  rollOutcome throws a TypeError, since EntityManager defines no method getEntity; called
  with the entity object, each hands the entity to the SpawnManager method.
\<close>

theorem facade_id_TypeError:
  "facadeIsActionAvailable cfg st (ById i) actionId = Inl ''TypeError''
   \<and> facadeGetAvailableActions cfg st (ById i) = Inl ''TypeError''
   \<and> facadeSelectAction cfg st rn (ById i) = Inl ''TypeError''
   \<and> facadeExecuteAction cfg st (ById i) actionId = Inl ''TypeError''
   \<and> facadeGetActionCooldown cfg st (ById i) actionId = Inl ''TypeError''
   \<and> facadeRollLayer cfg now rnd k st (ById i) layerId = Inl ''TypeError''
   \<and> facadeRollOutcome cfg now rnd k st (ById i) layerId rolls = Inl ''TypeError''
   \<and> facadeIsActionAvailable cfg st (ByObject e) actionId = Inr (isActionAvailable cfg e actionId)
   \<and> facadeGetAvailableActions cfg st (ByObject e) = Inr (getAvailableActions cfg st e)
   \<and> facadeSelectAction cfg st rn (ByObject e) = Inr (selectAction cfg st rn e)
   \<and> facadeExecuteAction cfg st (ByObject e) actionId
       = Inr (fst (executeAction cfg e actionId), Some (snd (executeAction cfg e actionId)))
   \<and> facadeGetActionCooldown cfg st (ByObject e) actionId = Inr (getActionCooldown cfg e actionId)"
  by (simp add: facadeIsActionAvailable_def facadeGetAvailableActions_def facadeSelectAction_def
      facadeExecuteAction_def facadeGetActionCooldown_def facadeRollLayer_def facadeRollOutcome_def
      resolveEntity_id resolveEntity_object)

lemma spawned_s2_retrieve: "retrieve (spawned s2_cfg) ''e1'' \<noteq> None"
  by code_simp

text \<open>The entity \<open>e1\<close> is stored, and asking for its action by id still throws.\<close>

theorem facade_id_TypeError_witness:
  "retrieve (spawned s2_cfg) ''e1'' \<noteq> None
   \<and> facadeIsActionAvailable s2_cfg (spawned s2_cfg) (ById ''e1'') ''attack'' = Inl ''TypeError''
   \<and> facadeRollLayer s2_cfg 0 zeroRnd 0 (spawned s2_cfg) (ById ''e1'') ''mood'' = Inl ''TypeError''"
  using facade_id_TypeError[of s2_cfg "spawned s2_cfg" "''e1''" "''attack''" 0 0 zeroRnd 0 "''mood''" 0 c5_body]
    spawned_s2_retrieve
  by simp

subsection \<open>Pool round trip\<close>

lemma s5_step1:
  "acquire s5_cfg 1 ''g1'' zeroRnd 0 s5_start ''enemy_goblin'' noSpawnOverrides None
   = Inr (Some (goblin ''g1'' 1), False, s5_acquired1, 0)"
  by code_simp

lemma s5_step2:
  "acquire s5_cfg 2 ''g2'' zeroRnd 0 s5_acquired1 ''enemy_goblin'' noSpawnOverrides None
   = Inr (Some (goblin ''g2'' 2), False, s5_acquired2, 0)"
  by code_simp

lemma s5_step3: "release s5_acquired2 ''g1'' None = (True, s5_released1)"
  by code_simp

lemma s5_step4: "release s5_released1 ''g2'' None = (True, s5_released2)"
  by code_simp

lemma s5_step5:
  "acquire s5_cfg 3 ''g3'' zeroRnd 0 s5_released2 ''enemy_goblin'' noSpawnOverrides None
   = Inr (Some (goblin ''g3'' 3), False, s5_acquired3, 0)"
  by code_simp

lemma s5_chain: "s5_released = s5_released2"
  by (simp add: s5_released_def acquireGoblin_def s5_step1 s5_step2 s5_step3 s5_step4)

lemma s5_third: "acquireGoblin 3 ''g3'' s5_released = s5_acquired3" "cameFromPool 3 ''g3'' s5_released = Some False"
  by (simp_all add: s5_chain acquireGoblin_def cameFromPool_def s5_step5)

lemma s5_stats:
  "getPoolStats s5_released2 (Some ''enemies'')
   = zeroStats\<lparr>ps_size := 2, ps_available := 2, ps_totalReleased := 2\<rparr>"
  "getPoolStats s5_released2 (Some ''default'')
   = zeroStats\<lparr>ps_inUse := 2, ps_totalAcquired := 2, ps_totalCreated := 2\<rparr>"
  "getPoolStats s5_acquired3 (Some ''enemies'')
   = zeroStats\<lparr>ps_size := 2, ps_available := 2, ps_totalReleased := 2\<rparr>"
  "getPoolStats s5_acquired3 (Some ''default'')
   = zeroStats\<lparr>ps_inUse := 3, ps_totalAcquired := 3, ps_totalCreated := 3\<rparr>"
  "pooledIds s5_released2 ''enemies'' = [''g1'', ''g2'']"
  "pooledIds s5_acquired3 ''enemies'' = [''g1'', ''g2'']"
  by code_simp+

text \<open>
  Claim C9, scenario S5. After two acquires of \<open>enemy_goblin\<close> and the release of both
  entities the pool \<open>enemies\<close> reports available = 2 and inUse = 0. The third acquire, with
  no target pool, looks into the default pool, which is empty: it creates a third entity
  (not from the pool), the two pooled goblins stay in \<open>enemies\<close>, and the number of created
  entities, counted on the default pool, goes from 2 to 3.
\<close>

theorem acquire_ignores_rule_pool:
  "ps_available (getPoolStats s5_released (Some ''enemies'')) = 2
   \<and> ps_inUse (getPoolStats s5_released (Some ''enemies'')) = 0
   \<and> cameFromPool 3 ''g3'' s5_released = Some False
   \<and> pooledIds s5_released ''enemies'' = [''g1'', ''g2'']
   \<and> pooledIds (acquireGoblin 3 ''g3'' s5_released) ''enemies'' = [''g1'', ''g2'']
   \<and> ps_available (getPoolStats (acquireGoblin 3 ''g3'' s5_released) (Some ''enemies'')) = 2
   \<and> ps_totalCreated (getPoolStats s5_released (Some ''default'')) = 2
   \<and> ps_totalCreated (getPoolStats (acquireGoblin 3 ''g3'' s5_released) (Some ''default'')) = 3
   \<and> map_option e_poolId (retrieve (acquireGoblin 3 ''g3'' s5_released) ''g3'') = Some (Some ''enemies'')"
proof -
  have "map_option e_poolId (retrieve s5_acquired3 ''g3'') = Some (Some ''enemies'')"
    by code_simp
  then show ?thesis
    by (simp add: s5_third s5_stats) (simp add: s5_chain s5_stats zeroStats_def)
qed

subsection \<open>The cascade of a threshold pass\<close>















subsection \<open>Variables stay within their bounds\<close>

lemma list_all_update:
  assumes "list_all P xs" and "P (k, v)"
  shows "list_all P (AList.update k v xs)"
  using assms by (induction xs) auto

lemma allInRange_setEntity:
  assumes "allInRange st" and "inRange e"
  shows "allInRange (setEntity st i e)"
  using assms by (simp add: allInRange_def setEntity_def list_all_update)

lemma allInRange_objOf:
  assumes "allInRange st" and "objOf st i = Some e"
  shows "inRange e"
proof -
  have "(i, e) \<in> set (em_objs st)"
    using assms(2) by (simp add: objOf_def map_of_SomeD)
  then show ?thesis
    using assms(1) by (auto simp: allInRange_def list_all_iff)
qed

lemma allInRange_retrieve:
  assumes "allInRange st" and "retrieve st i = Some e"
  shows "inRange e"
  using assms by (auto simp: retrieve_def intro: allInRange_objOf split: if_splits)

lemma allInRange_fields [simp]:
  "allInRange (emit st ev a b) = allInRange st"
  "allInRange (st\<lparr>em_calls := c\<rparr>) = allInRange st"
  "allInRange (st\<lparr>em_cascadeDirty := d\<rparr>) = allInRange st"
  "allInRange (st\<lparr>em_cascadeEntity := ce\<rparr>) = allInRange st"
  "allInRange (st\<lparr>em_batchingCascade := bc\<rparr>) = allInRange st"
  by (simp_all add: allInRange_def emit_def)

lemma allInRange_smCall:
  assumes "\<And>e. inRange e \<Longrightarrow> inRange (f e)" and "allInRange st"
  shows "allInRange (smCall n f st i)"
  using assms
  by (auto simp: smCall_def allInRange_setEntity allInRange_objOf split: option.splits)

lemma inRange_recalculateRate:
  assumes "inRange e"
  shows "inRange (recalculateRate cfg e v)"
proof (cases "map_of (e_variables e) (fst v)")
  case None
  then show ?thesis using assms by (simp add: recalculateRate_def)
next
  case (Some s)
  then have "(fst v, s) \<in> set (e_variables e)"
    by (rule map_of_SomeD)
  then have "varInRange (fst v, s)"
    using assms by (auto simp: inRange_def list_all_iff)
  then show ?thesis
    using assms Some
    by (simp add: recalculateRate_def Let_def inRange_def list_all_update varInRange_def)
qed

lemma inRange_recalculateRates: "inRange e \<Longrightarrow> inRange (recalculateRates cfg e)"
  unfolding recalculateRates_def by (rule foldl_inv) (rule inRange_recalculateRate)

lemma inRange_cascade:
  "inRange (checkCompounds cfg e) = inRange e"
  "inRange (calculateDerived cfg e) = inRange e"
  by (simp_all add: inRange_def cascade_fields)

lemma allInRange_cascadeTriple: "allInRange st \<Longrightarrow> allInRange (cascadeTriple cfg st i)"
  by (simp add: cascadeTriple_def allInRange_smCall inRange_cascade inRange_recalculateRates)

lemma allInRange_runCascade: "allInRange st \<Longrightarrow> allInRange (runCascade cfg st i)"
  by (simp add: runCascade_def allInRange_cascadeTriple)

lemma inRange_applyModifierEntity: "inRange (applyModifierEntity now e m c) = inRange e"
  by (simp add: applyModifierEntity_def inRange_def Let_def split: option.splits)

lemma inRange_removeModifierEntity: "inRange (removeModifierEntity e m) = inRange e"
  by (simp add: removeModifierEntity_def inRange_def)

lemma allInRange_modify:
  assumes "allInRange st" and "retrieve st i = Some e" and "inRange e' = inRange e"
  shows "allInRange (setEntity st i e')"
  using assms allInRange_retrieve[OF assms(1,2)] by (simp add: allInRange_setEntity)

lemma allInRange_applyModifier:
  assumes "allInRange st"
  shows "allInRange (snd (applyModifier cfg now st i m c))"
proof (cases "retrieve st i")
  case None
  then show ?thesis using assms by (simp add: applyModifier_def)
next
  case (Some e)
  have "allInRange (setEntity st i (applyModifierEntity now e m c))"
    by (rule allInRange_modify[OF assms Some]) (rule inRange_applyModifierEntity)
  then show ?thesis
    using Some by (simp add: applyModifier_def Let_def allInRange_runCascade)
qed

lemma allInRange_removeModifier:
  assumes "allInRange st"
  shows "allInRange (snd (removeModifier cfg st i m))"
proof (cases "retrieve st i")
  case None
  then show ?thesis using assms by (simp add: removeModifier_def)
next
  case (Some e)
  have "allInRange (setEntity st i (removeModifierEntity e m))"
    by (rule allInRange_modify[OF assms Some]) (rule inRange_removeModifierEntity)
  then show ?thesis
    using Some assms by (simp add: removeModifier_def Let_def allInRange_runCascade)
qed

lemma variables_setLayerActive: "e_variables (setLayerActive e l xs) = e_variables e"
  by (simp add: setLayerActive_def split: option.splits)

lemma variables_ensureLayer: "e_variables (ensureLayer e l) = e_variables e"
  by (simp add: ensureLayer_def split: option.splits)

lemma variables_logEvent: "e_variables (logEvent e ev) = e_variables e"
  by (simp add: logEvent_def Let_def)

lemma variables_deactivateTrait: "e_variables (snd (deactivateTrait cfg e t)) = e_variables e"
  by (simp add: deactivateTrait_def variables_setLayerActive split: option.splits)

lemma variables_replaces:
  "e_variables (foldl (\<lambda>x r. snd (deactivateTrait cfg x r)) e rs) = e_variables e"
  by (induction rs arbitrary: e) (simp_all add: variables_deactivateTrait)

lemma variables_activateTrait: "e_variables (snd (activateTrait cfg e t)) = e_variables e"
  by (simp add: activateTrait_def Let_def variables_setLayerActive variables_ensureLayer
      variables_logEvent variables_replaces split: option.splits)

lemma allInRange_emActivateTrait:
  assumes "allInRange st"
  shows "allInRange (snd (emActivateTrait cfg st i t))"
proof (cases "retrieve st i")
  case None
  then show ?thesis using assms by (simp add: emActivateTrait_def)
next
  case (Some e)
  have "allInRange (setEntity st i (snd (activateTrait cfg e t)))"
    by (rule allInRange_modify[OF assms Some]) (simp add: inRange_def variables_activateTrait)
  then show ?thesis
    using Some by (simp add: emActivateTrait_def Let_def allInRange_runCascade)
qed

lemma allInRange_emDeactivateTrait:
  assumes "allInRange st"
  shows "allInRange (snd (emDeactivateTrait cfg st i t))"
proof (cases "retrieve st i")
  case None
  then show ?thesis using assms by (simp add: emDeactivateTrait_def)
next
  case (Some e)
  have "allInRange (setEntity st i (snd (deactivateTrait cfg e t)))"
    by (rule allInRange_modify[OF assms Some]) (simp add: inRange_def variables_deactivateTrait)
  then show ?thesis
    using Some by (simp add: emDeactivateTrait_def Let_def allInRange_runCascade)
qed

lemma allInRange_thresholdStep:
  "allInRange st \<Longrightarrow> allInRange (thresholdStep cfg now gw i st md)"
  by (simp add: thresholdStep_def Let_def allInRange_applyModifier allInRange_removeModifier
      split: option.splits)

lemma allInRange_checkModifierThresholds:
  assumes "allInRange st"
  shows "allInRange (checkModifierThresholds cfg now st i)"
proof (cases "objOf st i")
  case None
  then show ?thesis using assms by (simp add: checkModifierThresholds_def)
next
  case (Some e)
  have "allInRange (foldl (thresholdStep cfg now gw i)
          (st\<lparr>em_batchingCascade := True, em_cascadeDirty := False\<rparr>) mds)" for gw mds
    by (rule foldl_inv) (simp_all add: allInRange_thresholdStep assms)
  then show ?thesis
    using Some by (simp add: checkModifierThresholds_def Let_def allInRange_cascadeTriple)
qed

lemma allInRange_checkThresholdTrait:
  "allInRange st \<Longrightarrow> allInRange (checkThresholdTrait cfg i v st t)"
  by (simp add: checkThresholdTrait_def Let_def allInRange_emActivateTrait allInRange_emDeactivateTrait
      split: option.splits)

lemma allInRange_checkThresholds: "allInRange st \<Longrightarrow> allInRange (checkThresholds cfg st i v)"
  unfolding checkThresholds_def by (rule foldl_inv) (rule allInRange_checkThresholdTrait)

lemma clamp_bounds: "lo \<le> hi \<Longrightarrow> lo \<le> clamp lo hi v \<and> clamp lo hi v \<le> hi"
  by (simp add: clamp_def)

lemma inRange_write:
  assumes "inRange e" and "map_of (e_variables e) v = Some s"
  shows "inRange (e\<lparr>e_variables := AList.update v (s\<lparr>vs_value := clamp (vs_min s) (vs_max s) x\<rparr>) (e_variables e)\<rparr>)"
proof -
  have "(v, s) \<in> set (e_variables e)"
    using assms(2) by (rule map_of_SomeD)
  then have "varInRange (v, s)"
    using assms(1) by (auto simp: inRange_def list_all_iff)
  then have "vs_min s \<le> vs_max s"
    by (simp add: varInRange_def)
  then show ?thesis
    using assms(1) clamp_bounds[of "vs_min s" "vs_max s" x]
    by (simp add: inRange_def list_all_update varInRange_def)
qed

lemma allInRange_writeVariable:
  assumes "allInRange st"
  shows "allInRange (snd (writeVariable cfg now st i v f))"
proof (cases "retrieve st i")
  case None
  then show ?thesis using assms by (simp add: writeVariable_def)
next
  case (Some e)
  then have e: "inRange e"
    using assms by (rule allInRange_retrieve[rotated])
  show ?thesis
  proof (cases "map_of (e_variables e) v")
    case None
    then show ?thesis using assms Some by (simp add: writeVariable_def)
  next
    case s: (Some s)
    define nv where "nv = clamp (vs_min s) (vs_max s) (f (vs_value s))"
    define st1 where "st1 = setEntity st i
        (e\<lparr>e_variables := AList.update v (s\<lparr>vs_value := nv\<rparr>) (e_variables e)\<rparr>)"
    have st1: "allInRange st1"
      unfolding st1_def nv_def using assms inRange_write[OF e s] by (rule allInRange_setEntity)
    have "writeVariable cfg now st i v f
        = (if nv \<noteq> vs_value s
           then (True, emit (smCall ''calculateDerived'' (calculateDerived cfg)
                   (checkModifierThresholds cfg now (checkThresholds cfg st1 i v) i) i)
                   ''variableChanged'' i v)
           else (True, st1))"
      using Some s by (simp add: writeVariable_def Let_def nv_def st1_def)
    then show ?thesis
      using st1
      by (simp add: allInRange_smCall inRange_cascade allInRange_checkModifierThresholds
          allInRange_checkThresholds)
  qed
qed

lemma allInRange_tickVariable:
  assumes "allInRange st"
  shows "allInRange (tickVariable cfg d i st v)"
proof (cases "objOf st i")
  case None
  then show ?thesis using assms by (simp add: tickVariable_def)
next
  case (Some e)
  then have e: "inRange e"
    using assms by (rule allInRange_objOf[rotated])
  show ?thesis
  proof (cases "map_of (e_variables e) v")
    case None
    then show ?thesis using assms Some by (simp add: tickVariable_def)
  next
    case s: (Some s)
    define nv where "nv = clamp (vs_min s) (vs_max s) (vs_value s + vs_currentRate s * d)"
    define st1 where "st1 = setEntity st i
        (e\<lparr>e_variables := AList.update v (s\<lparr>vs_value := nv\<rparr>) (e_variables e)\<rparr>)"
    have st1: "allInRange st1"
      unfolding st1_def nv_def using assms inRange_write[OF e s] by (rule allInRange_setEntity)
    have "tickVariable cfg d i st v
        = (if vs_changeMode s = ''timed'' \<and> vs_direction s \<noteq> ''none''
           then if nv \<noteq> vs_value s
                then emit (checkThresholds cfg st1 i v) ''variableChanged'' i v
                else st1
           else st)"
      using Some s by (simp add: tickVariable_def Let_def nv_def st1_def)
    then show ?thesis
      using st1 assms by (simp add: allInRange_checkThresholds)
  qed
qed

lemma variables_expireStep: "e_variables (fst (expireStep now ex m)) = e_variables (fst ex)"
  by (simp add: expireStep_def Let_def split: option.splits)

lemma variables_expire: "e_variables (fst (foldl (expireStep now) ex ms)) = e_variables (fst ex)"
  by (induction ms arbitrary: ex) (simp_all add: variables_expireStep)

lemma allInRange_tick:
  assumes "allInRange st"
  shows "allInRange (snd (tick cfg now st i d))"
proof (cases "if i \<in> set (em_active st) then objOf st i else None")
  case None
  then show ?thesis using assms by (simp add: tick_def)
next
  case (Some e)
  then have obj: "objOf st i = Some e"
    by (simp split: if_splits)
  then have e: "inRange e"
    using assms by (rule allInRange_objOf[rotated])
  define ds where "ds = (case d of None \<Rightarrow> (now - e_lastTick e) / 1000 | Some x \<Rightarrow> x)"
  define st1 where "st1 = setEntity st i (e\<lparr>e_lastTick := now\<rparr>)"
  define st2 where "st2 = foldl (tickVariable cfg ds i) st1 (map fst (e_variables e))"
  define ex where "ex = (case objOf st2 i of None \<Rightarrow> (e, [])
                         | Some e2 \<Rightarrow> foldl (expireStep now) (e2, []) (rev (e_modifiers e2)))"
  define st3 where "st3 = setEntity st2 i (fst ex)"
  define st4 where "st4 = foldl (\<lambda>s m. snd (removeModifier cfg s i m)) st3 (snd ex)"
  define st5 where "st5 = checkModifierThresholds cfg now st4 i"
  define st6 where "st6 = (case objOf st5 i of None \<Rightarrow> st5
      | Some e5 \<Rightarrow> setEntity st5 i
          (e5\<lparr>e_actions := map (\<lambda>a. (fst a, if snd a > 0 then max 0 (snd a - ds) else snd a)) (e_actions e5)\<rparr>))"
  have "allInRange st1"
    unfolding st1_def using assms e by (simp add: allInRange_setEntity inRange_def)
  then have st2: "allInRange st2"
    unfolding st2_def by (rule foldl_inv[rotated]) (rule allInRange_tickVariable)
  have "inRange (fst ex)"
  proof (cases "objOf st2 i")
    case None
    then show ?thesis using e by (simp add: ex_def)
  next
    case (Some e2)
    then have "inRange e2"
      using st2 by (rule allInRange_objOf[rotated])
    then show ?thesis
      using Some by (simp add: ex_def inRange_def variables_expire)
  qed
  then have "allInRange st3"
    unfolding st3_def using st2 by (simp add: allInRange_setEntity)
  then have "allInRange st4"
    unfolding st4_def by (rule foldl_inv[rotated]) (rule allInRange_removeModifier)
  then have st5: "allInRange st5"
    unfolding st5_def by (rule allInRange_checkModifierThresholds)
  have st6: "allInRange st6"
  proof (cases "objOf st5 i")
    case None
    then show ?thesis using st5 by (simp add: st6_def)
  next
    case (Some e5)
    then have "inRange e5"
      using st5 by (rule allInRange_objOf[rotated])
    then show ?thesis
      using Some st5 by (simp add: st6_def allInRange_setEntity inRange_def)
  qed
  have "snd (tick cfg now st i d)
      = emit (smCall ''calculateDerived'' (calculateDerived cfg) st6 i) ''tick'' i []"
    by (simp only: tick_def Let_def ds_def st1_def st2_def ex_def st3_def st4_def st5_def st6_def
        Some option.case snd_conv)
  then show ?thesis
    using st6 by (simp add: allInRange_smCall inRange_cascade)
qed

text \<open>
  The writers of the running engine keep the bounds. If every variable of every entity
  object of the manager lies within its bounds \<open>[min, max]\<close>, it still does after
  setVariable, modifyVariable, tick, applyModifier, removeModifier, activateTrait and
  deactivateTrait called with numbers: a written value is clamped to the bounds of its
  variable, and the recalculations change rates only.
\<close>

lemma writers_keep_bounds:
  assumes "allInRange st"
  shows "allInRange (snd (setVariable cfg now st i v x))
     \<and> allInRange (snd (modifyVariable cfg now st i v x))
     \<and> allInRange (snd (tick cfg now st i dt))
     \<and> allInRange (snd (applyModifier cfg now st i m c))
     \<and> allInRange (snd (removeModifier cfg st i m))
     \<and> allInRange (snd (emActivateTrait cfg st i t))
     \<and> allInRange (snd (emDeactivateTrait cfg st i t))"
  using assms
  by (simp add: setVariable_def modifyVariable_def allInRange_writeVariable allInRange_tick
      allInRange_applyModifier allInRange_removeModifier allInRange_emActivateTrait
      allInRange_emDeactivateTrait)

text \<open>
  Claim C4 fails at generate. The variable \<open>energy\<close> has bounds 0 and 50 and no initial
  value. generate gives it the default 100 and does not clamp it, so the new entity is out
  of bounds before any mutation. The other paths of the code disagree with it: the reset of
  a pooled entity for reuse gives the same variable its minimum 0, and setVariable, asked
  for that very value 100, stores 50.
\<close>

theorem generate_outside_bounds:
  "valueOf (spawned c4_cfg) ''e1'' ''energy'' = Some 100
   \<and> map_option (\<lambda>e. map_option vs_max (map_of (e_variables e) ''energy'')) (objOf (spawned c4_cfg) ''e1'')
       = Some (Some 50)
   \<and> \<not> allInRange (spawned c4_cfg)
   \<and> (case generate c4_cfg 0 ''e1'' zeroRnd 0 noOverrides of Inl _ \<Rightarrow> False | Inr r \<Rightarrow> \<not> inRange (fst r))
   \<and> vs_value (initialVariable c4_energy) = 100
   \<and> vs_value (resetVariable c4_energy) = 0
   \<and> valueOf (snd (setVariable c4_cfg 1 (spawned c4_cfg) ''e1'' ''energy'' 100)) ''e1'' ''energy'' = Some 50"
  by code_simp
subsection \<open>Incompatible traits\<close>

lemma find_SomeD:
  assumes "find P xs = Some x"
  shows "x \<in> set xs \<and> P x"
  using assms by (induction xs) (auto split: if_splits)

lemma getNode_SomeD:
  assumes "getNode cfg i = Some n"
  shows "n \<in> set (cfg_nodes cfg) \<and> nid n = i"
  using find_SomeD[OF assms[unfolded getNode_def]] by simp

lemma set_map_filter: "set (List.map_filter f xs) = {y. \<exists>x\<in>set xs. f x = Some y}"
  unfolding List.map_filter_def by force

lemma traitNodes_iff:
  "(t, c) \<in> set (traitNodes cfg) \<longleftrightarrow> (\<exists>n. getNode cfg t = Some n \<and> traitCfg n = Some c)"
proof
  assume "(t, c) \<in> set (traitNodes cfg)"
  then show "\<exists>n. getNode cfg t = Some n \<and> traitCfg n = Some c"
    unfolding traitNodes_def set_map_filter by (auto split: option.splits)
next
  assume "\<exists>n. getNode cfg t = Some n \<and> traitCfg n = Some c"
  then obtain n where n: "getNode cfg t = Some n" "traitCfg n = Some c"
    by blast
  then have "t \<in> set (remdups (map nid (cfg_nodes cfg)))"
    using getNode_SomeD by force
  then show "(t, c) \<in> set (traitNodes cfg)"
    unfolding traitNodes_def set_map_filter using n by force
qed

lemma isNodeActive_trait:
  assumes "getNode cfg u = Some n" and "traitCfg n = Some c"
  shows "isNodeActive cfg e u \<longleftrightarrow> u \<in> set (layerActive e (tc_layerId c))"
  using assms by (auto simp: isNodeActive_def traitCfg_def split: node_body.splits)

lemma isNodeActive_grow:
  assumes "e_modifiers e' = e_modifiers e" and "e_compounds e' = e_compounds e"
    and "\<And>l. set (layerActive e' l) \<subseteq> insert t (set (layerActive e l))"
    and "isNodeActive cfg e' u"
  shows "isNodeActive cfg e u \<or> u = t"
  using assms(1,2,4) assms(3)
  by (auto simp: isNodeActive_def split: option.splits node_body.splits)

lemma isNodeActive_cong:
  assumes "e_modifiers e' = e_modifiers e" and "e_compounds e' = e_compounds e"
    and "\<And>l. layerActive e' l = layerActive e l"
  shows "isNodeActive cfg e' u = isNodeActive cfg e u"
  using assms by (simp add: isNodeActive_def split: option.splits node_body.splits)

lemma layerActive_ensureLayer: "layerActive (ensureLayer e L) l = layerActive e l"
  by (simp add: layerActive_def ensureLayer_def update_conv' split: option.splits)

lemma layerActive_setLayerActive:
  "layerActive (setLayerActive e L xs) l
   = (if l = L \<and> map_of (e_layers e) L \<noteq> None then xs else layerActive e l)"
  by (auto simp: layerActive_def setLayerActive_def update_conv' split: option.splits)

lemma deactivateTrait_cases:
  "snd (deactivateTrait cfg e r) = e
   \<or> (\<exists>L s. map_of (e_layers e) L = Some s
          \<and> snd (deactivateTrait cfg e r) = setLayerActive e L (remove1 r (ls_active s)))"
  by (auto simp: deactivateTrait_def split: option.splits)

lemma layerActive_deactivateTrait:
  "set (layerActive (snd (deactivateTrait cfg e r)) l) \<subseteq> set (layerActive e l)"
proof -
  consider "snd (deactivateTrait cfg e r) = e"
    | L s where "map_of (e_layers e) L = Some s"
        "snd (deactivateTrait cfg e r) = setLayerActive e L (remove1 r (ls_active s))"
    using deactivateTrait_cases by blast
  then show ?thesis
  proof cases
    case 1
    then show ?thesis by simp
  next
    case 2
    have "layerActive e L = ls_active s"
      using 2(1) by (simp add: layerActive_def)
    then show ?thesis
      using 2 set_remove1_subset[of r "ls_active s"] by (auto simp: layerActive_setLayerActive)
  qed
qed

lemma layerActive_replaces:
  "set (layerActive (foldl (\<lambda>x r. snd (deactivateTrait cfg x r)) e rs) l) \<subseteq> set (layerActive e l)"
proof (induction rs arbitrary: e)
  case Nil
  then show ?case by simp
next
  case (Cons r rs)
  then show ?case
    using layerActive_deactivateTrait[of cfg e r l] by fastforce
qed

lemma others_setLayerActive:
  "e_modifiers (setLayerActive e L xs) = e_modifiers e"
  "e_compounds (setLayerActive e L xs) = e_compounds e"
  by (simp_all add: setLayerActive_def split: option.splits)

lemma others_ensureLayer:
  "e_modifiers (ensureLayer e L) = e_modifiers e"
  "e_compounds (ensureLayer e L) = e_compounds e"
  by (simp_all add: ensureLayer_def split: option.splits)

lemma others_logEvent:
  "e_modifiers (logEvent e ev) = e_modifiers e"
  "e_compounds (logEvent e ev) = e_compounds e"
  "e_layers (logEvent e ev) = e_layers e"
  by (simp_all add: logEvent_def Let_def)

lemma others_deactivateTrait:
  "e_modifiers (snd (deactivateTrait cfg e r)) = e_modifiers e"
  "e_compounds (snd (deactivateTrait cfg e r)) = e_compounds e"
  by (simp_all add: deactivateTrait_def others_setLayerActive split: option.splits)

lemma others_replaces:
  "e_modifiers (foldl (\<lambda>x r. snd (deactivateTrait cfg x r)) e rs) = e_modifiers e"
  "e_compounds (foldl (\<lambda>x r. snd (deactivateTrait cfg x r)) e rs) = e_compounds e"
  by (induction rs arbitrary: e) (simp_all add: others_deactivateTrait)

lemma layerActive_logEvent: "layerActive (logEvent e ev) l = layerActive e l"
  by (simp add: layerActive_def others_logEvent)

lemma others_activateTrait:
  "e_modifiers (snd (activateTrait cfg e t)) = e_modifiers e"
  "e_compounds (snd (activateTrait cfg e t)) = e_compounds e"
  by (simp_all add: activateTrait_def Let_def others_setLayerActive others_ensureLayer others_logEvent
      others_replaces split: option.splits)

lemma layerActive_activateTrait:
  "set (layerActive (snd (activateTrait cfg e t)) l) \<subseteq> insert t (set (layerActive e l))"
proof -
  have "set (layerActive (foldl (\<lambda>x r. snd (deactivateTrait cfg x r)) (ensureLayer e L) rs) l')
      \<subseteq> set (layerActive e l')" for L rs l'
    using layerActive_replaces[of cfg "ensureLayer e L" rs l'] by (simp add: layerActive_ensureLayer)
  then show ?thesis
    by (auto simp: activateTrait_def Let_def layerActive_logEvent layerActive_setLayerActive
        layerActive_ensureLayer split: option.splits if_splits)
qed

lemma activateTrait_grow:
  assumes "isNodeActive cfg (snd (activateTrait cfg e t)) u"
  shows "isNodeActive cfg e u \<or> u = t"
  using others_activateTrait layerActive_activateTrait assms by (rule isNodeActive_grow)

lemma hasIncompatibility_iff:
  "hasIncompatibility cfg e c \<longleftrightarrow> (\<exists>x\<in>set (tc_incompatibleWith c). isNodeActive cfg e x)"
  by (simp add: hasIncompatibility_def list_ex_iff)

lemma compatible_iff:
  "compatible cfg e \<longleftrightarrow>
     (\<forall>u c. (u, c) \<in> set (traitNodes cfg) \<longrightarrow> isNodeActive cfg e u \<longrightarrow> \<not> hasIncompatibility cfg e c)"
  by (auto simp: compatible_def list_all_iff)

lemma compatible_cong:
  assumes "\<And>u. isNodeActive cfg e' u = isNodeActive cfg e u"
  shows "compatible cfg e' = compatible cfg e"
  by (simp add: compatible_iff hasIncompatibility_iff assms)

lemma compatible_activate:
  assumes mutual: "mutualIncompatibility cfg" and comp: "compatible cfg e"
    and t: "(t, c) \<in> set (traitNodes cfg)" and ok: "\<not> hasIncompatibility cfg e c"
  shows "compatible cfg (snd (activateTrait cfg e t))"
  unfolding compatible_iff hasIncompatibility_iff
proof (intro allI impI notI)
  fix u cu
  assume u: "(u, cu) \<in> set (traitNodes cfg)"
    and act: "isNodeActive cfg (snd (activateTrait cfg e t)) u"
    and "\<exists>x\<in>set (tc_incompatibleWith cu). isNodeActive cfg (snd (activateTrait cfg e t)) x"
  then obtain x where x: "x \<in> set (tc_incompatibleWith cu)"
    "isNodeActive cfg (snd (activateTrait cfg e t)) x"
    by blast
  have irrefl: "t \<notin> set (tc_incompatibleWith c)"
    using mutual t by (auto simp: mutualIncompatibility_def list_all_iff)
  have sym: "t \<in> set (tc_incompatibleWith cu) \<Longrightarrow> u \<in> set (tc_incompatibleWith c)"
    using mutual t u by (fastforce simp: mutualIncompatibility_def list_all_iff)
  have none: "\<And>y. y \<in> set (tc_incompatibleWith c) \<Longrightarrow> \<not> isNodeActive cfg e y"
    using ok by (auto simp: hasIncompatibility_iff)
  show False
  proof (cases "u = t")
    case True
    then have "cu = c"
      using t u by (auto simp: traitNodes_iff)
    then show False
      using x irrefl none activateTrait_grow[OF x(2)] by auto
  next
    case False
    then have ue: "isNodeActive cfg e u"
      using activateTrait_grow[OF act] by simp
    show False
    proof (cases "x = t")
      case True
      then show False using sym x(1) none ue by auto
    next
      case False
      then have "isNodeActive cfg e x"
        using activateTrait_grow[OF x(2)] by simp
      then show False
        using comp u ue x(1) by (auto simp: compatible_iff hasIncompatibility_iff)
    qed
  qed
qed

text \<open>
  A node listed by a layer is either no trait, and then activateTrait leaves the entity as
  it is, or a trait node read with its own configuration.
\<close>

lemma getLayerTraits_cases:
  assumes "(t, c) \<in> set (getLayerTraits cfg L)"
  shows "(\<forall>e. activateTrait cfg e t = (False, e)) \<or> (t, c) \<in> set (traitNodes cfg)"
proof -
  from assms obtain n where n: "getNode cfg t = Some n" "c = selectionView n"
    by (auto simp: getLayerTraits_def set_map_filter split: option.splits node_body.splits)
  show ?thesis
  proof (cases "traitCfg n")
    case None
    then show ?thesis
      using n(1) by (simp add: activateTrait_def)
  next
    case (Some c')
    then have "c = c'"
      using n(2) by (auto simp: selectionView_def traitCfg_def split: node_body.splits)
    then show ?thesis
      using n(1) Some by (auto simp: traitNodes_iff)
  qed
qed

lemma pickWeighted_mem: "pickWeighted ps r = Some i \<Longrightarrow> i \<in> fst ` set ps"
  by (induction ps arbitrary: r) (auto split: if_splits)

lemma selectWeighted_single: "singlePick cfg e L (fst (selectWeighted cfg rnd k e L))"
proof (cases "weightedPool cfg e L = []")
  case True
  then show ?thesis by (simp add: selectWeighted_def singlePick_def)
next
  case False
  define i where "i = (case pickWeighted (weightedPool cfg e L)
                              (rnd k * sum_list (map snd (weightedPool cfg e L))) of
                         None \<Rightarrow> fst (hd (weightedPool cfg e L)) | Some i \<Rightarrow> i)"
  have "i \<in> fst ` set (weightedPool cfg e L)"
    using False by (auto simp: i_def dest: pickWeighted_mem split: option.splits)
  then obtain c where "(i, c) \<in> set (getLayerTraits cfg L)" "\<not> hasIncompatibility cfg e c"
    by (auto simp: weightedPool_def set_map_filter split: if_splits option.splits)
  moreover have "rr_selected (fst (selectWeighted cfg rnd k e L)) = [i]"
    using False by (simp add: selectWeighted_def Let_def i_def)
  ultimately show ?thesis
    unfolding singlePick_def by blast
qed

lemma selectFirstMatch_single: "singlePick cfg e L (selectFirstMatch cfg e L)"
  by (auto simp: selectFirstMatch_def singlePick_def split: option.splits dest!: find_SomeD)

lemma rollLayer_single:
  assumes "rollLayer cfg now rnd k e L = Inr (r, e', k')"
    and "layerMode cfg L \<noteq> ''allMatching''" and "layerMode cfg L \<noteq> ''pickN''"
  shows "e' = e
     \<or> (singlePick cfg e L r
         \<and> (\<exists>s. map_of (e_layers (foldl (\<lambda>x t. snd (activateTrait cfg x t)) e (rr_selected r))) L = Some s
                \<and> e' = (foldl (\<lambda>x t. snd (activateTrait cfg x t)) e (rr_selected r))
                         \<lparr>e_layers := AList.update L (s\<lparr>ls_lastRoll := Some now\<rparr>)
                            (e_layers (foldl (\<lambda>x t. snd (activateTrait cfg x t)) e (rr_selected r)))\<rparr>))"
  using assms selectWeighted_single[of cfg e L rnd k] selectFirstMatch_single[of cfg e L]
  unfolding rollLayer_def layerMode_def
  by (auto simp: Let_def split: option.splits node_body.splits if_splits simp del: AList.update.simps)

lemma isNodeActive_lastRoll:
  assumes "map_of (e_layers e) L = Some s"
  shows "isNodeActive cfg (e\<lparr>e_layers := AList.update L (s\<lparr>ls_lastRoll := x\<rparr>) (e_layers e)\<rparr>) u
         = isNodeActive cfg e u"
  by (rule isNodeActive_cong) (use assms in \<open>auto simp: layerActive_def update_conv'\<close>)

text \<open>
  Claim C7, as far as it holds. When the declarations are mutual and no trait lists itself,
  a roll of a layer in a mode that selects one node (weighted, firstMatch) keeps the
  invariant: if no active trait had an active member of its \<open>incompatibleWith\<close> before the
  roll, none has after it.
\<close>

theorem single_selection_compatible:
  assumes "mutualIncompatibility cfg" and "compatible cfg e"
    and "rollLayer cfg now rnd k e L = Inr (r, e', k')"
    and "layerMode cfg L \<noteq> ''allMatching''" and "layerMode cfg L \<noteq> ''pickN''"
  shows "compatible cfg e'"
proof -
  from rollLayer_single[OF assms(3-5)] consider "e' = e"
    | s where "singlePick cfg e L r"
        "map_of (e_layers (foldl (\<lambda>x t. snd (activateTrait cfg x t)) e (rr_selected r))) L = Some s"
        "e' = (foldl (\<lambda>x t. snd (activateTrait cfg x t)) e (rr_selected r))
                \<lparr>e_layers := AList.update L (s\<lparr>ls_lastRoll := Some now\<rparr>)
                   (e_layers (foldl (\<lambda>x t. snd (activateTrait cfg x t)) e (rr_selected r)))\<rparr>"
    by blast
  then show ?thesis
  proof cases
    case 1
    then show ?thesis using assms(2) by simp
  next
    case 2
    have "compatible cfg (foldl (\<lambda>x t. snd (activateTrait cfg x t)) e (rr_selected r))"
    proof (cases "rr_selected r = []")
      case True
      then show ?thesis using assms(2) by simp
    next
      case False
      then obtain t c where t: "rr_selected r = [t]" "(t, c) \<in> set (getLayerTraits cfg L)"
        "\<not> hasIncompatibility cfg e c"
        using 2(1) unfolding singlePick_def by blast
      have "compatible cfg (snd (activateTrait cfg e t))"
        using getLayerTraits_cases[OF t(2)]
      proof
        assume "\<forall>e. activateTrait cfg e t = (False, e)"
        then show ?thesis using assms(2) by simp
      next
        assume "(t, c) \<in> set (traitNodes cfg)"
        with assms(1,2) show ?thesis using t(3) by (rule compatible_activate)
      qed
      then show ?thesis
        by (simp add: t(1))
    qed
    then show ?thesis
      unfolding 2(3) using compatible_cong[OF isNodeActive_lastRoll[OF 2(2)]] by simp
  qed
qed

lemma c7_weighted:
  "mutualIncompatibility (c7_cfg None)"
  "compatible (c7_cfg None) c7_entity"
  "layerMode (c7_cfg None) ''mood'' = ''weighted''"
  "rollLayer (c7_cfg None) 1 zeroRnd 0 c7_entity ''mood''
   = Inr (\<lparr>rr_success = True, rr_selected = [''calm''], rr_pool = [(''calm'', 20), (''angry'', 20)],
           rr_error = []\<rparr>, c7_calm, 1)"
  "layerActive c7_calm ''mood'' = [''calm'']"
  "hasIncompatibility (c7_cfg None) c7_calm (c7_trait [''calm''])"
  by code_simp+

text \<open>
  In weighted mode the first roll picks \<open>calm\<close>; \<open>angry\<close> is then excluded, and the entity
  stays compatible.
\<close>

theorem single_selection_compatible_witness:
  "mutualIncompatibility (c7_cfg None)
   \<and> compatible (c7_cfg None) c7_entity
   \<and> layerMode (c7_cfg None) ''mood'' = ''weighted''
   \<and> (\<exists>r. rollLayer (c7_cfg None) 1 zeroRnd 0 c7_entity ''mood'' = Inr (r, c7_calm, 1))
   \<and> layerActive c7_calm ''mood'' = [''calm'']
   \<and> compatible (c7_cfg None) c7_calm"
  using single_selection_compatible[OF c7_weighted(1,2,4)] c7_weighted by simp

text \<open>
  A layer may list a node that is no trait. Listed first and drawn with the random number 0,
  the variable \<open>hp\<close> is the selection of the weighted roll, with the default weight 20;
  activateTrait refuses it and the layer stays empty.
\<close>

lemma listed_variable_selected:
  "map fst (getLayerTraits c7_listed ''mood'') = [''hp'', ''calm'', ''angry'']"
  "weightedPool c7_listed c7_entity ''mood'' = [(''hp'', 20), (''calm'', 20), (''angry'', 20)]"
  "(case rollLayer c7_listed 1 zeroRnd 0 c7_entity ''mood'' of
      Inl _ \<Rightarrow> False
    | Inr x \<Rightarrow> rr_selected (fst x) = [''hp''] \<and> layerActive (fst (snd x)) ''mood'' = []
               \<and> compatible c7_listed (fst (snd x)))"
  by code_simp+

text \<open>
  Claim C7 as stated fails. \<open>calm\<close> and \<open>angry\<close> list each other. A roll in allMatching
  mode selects both, since neither is active when the candidates are filtered; a roll in
  pickN mode with a pick count of 2 draws both from the pool that was filtered before the
  first was activated; activateTrait activates \<open>calm\<close> while \<open>angry\<close> is active, without a
  check; and forcing both, as spawn does with forced traits, activates both.
\<close>

theorem incompatible_traits_activated:
  "generate (c7_cfg (Some ''allMatching'')) 0 ''e1'' zeroRnd 0 noOverrides = Inr (c7_entity, 0)
   \<and> mutualIncompatibility (c7_cfg (Some ''allMatching''))
   \<and> compatible (c7_cfg (Some ''allMatching'')) c7_entity
   \<and> (case rollLayer (c7_cfg (Some ''allMatching'')) 1 zeroRnd 0 c7_entity ''mood'' of
         Inl _ \<Rightarrow> False
       | Inr x \<Rightarrow> layerActive (fst (snd x)) ''mood'' = [''calm'', ''angry'']
                  \<and> \<not> compatible (c7_cfg (Some ''allMatching'')) (fst (snd x)))
   \<and> mutualIncompatibility (c7_nodes (c7_layer (Some ''pickN'') (Some 2)))
   \<and> compatible (c7_nodes (c7_layer (Some ''pickN'') (Some 2))) c7_entity
   \<and> (case rollLayer (c7_nodes (c7_layer (Some ''pickN'') (Some 2))) 1 zeroRnd 0 c7_entity ''mood'' of
         Inl _ \<Rightarrow> False
       | Inr x \<Rightarrow> layerActive (fst (snd x)) ''mood'' = [''calm'', ''angry'']
                  \<and> \<not> compatible (c7_nodes (c7_layer (Some ''pickN'') (Some 2))) (fst (snd x)))
   \<and> fst (activateTrait (c7_cfg None) (snd (activateTrait (c7_cfg None) c7_entity ''angry'')) ''calm'')
   \<and> \<not> compatible (c7_cfg None)
         (snd (activateTrait (c7_cfg None) (snd (activateTrait (c7_cfg None) c7_entity ''angry'')) ''calm''))
   \<and> \<not> compatible (c7_cfg None) (forceAll (c7_cfg None) c7_entity [''calm'', ''angry''])"
  by code_simp
subsection \<open>Compounds after a cascade\<close>














































end
